theory Spec2Isabelle
  imports Complex_Main
begin

section \<open>Data model (types/trading.ts)\<close>

text \<open>
  JavaScript numbers are modelled as reals. The risk manager and the engine are
  given twice: first with exact arithmetic (no rounding, no NaN, no infinities),
  then, in the sections on double arithmetic, with every operation rounded to
  double precision. An optional field \<open>f?: number\<close> is a \<open>real option\<close>. ISO timestamps are modelled
  as a number of milliseconds, identifiers as opaque strings. The string-literal unions
  of the source are datatypes. The signal record is polymorphic in the type of its
  symbol field: the engine receives a \<open>symbol\<close>, the parser produces the matched text
  through an unchecked cast.
\<close>

datatype symbol = BTC | GOLD

datatype action = BUY | SELL

datatype signal_status = Pending | Executed | Failed

datatype trade_status = TradeOpen | TradeClosed

type_synonym jsstring = "nat list"
  \<comment> \<open>a JavaScript string: its UTF-16 code units\<close>

record 'sym TradingSignal =
  s_id :: string
  s_channelId :: string
  s_symbol :: 'sym
  s_action :: action
  s_price :: real
  s_quantity :: real
  s_signalText :: jsstring
  s_parsedAt :: nat
  s_status :: signal_status

record PaperTrade =
  t_id :: string
  t_signalId :: string
  t_symbol :: symbol
  t_action :: action
  t_entryPrice :: real
  t_quantity :: real
  t_currentPrice :: "real option"
  t_pnl :: real
  t_status :: trade_status
  t_executedAt :: nat
  t_closedAt :: "nat option"
  t_stopLoss :: "real option"
  t_takeProfit :: "real option"
  t_maxDrawdown :: "real option"
  t_holdingPeriod :: "real option"
  t_returnPercentage :: "real option"

record TradingAccount =
  balance :: real
  acct_maxDailyLoss :: "real option"
  dailyLossUsed :: "real option"
  lastResetDate :: "nat option"

record MarketPrice =
  m_symbol :: symbol
  m_price :: real
  m_change24h :: real
  m_lastUpdated :: nat
  m_rsi :: "real option"
  m_volume24h :: "real option"
  m_volatility :: "real option"

record RiskSettings =
  maxDailyLoss :: real
  maxPositionSize :: real
  stopLossPercentage :: real
  takeProfitPercentage :: real
  maxOpenPositions :: real
  riskPerTrade :: real
  enableAutoStopLoss :: bool
  enableAutoTakeProfit :: bool
  enableDailyLossLimit :: bool

text \<open>Truthiness of an optional number: \<open>undefined\<close> and \<open>0\<close> are falsy.\<close>

definition truthy :: "real option \<Rightarrow> bool" where
  "truthy v = (case v of None \<Rightarrow> False | Some x \<Rightarrow> x \<noteq> 0)"

text \<open>\<open>v || d\<close> on an optional number.\<close>

definition orElse :: "real option \<Rightarrow> real \<Rightarrow> real" where
  "orElse v d = (case v of None \<Rightarrow> d | Some x \<Rightarrow> if x \<noteq> 0 then x else d)"

text \<open>
  The calendar day of a timestamp, standing for \<open>toDateString()\<close> (taken in UTC
  here; the source uses the local time zone).
\<close>

definition dayOf :: "nat \<Rightarrow> nat" where
  "dayOf t = t div 86400000"

section \<open>Risk manager (services/riskManagementService.ts)\<close>

text \<open>
  Reason strings are built by formatting numbers; the model keeps the kind of
  message and the numbers that are formatted into it.
\<close>

datatype reason =
    DailyLossLimitReached real real
  | MaxOpenPositionsReached real
  | PositionSizeTooLarge real
  | PositionSizeAdjusted real real
  | InsufficientBalance real real

datatype exit_reason = StopLossTriggered real | TakeProfitTriggered real

record Validation =
  canExecute :: bool
  v_reason :: "reason option"
  adjustedQuantity :: "real option"

definition defaultRiskSettings :: RiskSettings where
  "defaultRiskSettings =
     \<lparr> maxDailyLoss = 2000, maxPositionSize = 5000, stopLossPercentage = 2,
       takeProfitPercentage = 4, maxOpenPositions = 5, riskPerTrade = 25,
       enableAutoStopLoss = True, enableAutoTakeProfit = True,
       enableDailyLossLimit = True \<rparr>"

text \<open>
  \<open>checkDailyLossLimit\<close> mutates the account it is given (the day-rollover reset),
  so the model returns the account next to the verdict. \<open>now\<close> is the clock reading.
\<close>

definition checkDailyLossLimit ::
  "RiskSettings \<Rightarrow> nat \<Rightarrow> TradingAccount \<Rightarrow> (bool \<times> reason option) \<times> TradingAccount" where
  "checkDailyLossLimit rs now acct =
     (let today = Some (dayOf now);
          lastReset = map_option dayOf (lastResetDate acct);
          acct1 = (if today \<noteq> lastReset
                   then acct\<lparr>dailyLossUsed := Some 0, lastResetDate := Some now\<rparr>
                   else acct);
          used = orElse (dailyLossUsed acct1) 0;
          maxLoss = orElse (acct_maxDailyLoss acct1) (maxDailyLoss rs)
      in if used \<ge> maxLoss
         then ((False, Some (DailyLossLimitReached used maxLoss)), acct1)
         else ((True, None), acct1))"

text \<open>
  \<open>validateSignalExecution\<close> is one function in the source. Its two local constants
  are given here as functions, \<open>maxPositionValue\<close> and \<open>scaledQuantity\<close> (the
  source's \<open>adjustedQuantity\<close>), and its body in the order of its checks:
  \<open>sizeAndBalanceChecks\<close> is the part from the position-size check on,
  \<open>positionChecks\<close> the part from the open-positions check on, and
  \<open>validateSignalExecution\<close> puts the daily-loss check in front. A division by a
  price of zero happens only under a negative cap, where the source's quotient
  is \<open>-Infinity\<close> and the model's is 0: both are rejected as not positive.
\<close>

definition maxPositionValue :: "RiskSettings \<Rightarrow> TradingAccount \<Rightarrow> real" where
  "maxPositionValue rs acct =
     min (maxPositionSize rs) (balance acct * (riskPerTrade rs / 100))"

definition scaledQuantity :: "RiskSettings \<Rightarrow> TradingAccount \<Rightarrow> real \<Rightarrow> real" where
  "scaledQuantity rs acct p =
     of_int \<lfloor>maxPositionValue rs acct / p * 100\<rfloor> / 100"

definition sizeAndBalanceChecks ::
  "RiskSettings \<Rightarrow> symbol TradingSignal \<Rightarrow> TradingAccount \<Rightarrow> Validation" where
  "sizeAndBalanceChecks rs signal acct =
     (let positionValue = s_price signal * s_quantity signal;
          cap = maxPositionValue rs acct
      in if positionValue > cap then
           (let adjusted = scaledQuantity rs acct (s_price signal)
            in if adjusted \<le> 0
               then \<lparr> canExecute = False, v_reason = Some (PositionSizeTooLarge cap),
                      adjustedQuantity = None \<rparr>
               else \<lparr> canExecute = True,
                      v_reason = Some (PositionSizeAdjusted (s_quantity signal) adjusted),
                      adjustedQuantity = Some adjusted \<rparr>)
         else if s_action signal = BUY \<and> positionValue > balance acct
         then \<lparr> canExecute = False,
                v_reason = Some (InsufficientBalance positionValue (balance acct)),
                adjustedQuantity = None \<rparr>
         else \<lparr> canExecute = True, v_reason = None, adjustedQuantity = None \<rparr>)"

definition positionChecks ::
  "RiskSettings \<Rightarrow> symbol TradingSignal \<Rightarrow> TradingAccount \<Rightarrow> PaperTrade list \<Rightarrow> Validation" where
  "positionChecks rs signal acct openTrades =
     (if real (length openTrades) \<ge> maxOpenPositions rs
      then \<lparr> canExecute = False,
             v_reason = Some (MaxOpenPositionsReached (maxOpenPositions rs)),
             adjustedQuantity = None \<rparr>
      else sizeAndBalanceChecks rs signal acct)"

definition validateSignalExecution ::
  "RiskSettings \<Rightarrow> nat \<Rightarrow> symbol TradingSignal \<Rightarrow> TradingAccount \<Rightarrow> PaperTrade list
     \<Rightarrow> Validation \<times> TradingAccount" where
  "validateSignalExecution rs now signal acct openTrades =
     (if enableDailyLossLimit rs then
        (case checkDailyLossLimit rs now acct of
           ((False, r), acct1) \<Rightarrow>
             (\<lparr> canExecute = False, v_reason = r, adjustedQuantity = None \<rparr>, acct1)
         | ((True, r), acct1) \<Rightarrow> (positionChecks rs signal acct1 openTrades, acct1))
      else (positionChecks rs signal acct openTrades, acct))"

definition calculateRiskLevels :: "RiskSettings \<Rightarrow> symbol TradingSignal \<Rightarrow> real \<times> real" where
  "calculateRiskLevels rs signal =
     (let stopLossMultiplier = stopLossPercentage rs / 100;
          takeProfitMultiplier = takeProfitPercentage rs / 100
      in if s_action signal = BUY
         then (s_price signal * (1 - stopLossMultiplier),
               s_price signal * (1 + takeProfitMultiplier))
         else (s_price signal * (1 + stopLossMultiplier),
               s_price signal * (1 - takeProfitMultiplier)))"

definition checkStopLossAndTakeProfit ::
  "PaperTrade \<Rightarrow> real \<Rightarrow> bool \<times> exit_reason option" where
  "checkStopLossAndTakeProfit trade currentPrice =
     (if \<not> truthy (t_stopLoss trade) \<and> \<not> truthy (t_takeProfit trade) then (False, None)
      else if t_action trade = BUY then
        (if truthy (t_stopLoss trade) \<and> currentPrice \<le> the (t_stopLoss trade)
         then (True, Some (StopLossTriggered currentPrice))
         else if truthy (t_takeProfit trade) \<and> currentPrice \<ge> the (t_takeProfit trade)
         then (True, Some (TakeProfitTriggered currentPrice))
         else (False, None))
      else
        (if truthy (t_stopLoss trade) \<and> currentPrice \<ge> the (t_stopLoss trade)
         then (True, Some (StopLossTriggered currentPrice))
         else if truthy (t_takeProfit trade) \<and> currentPrice \<le> the (t_takeProfit trade)
         then (True, Some (TakeProfitTriggered currentPrice))
         else (False, None)))"

definition updateDailyLoss :: "nat \<Rightarrow> TradingAccount \<Rightarrow> real \<Rightarrow> TradingAccount" where
  "updateDailyLoss now acct lossAmount =
     (if lossAmount > 0 then acct
      else
        (let today = Some (dayOf now);
             lastReset = map_option dayOf (lastResetDate acct);
             acct1 = (if today \<noteq> lastReset
                      then acct\<lparr>dailyLossUsed := Some 0, lastResetDate := Some now\<rparr>
                      else acct)
         in acct1\<lparr>dailyLossUsed := Some (orElse (dailyLossUsed acct1) 0 + \<bar>lossAmount\<bar>)\<rparr>))"

section \<open>Paper trading engine (services/paperTradingService.ts)\<close>

record engine =
  trades :: "PaperTrade list"
  account :: TradingAccount
  marketPrices :: "MarketPrice list"

datatype error =
    RiskError reason
  | RiskValidationFailed
  | InsufficientBalanceForTrade
  | TradeNotFoundOrClosed

definition initialEngine :: "nat \<Rightarrow> engine" where
  "initialEngine created =
     \<lparr> trades = [],
       account = \<lparr> balance = 10000, acct_maxDailyLoss = None, dailyLossUsed = None,
                   lastResetDate = None \<rparr>,
       marketPrices =
         [\<lparr> m_symbol = BTC, m_price = 45000, m_change24h = 5 / 2, m_lastUpdated = created,
            m_rsi = None, m_volume24h = None, m_volatility = None \<rparr>,
          \<lparr> m_symbol = GOLD, m_price = 2000, m_change24h = - (4 / 5), m_lastUpdated = created,
            m_rsi = None, m_volume24h = None, m_volatility = None \<rparr>] \<rparr>"

text \<open>
  Every call of \<open>Math.random()\<close> is an input of the model: \<open>u\<close> below is the
  number the call returns, a real in \<open>[0, 1)\<close>.
\<close>

definition getCurrentPrice :: "MarketPrice list \<Rightarrow> symbol \<Rightarrow> real \<Rightarrow> real" where
  "getCurrentPrice prices symb u =
     (case find (\<lambda>p. m_symbol p = symb) prices of
        None \<Rightarrow> 0
      | Some marketPrice \<Rightarrow>
          (let fluctuation = (u - 1 / 2) * (2 / 100)
           in m_price marketPrice * (1 + fluctuation)))"

definition updateTradePnL :: "PaperTrade \<Rightarrow> PaperTrade" where
  "updateTradePnL trade =
     (if \<not> truthy (t_currentPrice trade) then trade
      else if t_action trade = BUY
      then trade\<lparr>t_pnl := (the (t_currentPrice trade) - t_entryPrice trade) * t_quantity trade\<rparr>
      else trade\<lparr>t_pnl := (t_entryPrice trade - the (t_currentPrice trade)) * t_quantity trade\<rparr>)"

definition getOpenTrades :: "engine \<Rightarrow> PaperTrade list" where
  "getOpenTrades st = filter (\<lambda>t. t_status t = TradeOpen) (trades st)"

definition getClosedTrades :: "engine \<Rightarrow> PaperTrade list" where
  "getClosedTrades st = filter (\<lambda>t. t_status t = TradeClosed) (trades st)"

text \<open>
  \<open>executeSignal\<close>: \<open>now\<close> is the clock, \<open>tid\<close> the generated trade id and \<open>u\<close> the
  random number of the quote. The account is passed to the risk manager by
  reference, so its day-rollover reset stays in the engine also when the call
  throws.
\<close>

definition executeSignal ::
  "RiskSettings \<Rightarrow> nat \<Rightarrow> string \<Rightarrow> real \<Rightarrow> symbol TradingSignal \<Rightarrow> engine
     \<Rightarrow> (error + PaperTrade) \<times> engine" where
  "executeSignal rs now tid u signal st =
     (let openTrades = getOpenTrades st;
          (riskValidation, acct1) = validateSignalExecution rs now signal (account st) openTrades;
          st1 = st\<lparr>account := acct1\<rparr>
      in if \<not> canExecute riskValidation
         then (Inl (case v_reason riskValidation of
                      Some r \<Rightarrow> RiskError r | None \<Rightarrow> RiskValidationFailed), st1)
         else
           (let adjusted = orElse (adjustedQuantity riskValidation) (s_quantity signal);
                currentPrice = getCurrentPrice (marketPrices st1) (s_symbol signal) u;
                tradeValue = s_price signal * adjusted
            in if s_action signal = BUY \<and> balance acct1 < tradeValue
               then (Inl InsufficientBalanceForTrade, st1)
               else
                 (let (sl, tp) = calculateRiskLevels rs signal;
                      trade = \<lparr> t_id = tid, t_signalId = s_id signal,
                                t_symbol = s_symbol signal, t_action = s_action signal,
                                t_entryPrice = s_price signal, t_quantity = adjusted,
                                t_currentPrice = Some currentPrice, t_pnl = 0,
                                t_status = TradeOpen, t_executedAt = now, t_closedAt = None,
                                t_stopLoss = Some sl, t_takeProfit = Some tp,
                                t_maxDrawdown = Some 0, t_holdingPeriod = Some 0,
                                t_returnPercentage = Some 0 \<rparr>;
                      acct2 = (if s_action signal = BUY
                               then acct1\<lparr>balance := balance acct1 - tradeValue\<rparr>
                               else acct1\<lparr>balance := balance acct1 + tradeValue\<rparr>);
                      trade1 = updateTradePnL trade
                  in (Inr trade1, st1\<lparr>account := acct2, trades := trades st1 @ [trade1]\<rparr>))))"

text \<open>\<open>Array.prototype.findIndex\<close>: the first position whose element passes.\<close>

fun findIndex :: "('a \<Rightarrow> bool) \<Rightarrow> 'a list \<Rightarrow> nat option" where
  "findIndex P [] = None"
| "findIndex P (x # xs) = (if P x then Some 0 else map_option Suc (findIndex P xs))"

text \<open>
  \<open>closeTrade\<close> mutates the trade object that \<open>find\<close> returns; in the list model
  that is an update at the position of the first trade with the given id.
\<close>

definition closeTrade ::
  "nat \<Rightarrow> real \<Rightarrow> string \<Rightarrow> engine \<Rightarrow> (error + PaperTrade) \<times> engine" where
  "closeTrade now u tradeId st =
     (case findIndex (\<lambda>t. t_id t = tradeId) (trades st) of
        None \<Rightarrow> (Inl TradeNotFoundOrClosed, st)
      | Some i \<Rightarrow>
          (let trade = trades st ! i
           in if t_status trade = TradeClosed then (Inl TradeNotFoundOrClosed, st)
              else
                (let currentPrice = getCurrentPrice (marketPrices st) (t_symbol trade) u;
                     closeValue = currentPrice * t_quantity trade;
                     acct1 = (if t_action trade = BUY
                              then (account st)\<lparr>balance := balance (account st) + closeValue\<rparr>
                              else (account st)\<lparr>balance := balance (account st) - closeValue\<rparr>);
                     trade1 = updateTradePnL
                                (trade\<lparr>t_status := TradeClosed, t_closedAt := Some now,
                                       t_currentPrice := Some currentPrice\<rparr>)
                 in (Inr trade1, st\<lparr>account := acct1, trades := (trades st)[i := trade1]\<rparr>))))"

text \<open>
  The price-refresh pass, \<open>updateMarketPrices\<close>. The clock reading \<open>now\<close> is the
  same throughout one pass. \<open>pd k\<close> holds the four random numbers drawn for the
  \<open>k\<close>-th quote of the table, \<open>td k\<close> the two drawn for the \<open>k\<close>-th trade of the
  open-trade snapshot: the one of its re-quote and the one \<open>closeTrade\<close> draws if
  the trade is closed.
\<close>

fun perturbPrices ::
  "nat \<Rightarrow> (nat \<Rightarrow> real \<times> real \<times> real \<times> real) \<Rightarrow> nat \<Rightarrow> MarketPrice list \<Rightarrow> MarketPrice list" where
  "perturbPrices now pd k [] = []"
| "perturbPrices now pd k (p # ps) =
     (case pd k of (u1, u2, u3, u4) \<Rightarrow>
        (let fluctuation = (u1 - 1 / 2) * (1 / 100)
         in p\<lparr>m_price := m_price p * (1 + fluctuation), m_lastUpdated := now,
               m_rsi := Some (30 + u2 * 40),
               m_volatility := Some (2 / 100 + u3 * (3 / 100)),
               m_volume24h := Some (1000000 + u4 * 5000000)\<rparr>)
        # perturbPrices now pd (Suc k) ps)"

text \<open>
  One iteration of the loop over the open-trade snapshot, for the trade object at
  position \<open>i\<close> of the trade list. \<open>closeTrade\<close> is called without \<open>await\<close>: its
  body runs at once, and an error only rejects the promise nobody looks at. The
  return percentage of a trade with notional value zero is \<open>NaN\<close> or infinite in
  the source and 0 here; nothing reads it.
\<close>

definition refreshTrade :: "nat \<Rightarrow> real \<times> real \<Rightarrow> nat \<Rightarrow> engine \<Rightarrow> engine" where
  "refreshTrade now us i st =
     (let trade = trades st ! i;
          newPrice = getCurrentPrice (marketPrices st) (t_symbol trade) (fst us);
          trade1 = updateTradePnL (trade\<lparr>t_currentPrice := Some newPrice\<rparr>);
          trade2 = trade1\<lparr>t_holdingPeriod :=
                            Some ((real now - real (t_executedAt trade1)) / (1000 * 60))\<rparr>;
          trade3 = trade2\<lparr>t_returnPercentage :=
                            Some (t_pnl trade2 / (t_entryPrice trade2 * t_quantity trade2) * 100)\<rparr>;
          st1 = st\<lparr>trades := (trades st)[i := trade3]\<rparr>
      in if fst (checkStopLossAndTakeProfit trade3 newPrice)
         then snd (closeTrade now (snd us) (t_id trade3) st1)
         else st1)"

fun refreshTrades :: "nat \<Rightarrow> (nat \<Rightarrow> real \<times> real) \<Rightarrow> nat \<Rightarrow> nat list \<Rightarrow> engine \<Rightarrow> engine" where
  "refreshTrades now td k [] st = st"
| "refreshTrades now td k (i # is) st =
     refreshTrades now td (Suc k) is (refreshTrade now (td k) i st)"

definition openIndices :: "PaperTrade list \<Rightarrow> nat list" where
  "openIndices ts = filter (\<lambda>i. t_status (ts ! i) = TradeOpen) [0..<length ts]"

definition updateMarketPrices ::
  "nat \<Rightarrow> (nat \<Rightarrow> real \<times> real \<times> real \<times> real) \<Rightarrow> (nat \<Rightarrow> real \<times> real) \<Rightarrow> engine \<Rightarrow> engine" where
  "updateMarketPrices now pd td st =
     (let st1 = st\<lparr>marketPrices := perturbPrices now pd 0 (marketPrices st)\<rparr>
      in refreshTrades now td 0 (openIndices (trades st1)) st1)"

definition getTotalPnL :: "engine \<Rightarrow> real" where
  "getTotalPnL st = foldl (\<lambda>total trade. total + t_pnl trade) 0 (trades st)"

definition getWinRate :: "engine \<Rightarrow> real" where
  "getWinRate st =
     (let closedTrades = getClosedTrades st
      in if length closedTrades = 0 then 0
         else (let winningTrades = filter (\<lambda>trade. t_pnl trade > 0) closedTrades
               in real (length winningTrades) / real (length closedTrades) * 100))"

section \<open>Signal parser (services/telegramService.ts)\<close>

text \<open>
  Message texts are sequences of UTF-16 code units. \<open>ascii\<close> writes an ASCII
  literal as such a sequence.
\<close>

definition ascii :: "string \<Rightarrow> jsstring" where
  "ascii s = map of_char s"

text \<open>
  Case mapping of one code unit. ASCII letters are mapped as usual. Outside ASCII
  the table holds the code units that occur in the literals of the source file
  (\<open>U+00F0\<close>, \<open>U+0178\<close>, \<open>U+0161\<close> and their partners); every other code unit is
  left as it is. No code unit outside ASCII is equal to a literal's letter under
  the \<open>i\<close> flag, and none lower-cases to a letter that completes one of the
  keywords of \<open>determineAction\<close>, so the parser's result does not depend on the
  rest of the Unicode tables.
\<close>

definition upperUnit :: "nat \<Rightarrow> nat" where
  "upperUnit c =
     (if 97 \<le> c \<and> c \<le> 122 then c - 32
      else if c = 0xF0 then 0xD0
      else if c = 0xFF then 0x178
      else if c = 0x161 then 0x160
      else c)"

definition lowerUnit :: "nat \<Rightarrow> nat" where
  "lowerUnit c =
     (if 65 \<le> c \<and> c \<le> 90 then c + 32
      else if c = 0xD0 then 0xF0
      else if c = 0x178 then 0xFF
      else if c = 0x160 then 0x161
      else c)"

definition toUpperCase :: "jsstring \<Rightarrow> jsstring" where
  "toUpperCase s = map upperUnit s"

definition toLowerCase :: "jsstring \<Rightarrow> jsstring" where
  "toLowerCase s = map lowerUnit s"

fun startsWith :: "jsstring \<Rightarrow> jsstring \<Rightarrow> bool" where
  "startsWith s [] = True"
| "startsWith [] (k # ks) = False"
| "startsWith (x # xs) (k # ks) = (x = k \<and> startsWith xs ks)"

fun includesStr :: "jsstring \<Rightarrow> jsstring \<Rightarrow> bool" where
  "includesStr [] k = (k = [])"
| "includesStr (x # xs) k = (startsWith (x # xs) k \<or> includesStr xs k)"

subsection \<open>Regular expressions\<close>

text \<open>
  The three patterns use literals, the classes \<open>\s\<close>, \<open>\d\<close> and \<open>.\<close>,
  alternation, greedy \<open>?\<close>, \<open>*\<close> and \<open>+\<close>, the lazy \<open>.*?\<close> and capture groups.
  \<open>run\<close> lists the ways a pattern matches at the start of the input in the order
  in which a backtracking matcher tries them, each with the rest of the input and
  the captures; the first entry is the match the matcher reports.
\<close>

datatype atom = Lit nat | Space | Digit | AnyChar

definition isSpace :: "nat \<Rightarrow> bool" where
  "isSpace c =
     (c \<in> set [9, 10, 11, 12, 13, 32, 0xA0, 0x1680, 0x2028, 0x2029, 0x202F, 0x205F,
                0x3000, 0xFEFF] \<or> (0x2000 \<le> c \<and> c \<le> 0x200A))"

definition isDigit :: "nat \<Rightarrow> bool" where
  "isDigit c = (48 \<le> c \<and> c \<le> 57)"

definition isLineTerminator :: "nat \<Rightarrow> bool" where
  "isLineTerminator c = (c \<in> set [10, 13, 0x2028, 0x2029])"

fun amatch :: "atom \<Rightarrow> nat \<Rightarrow> bool" where
  "amatch (Lit c) x = (upperUnit x = upperUnit c)"
| "amatch Space x = isSpace x"
| "amatch Digit x = isDigit x"
| "amatch AnyChar x = (\<not> isLineTerminator x)"

datatype rx =
    Eps
  | Atom atom
  | Seq rx rx
  | Alt rx rx
  | Opt rx
  | Star atom
  | Plus atom
  | LazyStar atom
  | Group nat rx

type_synonym captures = "(nat \<times> jsstring) list"

fun greedy :: "atom \<Rightarrow> jsstring \<Rightarrow> jsstring list" where
  "greedy a [] = [[]]"
| "greedy a (x # xs) = (if amatch a x then greedy a xs @ [x # xs] else [x # xs])"

fun lazy :: "atom \<Rightarrow> jsstring \<Rightarrow> jsstring list" where
  "lazy a [] = [[]]"
| "lazy a (x # xs) = (x # xs) # (if amatch a x then lazy a xs else [])"

fun run :: "rx \<Rightarrow> jsstring \<Rightarrow> captures \<Rightarrow> (jsstring \<times> captures) list" where
  "run Eps s c = [(s, c)]"
| "run (Atom a) s c =
     (case s of [] \<Rightarrow> [] | x # xs \<Rightarrow> if amatch a x then [(xs, c)] else [])"
| "run (Seq r1 r2) s c = concat (map (\<lambda>(s', c'). run r2 s' c') (run r1 s c))"
| "run (Alt r1 r2) s c = run r1 s c @ run r2 s c"
| "run (Opt r) s c = run r s c @ [(s, c)]"
| "run (Star a) s c = map (\<lambda>s'. (s', c)) (greedy a s)"
| "run (Plus a) s c =
     (case s of [] \<Rightarrow> []
      | x # xs \<Rightarrow> if amatch a x then map (\<lambda>s'. (s', c)) (greedy a xs) else [])"
| "run (LazyStar a) s c = map (\<lambda>s'. (s', c)) (lazy a s)"
| "run (Group n r) s c =
     map (\<lambda>(s', c'). (s', (n, take (length s - length s') s) # c')) (run r s c)"

text \<open>\<open>text.match(pattern)\<close> without the \<open>g\<close> flag: the leftmost match.\<close>

fun matchRx :: "rx \<Rightarrow> jsstring \<Rightarrow> captures option" where
  "matchRx r [] = (case run r [] [] of [] \<Rightarrow> None | m # _ \<Rightarrow> Some (snd m))"
| "matchRx r (x # xs) =
     (case run r (x # xs) [] of [] \<Rightarrow> matchRx r xs | m # _ \<Rightarrow> Some (snd m))"

definition lit :: "jsstring \<Rightarrow> rx" where
  "lit s = foldr (\<lambda>c r. Seq (Atom (Lit c)) r) s Eps"

definition seqs :: "rx list \<Rightarrow> rx" where
  "seqs rs = foldr Seq rs Eps"

definition numberRx :: rx where
  "numberRx = seqs [Plus Digit, Opt (seqs [Atom (Lit 46), Plus Digit])]"

text \<open>
  The source file holds its emoji literals as the characters that the UTF-8 bytes
  of the emoji give when read as Windows-1252 (the rocket \<open>U+1F680\<close> is written
  \<open>U+00F0 U+0178 U+0161 U+20AC\<close>); the four literals are given here as the file
  has them.
\<close>

definition rocketLiteral :: jsstring where
  "rocketLiteral = [0xF0, 0x178, 0x161, 0x20AC]"

definition chartUpLiteral :: jsstring where
  "chartUpLiteral = [0xF0, 0x178, 0x201C, 0x2C6]"

definition chartDownLiteral :: jsstring where
  "chartDownLiteral = [0xF0, 0x178, 0x201C, 0x2030]"

definition redTriangleLiteral :: jsstring where
  "redTriangleLiteral = [0xF0, 0x178, 0x201D, 0xBB]"

definition pattern1 :: rx where
  "pattern1 =
     seqs [Alt (lit (ascii ''BUY'')) (lit (ascii ''SELL'')), Plus Space,
           Group 1 (Alt (lit (ascii ''BTC'')) (lit (ascii ''GOLD''))), Plus Space,
           Opt (Atom (Lit 64)), Star Space, Opt (Atom (Lit 36)), Group 2 numberRx]"

definition pattern2 :: rx where
  "pattern2 =
     seqs [Opt (Alt (lit rocketLiteral) (Alt (lit chartUpLiteral) (lit chartDownLiteral))),
           Star Space,
           Group 1 (Alt (lit (ascii ''BTC'')) (lit (ascii ''GOLD''))), Plus Space,
           Alt (lit (ascii ''Long''))
             (Alt (lit (ascii ''Short'')) (Alt (lit (ascii ''Buy'')) (lit (ascii ''Sell'')))),
           LazyStar AnyChar,
           Opt (seqs [lit (ascii ''Entry''), Opt (Atom (Lit 58)), Star Space]),
           Opt (Atom (Lit 36)), Group 2 numberRx]"

definition pattern3 :: rx where
  "pattern3 =
     seqs [lit (ascii ''Signal''), Opt (Atom (Lit 58)), Star Space,
           Group 1 (Alt (lit (ascii ''BUY'')) (lit (ascii ''SELL''))), Plus Space,
           Group 2 (Alt (lit (ascii ''BTC'')) (lit (ascii ''GOLD''))), Plus Space,
           Group 3 numberRx]"

definition signalPatterns :: "rx list" where
  "signalPatterns = [pattern1, pattern2, pattern3]"

subsection \<open>parseSignal\<close>

definition buyKeywords :: "jsstring list" where
  "buyKeywords =
     [ascii ''buy'', ascii ''long'', ascii ''bullish'', rocketLiteral, chartUpLiteral]"

definition sellKeywords :: "jsstring list" where
  "sellKeywords =
     [ascii ''sell'', ascii ''short'', ascii ''bearish'', chartDownLiteral, redTriangleLiteral]"

definition determineAction :: "jsstring \<Rightarrow> action option" where
  "determineAction t =
     (let lowerText = toLowerCase t
      in if list_ex (\<lambda>keyword. includesStr lowerText keyword) buyKeywords then Some BUY
         else if list_ex (\<lambda>keyword. includesStr lowerText keyword) sellKeywords then Some SELL
         else None)"

definition calculateQuantity :: "jsstring \<Rightarrow> real \<Rightarrow> real" where
  "calculateQuantity symb p = (if symb = ascii ''BTC'' then 1 / 100 else 1)"

definition digitsValue :: "jsstring \<Rightarrow> nat" where
  "digitsValue ds = foldl (\<lambda>acc d. 10 * acc + (d - 48)) 0 ds"

text \<open>
  \<open>parseFloat\<close> on the texts that reach it: the text of a capture group, which is
  either \<open>digits\<close>, \<open>digits.digits\<close> or a word of letters. \<open>None\<close> is \<open>NaN\<close>.
\<close>

definition parseFloat :: "jsstring option \<Rightarrow> real option" where
  "parseFloat arg =
     (case arg of
        None \<Rightarrow> None
      | Some s \<Rightarrow>
          (let ip = takeWhile isDigit s; rest = dropWhile isDigit s
           in if ip = [] then None
              else (case rest of
                      [] \<Rightarrow> Some (real (digitsValue ip))
                    | d # rest' \<Rightarrow>
                        if d = 46 then
                          (let fp = takeWhile isDigit rest'
                           in Some (real (digitsValue ip)
                                    + real (digitsValue fp) / 10 ^ length fp))
                        else Some (real (digitsValue ip)))))"

text \<open>\<open>a || b\<close> on optional strings: \<open>undefined\<close> and the empty string are falsy.\<close>

definition orElseStr :: "jsstring option \<Rightarrow> jsstring option \<Rightarrow> jsstring option" where
  "orElseStr a b = (case a of None \<Rightarrow> b | Some s \<Rightarrow> if s \<noteq> [] then Some s else b)"

text \<open>
  The loop of \<open>parseSignal\<close> over the patterns; \<open>now\<close> and \<open>sid\<close> stand for the
  clock and for the generated signal id.
\<close>

fun tryPatterns ::
  "nat \<Rightarrow> string \<Rightarrow> jsstring \<Rightarrow> string \<Rightarrow> rx list \<Rightarrow> jsstring TradingSignal option" where
  "tryPatterns now sid messageText channelId [] = None"
| "tryPatterns now sid messageText channelId (pattern # rest) =
     (case matchRx pattern messageText of
        None \<Rightarrow> tryPatterns now sid messageText channelId rest
      | Some m \<Rightarrow>
          (let act = determineAction messageText;
               symb = map_option toUpperCase (map_of m 1);
               p = parseFloat (orElseStr (map_of m 2) (map_of m 3))
           in if act \<noteq> None \<and> symb \<noteq> None \<and> symb \<noteq> Some [] \<and> truthy p
              then Some \<lparr> s_id = sid, s_channelId = channelId, s_symbol = the symb,
                          s_action = the act, s_price = the p,
                          s_quantity = calculateQuantity (the symb) (the p),
                          s_signalText = messageText, s_parsedAt = now,
                          s_status = Pending \<rparr>
              else tryPatterns now sid messageText channelId rest))"

definition parseSignal ::
  "nat \<Rightarrow> string \<Rightarrow> jsstring \<Rightarrow> string \<Rightarrow> jsstring TradingSignal option" where
  "parseSignal now sid messageText channelId =
     tryPatterns now sid messageText channelId signalPatterns"

section \<open>Runs of the engine\<close>

text \<open>
  What one iteration of the refresh loop writes into its trade object: the
  re-quoted trade, closed by \<open>closeTrade\<close> if an exit condition holds.
\<close>

definition requoted :: "nat \<Rightarrow> real \<Rightarrow> MarketPrice list \<Rightarrow> PaperTrade \<Rightarrow> PaperTrade" where
  "requoted now u prices trade =
     (let newPrice = getCurrentPrice prices (t_symbol trade) u;
          trade1 = updateTradePnL (trade\<lparr>t_currentPrice := Some newPrice\<rparr>);
          trade2 = trade1\<lparr>t_holdingPeriod :=
                            Some ((real now - real (t_executedAt trade1)) / (1000 * 60))\<rparr>
      in trade2\<lparr>t_returnPercentage :=
                  Some (t_pnl trade2 / (t_entryPrice trade2 * t_quantity trade2) * 100)\<rparr>)"

definition closedTrade :: "nat \<Rightarrow> real \<Rightarrow> MarketPrice list \<Rightarrow> PaperTrade \<Rightarrow> PaperTrade" where
  "closedTrade now u prices trade =
     updateTradePnL
       (trade\<lparr>t_status := TradeClosed, t_closedAt := Some now,
              t_currentPrice := Some (getCurrentPrice prices (t_symbol trade) u)\<rparr>)"

definition refreshed :: "nat \<Rightarrow> real \<times> real \<Rightarrow> MarketPrice list \<Rightarrow> PaperTrade \<Rightarrow> PaperTrade" where
  "refreshed now us prices trade =
     (let trade3 = requoted now (fst us) prices trade
      in if fst (checkStopLossAndTakeProfit trade3
                   (getCurrentPrice prices (t_symbol trade) (fst us)))
         then closedTrade now (snd us) prices trade3
         else trade3)"

text \<open>The fields a trade is created with and that no operation assigns afterwards.\<close>

definition openingData :: "PaperTrade \<Rightarrow> string \<times> string \<times> symbol \<times> action \<times> real \<times> real" where
  "openingData trade =
     (t_id trade, t_signalId trade, t_symbol trade, t_action trade, t_entryPrice trade,
      t_quantity trade)"

section \<open>The example scenario\<close>

definition scenarioSignal :: "symbol TradingSignal" where
  "scenarioSignal =
     \<lparr> s_id = ''signal_1'', s_channelId = ''demo_channel'', s_symbol = BTC,
       s_action = BUY, s_price = 44500, s_quantity = 1 / 10,
       s_signalText = ascii ''BUY BTC @ $44500'', s_parsedAt = 0, s_status = Pending \<rparr>"

text \<open>
  The quote table moves by less than half a percent per refresh and a quote lies
  within one percent of it, so a quote of 46000 needs several refreshes from the
  initial 45000. \<open>btcDraw u\<close> draws \<open>u\<close> for the BTC entry of the table and the
  midpoint everywhere else.
\<close>

definition btcDraw :: "real \<Rightarrow> nat \<Rightarrow> real \<times> real \<times> real \<times> real" where
  "btcDraw u k = (if k = 0 then u else 1 / 2, 1 / 2, 1 / 2, 1 / 2)"

definition scenarioOpened :: engine where
  "scenarioOpened =
     snd (executeSignal defaultRiskSettings 1000 ''trade_1'' (1 / 2) scenarioSignal
            (initialEngine 0))"

definition scenarioTick1 :: engine where
  "scenarioTick1 =
     updateMarketPrices 2000 (btcDraw (1 / 2 + 100 / 270)) (\<lambda>k. (1 / 2, 1 / 2)) scenarioOpened"

definition scenarioTick2 :: engine where
  "scenarioTick2 =
     updateMarketPrices 3000 (btcDraw (1 / 2 + 100 / 271)) (\<lambda>k. (1 / 2, 1 / 2)) scenarioTick1"

definition scenarioTick3 :: engine where
  "scenarioTick3 =
     updateMarketPrices 4000 (btcDraw (1 / 2 + 100 / 272)) (\<lambda>k. (1 / 2, 1 / 2)) scenarioTick2"

definition scenarioTick4 :: engine where
  "scenarioTick4 =
     updateMarketPrices 5000 (btcDraw (1 / 2 + 100 / 273))
       (\<lambda>k. (1 / 2 + 50 / 137, 1 / 2)) scenarioTick3"

definition scenarioClosed :: engine where
  "scenarioClosed = snd (closeTrade 6000 (1 / 2 + 50 / 137) ''trade_1'' scenarioTick4)"

text \<open>The states of the scenario, written out.\<close>

definition sampleTrade :: PaperTrade where
  "sampleTrade =
     \<lparr> t_id = ''trade_1'', t_signalId = ''signal_1'', t_symbol = BTC, t_action = BUY,
       t_entryPrice = 44500, t_quantity = 1 / 20, t_currentPrice = Some 45000, t_pnl = 25,
       t_status = TradeOpen, t_executedAt = 1000, t_closedAt = None,
       t_stopLoss = Some 43610, t_takeProfit = Some 46280, t_maxDrawdown = Some 0,
       t_holdingPeriod = Some 0, t_returnPercentage = Some 0 \<rparr>"

definition quoteEntry :: "symbol \<Rightarrow> real \<Rightarrow> real \<Rightarrow> nat \<Rightarrow> MarketPrice" where
  "quoteEntry s p c t =
     \<lparr> m_symbol = s, m_price = p, m_change24h = c, m_lastUpdated = t, m_rsi = Some 50,
       m_volume24h = Some 3500000, m_volatility = Some (7 / 200) \<rparr>"

definition scenarioState :: "real \<Rightarrow> real \<Rightarrow> real \<Rightarrow> real \<Rightarrow> real \<Rightarrow> nat \<Rightarrow> engine" where
  "scenarioState quote pnl hold ret btc t =
     \<lparr> trades = [sampleTrade\<lparr>t_currentPrice := Some quote, t_pnl := pnl,
                   t_holdingPeriod := Some hold, t_returnPercentage := Some ret\<rparr>],
       account = \<lparr> balance = 7775, acct_maxDailyLoss = None, dailyLossUsed = Some 0,
                   lastResetDate = Some 1000 \<rparr>,
       marketPrices = [quoteEntry BTC btc (5 / 2) t, quoteEntry GOLD 2000 (- (4 / 5)) t] \<rparr>"

text \<open>A signal too large for any position: even the scaled quantity rounds to zero.\<close>

definition hugeSignal :: "symbol TradingSignal" where
  "hugeSignal = scenarioSignal\<lparr>s_price := 1000000, s_quantity := 1\<rparr>"

text \<open>A signal small enough to pass the position-size check unscaled.\<close>

definition smallSignal :: "symbol TradingSignal" where
  "smallSignal = scenarioSignal\<lparr>s_quantity := 1 / 100\<rparr>"

definition smallOpened :: engine where
  "smallOpened =
     snd (executeSignal defaultRiskSettings 1000 ''trade_1'' (1 / 2) smallSignal
            (initialEngine 0))"

text \<open>
  A losing trade: bought at 45900 while BTC is quoted at 45000, stop-loss at
  \<open>45900 * 0.98 = 44982\<close>; the next refresh quotes it at 44955.
\<close>

definition lossSignal :: "symbol TradingSignal" where
  "lossSignal = scenarioSignal\<lparr>s_id := ''signal_2'', s_price := 45900, s_quantity := 1 / 100\<rparr>"

definition lossOpened :: engine where
  "lossOpened =
     snd (executeSignal defaultRiskSettings 1000 ''trade_1'' (1 / 2) lossSignal (initialEngine 0))"

definition lossRefreshed :: engine where
  "lossRefreshed =
     updateMarketPrices 2000 (btcDraw (1 / 2)) (\<lambda>k. (9 / 20, 9 / 20)) lossOpened"

definition lossTrade :: PaperTrade where
  "lossTrade =
     \<lparr> t_id = ''trade_1'', t_signalId = ''signal_2'', t_symbol = BTC, t_action = BUY,
       t_entryPrice = 45900, t_quantity = 1 / 100, t_currentPrice = Some 45000, t_pnl = - 9,
       t_status = TradeOpen, t_executedAt = 1000, t_closedAt = None,
       t_stopLoss = Some 44982, t_takeProfit = Some 47736, t_maxDrawdown = Some 0,
       t_holdingPeriod = Some 0, t_returnPercentage = Some 0 \<rparr>"

section \<open>Double-precision arithmetic\<close>

text \<open>
  The numbers of the source are IEEE 754 doubles, and each of its arithmetic
  operations returns the exact result rounded to the nearest double, a tie going
  to the even significand. The sections above compute with exact reals. The
  two properties that depend on the rounding, the position-size cap (C2) and the
  ledger (C3), are stated on the functions of this and the next section, which
  round after every operation of the source; they carry the source's names with
  a \<open>D\<close> appended.

  \<open>fl\<close> is the rounding, on the reals. A non-zero \<open>x\<close> with
  \<open>2 ^ e \<le> \<bar>x\<bar> < 2 ^ (e + 1)\<close>, where \<open>e\<close> is \<open>binade x\<close>, goes to the nearest
  multiple of \<open>2 ^ (e - 52)\<close>, and to the nearest multiple of
  \<open>2 ^ - 1074\<close> once \<open>e\<close> is below \<open>- 1022\<close> (the subnormal doubles);
  \<open>rne\<close> rounds to the nearest integer, ties to even, \<open>blen n\<close> is the number of
  binary digits of \<open>n\<close>, and \<open>pow2 k\<close> is \<open>2 ^ k\<close> for an integer \<open>k\<close>. An operation
  \<open>a * b\<close> of the source on two doubles is \<open>fl (a * b)\<close> here, and likewise for
  \<open>+\<close>, \<open>-\<close> and \<open>/\<close>; a decimal literal such as \<open>0.02\<close> is \<open>fl (2 / 100)\<close>;
  comparisons, \<open>Math.min\<close> and \<open>Math.floor\<close> are exact.

  The model has no infinity, no NaN and no negative zero. It agrees with the
  source as long as every exact result stays below \<open>2 ^ 1024\<close> in magnitude
  and no division is by zero. The theorems on the double versions bound the
  numbers they speak of (\<open>moderate\<close>: at most \<open>2 ^ 500\<close> in magnitude), which
  keeps the operations they are about inside that range. \<open>maxErr x\<close> bounds the
  distance between \<open>x\<close> and \<open>fl x\<close>.
\<close>

fun blen :: "nat \<Rightarrow> nat" where
  "blen n = (if n = 0 then 0 else Suc (blen (n div 2)))"

declare blen.simps [simp del]

definition rne :: "real \<Rightarrow> int" where
  "rne y =
     (let f = \<lfloor>y\<rfloor>; r = y - of_int f
      in if r < 1 / 2 then f else if r > 1 / 2 then f + 1 else if even f then f else f + 1)"

definition binade :: "real \<Rightarrow> int" where
  "binade x =
     (let a = \<bar>x\<bar>
      in if 1 \<le> a then int (blen (nat \<lfloor>a\<rfloor>)) - 1
         else (let j = blen (nat \<lfloor>1 / a\<rfloor>) - 1
               in if a * 2 ^ j = 1 then - int j else - int j - 1))"

definition pow2 :: "int \<Rightarrow> real" where
  "pow2 k = (if 0 \<le> k then 2 ^ nat k else 1 / 2 ^ nat (- k))"

definition fl :: "real \<Rightarrow> real" where
  "fl x =
     (if x = 0 then 0
      else (let q = pow2 (max (binade x - 52) (- 1074))
            in q * of_int (rne (x / q))))"

definition maxErr :: "real \<Rightarrow> real" where
  "maxErr x = \<bar>x\<bar> * pow2 (- 53) + pow2 (- 1075)"

definition moderate :: "real \<Rightarrow> bool" where
  "moderate x = (\<bar>x\<bar> \<le> 2 ^ 500)"

section \<open>The risk manager and the engine in double arithmetic\<close>

text \<open>
  \<open>validateSignalExecution\<close> with its arithmetic rounded: the cap is
  \<open>Math.min(maxPositionSize, balance * (riskPerTrade / 100))\<close> and the scaled
  quantity \<open>Math.floor(maxPositionValue / signal.price * 100) / 100\<close>, each
  operation rounded where the source computes it. The daily-loss check does no
  arithmetic and is the one of the risk manager above.
\<close>

definition maxPositionValueD :: "RiskSettings \<Rightarrow> TradingAccount \<Rightarrow> real" where
  "maxPositionValueD rs acct =
     min (maxPositionSize rs) (fl (balance acct * fl (riskPerTrade rs / 100)))"

definition scaledQuantityD :: "RiskSettings \<Rightarrow> TradingAccount \<Rightarrow> real \<Rightarrow> real" where
  "scaledQuantityD rs acct p =
     fl (of_int \<lfloor>fl (fl (maxPositionValueD rs acct / p) * 100)\<rfloor> / 100)"

definition sizeAndBalanceChecksD ::
  "RiskSettings \<Rightarrow> symbol TradingSignal \<Rightarrow> TradingAccount \<Rightarrow> Validation" where
  "sizeAndBalanceChecksD rs signal acct =
     (let positionValue = fl (s_price signal * s_quantity signal);
          cap = maxPositionValueD rs acct
      in if positionValue > cap then
           (let adjusted = scaledQuantityD rs acct (s_price signal)
            in if adjusted \<le> 0
               then \<lparr> canExecute = False, v_reason = Some (PositionSizeTooLarge cap),
                      adjustedQuantity = None \<rparr>
               else \<lparr> canExecute = True,
                      v_reason = Some (PositionSizeAdjusted (s_quantity signal) adjusted),
                      adjustedQuantity = Some adjusted \<rparr>)
         else if s_action signal = BUY \<and> positionValue > balance acct
         then \<lparr> canExecute = False,
                v_reason = Some (InsufficientBalance positionValue (balance acct)),
                adjustedQuantity = None \<rparr>
         else \<lparr> canExecute = True, v_reason = None, adjustedQuantity = None \<rparr>)"

definition positionChecksD ::
  "RiskSettings \<Rightarrow> symbol TradingSignal \<Rightarrow> TradingAccount \<Rightarrow> PaperTrade list \<Rightarrow> Validation" where
  "positionChecksD rs signal acct openTrades =
     (if real (length openTrades) \<ge> maxOpenPositions rs
      then \<lparr> canExecute = False,
             v_reason = Some (MaxOpenPositionsReached (maxOpenPositions rs)),
             adjustedQuantity = None \<rparr>
      else sizeAndBalanceChecksD rs signal acct)"

definition validateSignalExecutionD ::
  "RiskSettings \<Rightarrow> nat \<Rightarrow> symbol TradingSignal \<Rightarrow> TradingAccount \<Rightarrow> PaperTrade list
     \<Rightarrow> Validation \<times> TradingAccount" where
  "validateSignalExecutionD rs now signal acct openTrades =
     (if enableDailyLossLimit rs then
        (case checkDailyLossLimit rs now acct of
           ((False, r), acct1) \<Rightarrow>
             (\<lparr> canExecute = False, v_reason = r, adjustedQuantity = None \<rparr>, acct1)
         | ((True, r), acct1) \<Rightarrow> (positionChecksD rs signal acct1 openTrades, acct1))
      else (positionChecksD rs signal acct openTrades, acct))"

definition calculateRiskLevelsD :: "RiskSettings \<Rightarrow> symbol TradingSignal \<Rightarrow> real \<times> real" where
  "calculateRiskLevelsD rs signal =
     (let stopLossMultiplier = fl (stopLossPercentage rs / 100);
          takeProfitMultiplier = fl (takeProfitPercentage rs / 100)
      in if s_action signal = BUY
         then (fl (s_price signal * fl (1 - stopLossMultiplier)),
               fl (s_price signal * fl (1 + takeProfitMultiplier)))
         else (fl (s_price signal * fl (1 + stopLossMultiplier)),
               fl (s_price signal * fl (1 - takeProfitMultiplier))))"

text \<open>
  The engine's operations with their arithmetic rounded, in the order of the
  engine above: the quote \<open>marketPrice.price * (1 + (Math.random() - 0.5) * 0.02)\<close>,
  the profit \<open>(currentPrice - entryPrice) * quantity\<close>, the trade value
  \<open>signal.price * adjustedQuantity\<close> and the close value
  \<open>currentPrice * trade.quantity\<close> with the balance updates \<open>+=\<close> and \<open>-=\<close>, and
  the refresh pass. The clock readings are integers and their difference is
  exact. As in the exact version, the return percentage of a trade with notional
  value zero is \<open>NaN\<close> or infinite in the source and 0 here; nothing reads it.
\<close>

definition getCurrentPriceD :: "MarketPrice list \<Rightarrow> symbol \<Rightarrow> real \<Rightarrow> real" where
  "getCurrentPriceD prices symb u =
     (case find (\<lambda>p. m_symbol p = symb) prices of
        None \<Rightarrow> 0
      | Some marketPrice \<Rightarrow>
          (let fluctuation = fl (fl (u - 1 / 2) * fl (2 / 100))
           in fl (m_price marketPrice * fl (1 + fluctuation))))"

definition updateTradePnLD :: "PaperTrade \<Rightarrow> PaperTrade" where
  "updateTradePnLD trade =
     (if \<not> truthy (t_currentPrice trade) then trade
      else if t_action trade = BUY
      then trade\<lparr>t_pnl := fl (fl (the (t_currentPrice trade) - t_entryPrice trade)
                                * t_quantity trade)\<rparr>
      else trade\<lparr>t_pnl := fl (fl (t_entryPrice trade - the (t_currentPrice trade))
                                * t_quantity trade)\<rparr>)"

definition executeSignalD ::
  "RiskSettings \<Rightarrow> nat \<Rightarrow> string \<Rightarrow> real \<Rightarrow> symbol TradingSignal \<Rightarrow> engine
     \<Rightarrow> (error + PaperTrade) \<times> engine" where
  "executeSignalD rs now tid u signal st =
     (let openTrades = getOpenTrades st;
          (riskValidation, acct1) = validateSignalExecutionD rs now signal (account st) openTrades;
          st1 = st\<lparr>account := acct1\<rparr>
      in if \<not> canExecute riskValidation
         then (Inl (case v_reason riskValidation of
                      Some r \<Rightarrow> RiskError r | None \<Rightarrow> RiskValidationFailed), st1)
         else
           (let adjusted = orElse (adjustedQuantity riskValidation) (s_quantity signal);
                currentPrice = getCurrentPriceD (marketPrices st1) (s_symbol signal) u;
                tradeValue = fl (s_price signal * adjusted)
            in if s_action signal = BUY \<and> balance acct1 < tradeValue
               then (Inl InsufficientBalanceForTrade, st1)
               else
                 (let (sl, tp) = calculateRiskLevelsD rs signal;
                      trade = \<lparr> t_id = tid, t_signalId = s_id signal,
                                t_symbol = s_symbol signal, t_action = s_action signal,
                                t_entryPrice = s_price signal, t_quantity = adjusted,
                                t_currentPrice = Some currentPrice, t_pnl = 0,
                                t_status = TradeOpen, t_executedAt = now, t_closedAt = None,
                                t_stopLoss = Some sl, t_takeProfit = Some tp,
                                t_maxDrawdown = Some 0, t_holdingPeriod = Some 0,
                                t_returnPercentage = Some 0 \<rparr>;
                      acct2 = (if s_action signal = BUY
                               then acct1\<lparr>balance := fl (balance acct1 - tradeValue)\<rparr>
                               else acct1\<lparr>balance := fl (balance acct1 + tradeValue)\<rparr>);
                      trade1 = updateTradePnLD trade
                  in (Inr trade1, st1\<lparr>account := acct2, trades := trades st1 @ [trade1]\<rparr>))))"

definition closeTradeD ::
  "nat \<Rightarrow> real \<Rightarrow> string \<Rightarrow> engine \<Rightarrow> (error + PaperTrade) \<times> engine" where
  "closeTradeD now u tradeId st =
     (case findIndex (\<lambda>t. t_id t = tradeId) (trades st) of
        None \<Rightarrow> (Inl TradeNotFoundOrClosed, st)
      | Some i \<Rightarrow>
          (let trade = trades st ! i
           in if t_status trade = TradeClosed then (Inl TradeNotFoundOrClosed, st)
              else
                (let currentPrice = getCurrentPriceD (marketPrices st) (t_symbol trade) u;
                     closeValue = fl (currentPrice * t_quantity trade);
                     acct1 = (if t_action trade = BUY
                              then (account st)\<lparr>balance := fl (balance (account st) + closeValue)\<rparr>
                              else (account st)\<lparr>balance := fl (balance (account st) - closeValue)\<rparr>);
                     trade1 = updateTradePnLD
                                (trade\<lparr>t_status := TradeClosed, t_closedAt := Some now,
                                       t_currentPrice := Some currentPrice\<rparr>)
                 in (Inr trade1, st\<lparr>account := acct1, trades := (trades st)[i := trade1]\<rparr>))))"

fun perturbPricesD ::
  "nat \<Rightarrow> (nat \<Rightarrow> real \<times> real \<times> real \<times> real) \<Rightarrow> nat \<Rightarrow> MarketPrice list \<Rightarrow> MarketPrice list" where
  "perturbPricesD now pd k [] = []"
| "perturbPricesD now pd k (p # ps) =
     (case pd k of (u1, u2, u3, u4) \<Rightarrow>
        (let fluctuation = fl (fl (u1 - 1 / 2) * fl (1 / 100))
         in p\<lparr>m_price := fl (m_price p * fl (1 + fluctuation)), m_lastUpdated := now,
               m_rsi := Some (fl (30 + fl (u2 * 40))),
               m_volatility := Some (fl (fl (2 / 100) + fl (u3 * fl (3 / 100)))),
               m_volume24h := Some (fl (1000000 + fl (u4 * 5000000)))\<rparr>)
        # perturbPricesD now pd (Suc k) ps)"

definition refreshTradeD :: "nat \<Rightarrow> real \<times> real \<Rightarrow> nat \<Rightarrow> engine \<Rightarrow> engine" where
  "refreshTradeD now us i st =
     (let trade = trades st ! i;
          newPrice = getCurrentPriceD (marketPrices st) (t_symbol trade) (fst us);
          trade1 = updateTradePnLD (trade\<lparr>t_currentPrice := Some newPrice\<rparr>);
          trade2 = trade1\<lparr>t_holdingPeriod :=
                            Some (fl ((real now - real (t_executedAt trade1)) / (1000 * 60)))\<rparr>;
          trade3 = trade2\<lparr>t_returnPercentage :=
                            Some (fl (fl (t_pnl trade2
                                          / fl (t_entryPrice trade2 * t_quantity trade2)) * 100))\<rparr>;
          st1 = st\<lparr>trades := (trades st)[i := trade3]\<rparr>
      in if fst (checkStopLossAndTakeProfit trade3 newPrice)
         then snd (closeTradeD now (snd us) (t_id trade3) st1)
         else st1)"

fun refreshTradesD :: "nat \<Rightarrow> (nat \<Rightarrow> real \<times> real) \<Rightarrow> nat \<Rightarrow> nat list \<Rightarrow> engine \<Rightarrow> engine" where
  "refreshTradesD now td k [] st = st"
| "refreshTradesD now td k (i # is) st =
     refreshTradesD now td (Suc k) is (refreshTradeD now (td k) i st)"

definition updateMarketPricesD ::
  "nat \<Rightarrow> (nat \<Rightarrow> real \<times> real \<times> real \<times> real) \<Rightarrow> (nat \<Rightarrow> real \<times> real) \<Rightarrow> engine \<Rightarrow> engine" where
  "updateMarketPricesD now pd td st =
     (let st1 = st\<lparr>marketPrices := perturbPricesD now pd 0 (marketPrices st)\<rparr>
      in refreshTradesD now td 0 (openIndices (trades st1)) st1)"

text \<open>
  A step of the engine is one call of \<open>executeSignal\<close> or \<open>closeTrade\<close>, or one
  stage of \<open>updateMarketPrices\<close>: the update of the quote table, or one iteration
  of its loop over the trades. A whole pass of \<open>updateMarketPrices\<close> is a sequence
  of such steps, so the states inside a pass, between which \<open>closeTrade\<close> is
  called for an exit, are states of a run. The random numbers, the clock and the
  risk settings (\<open>updateRiskSettings\<close>) are free in every step.
\<close>

inductive stepD :: "engine \<Rightarrow> engine \<Rightarrow> bool" where
  stepD_execute: "stepD st (snd (executeSignalD rs now tid u signal st))"
| stepD_close: "stepD st (snd (closeTradeD now u tradeId st))"
| stepD_prices: "stepD st (st\<lparr>marketPrices := perturbPricesD now pd 0 (marketPrices st)\<rparr>)"
| stepD_trade: "i < length (trades st) \<Longrightarrow> stepD st (refreshTradeD now us i st)"

subsection \<open>Examples in double arithmetic\<close>

text \<open>
  The scenario's signal with its quantity a double; a BUY of one ounce of gold at
  1952 against a balance of 5231.36; and a signal with a negative price against
  an overdrawn account.
\<close>

definition roundedSignal :: "symbol TradingSignal" where
  "roundedSignal = scenarioSignal\<lparr>s_quantity := fl (1 / 10)\<rparr>"

definition goldSignal :: "symbol TradingSignal" where
  "goldSignal = scenarioSignal\<lparr>s_symbol := GOLD, s_price := 1952, s_quantity := 1\<rparr>"

definition goldAccount :: TradingAccount where
  "goldAccount =
     \<lparr> balance = fl (523136 / 100), acct_maxDailyLoss = None, dailyLossUsed = None,
       lastResetDate = None \<rparr>"

definition shortSignal :: "symbol TradingSignal" where
  "shortSignal = scenarioSignal\<lparr>s_price := - 1, s_quantity := 1\<rparr>"

definition debtAccount :: TradingAccount where
  "debtAccount =
     \<lparr> balance = fl (- (1022 / 100)), acct_maxDailyLoss = None, dailyLossUsed = None,
       lastResetDate = None \<rparr>"

text \<open>
  A BUY of 0.01 BTC at 45900 on the initial engine, quoted at 45000 when it is
  opened (\<open>lossOpenedD\<close>). It is closed at a quote of 44955, drawn with the random
  number \<open>0.45\<close>: by a call of \<open>closeTrade\<close> (\<open>lossSettledD\<close>), or by a refresh pass
  that leaves the quote table where it is (\<open>lossQuotedD\<close>), re-quotes the trade at
  44955, below its stop-loss of 44982, and closes it (\<open>lossRefreshedD\<close>). The
  fractions are the doubles the source computes.
\<close>

definition lossSignalD :: "symbol TradingSignal" where
  "lossSignalD = lossSignal\<lparr>s_quantity := fl (1 / 100)\<rparr>"

definition lossTradeD :: PaperTrade where
  "lossTradeD = lossTrade\<lparr>t_quantity := fl (1 / 100)\<rparr>"

definition lossOpenedD :: engine where
  "lossOpenedD = (initialEngine 0)
     \<lparr>trades := [lossTradeD],
      account := (account (initialEngine 0))
        \<lparr>balance := 9541, dailyLossUsed := Some 0, lastResetDate := Some 1000\<rparr>\<rparr>"

definition lossQuotedD :: engine where
  "lossQuotedD =
     lossOpenedD\<lparr>marketPrices := perturbPricesD 2000 (btcDraw (1 / 2)) 0 (marketPrices lossOpenedD)\<rparr>"

definition lossClosedD :: PaperTrade where
  "lossClosedD =
     lossTradeD\<lparr>t_currentPrice := Some 44955,
                t_pnl := - (5319877059831399 / 562949953421312),
                t_status := TradeClosed, t_closedAt := Some 2000\<rparr>"

definition lossSettledD :: engine where
  "lossSettledD =
     lossOpenedD\<lparr>trades := [lossClosedD],
                 account := (account lossOpenedD)\<lparr>balance := 2746181473219379 / 274877906944\<rparr>\<rparr>"

definition exitDraws :: "real \<times> real" where
  "exitDraws = (fl (9 / 20), fl (9 / 20))"

definition lossRefreshedD :: engine where
  "lossRefreshedD =
     lossQuotedD
       \<lparr>trades := [lossClosedD\<lparr>t_holdingPeriod := Some (4803839602528529 / 288230376151711744),
                      t_returnPercentage := Some (- (4636058439940217 / 2251799813685248))\<rparr>],
        account := (account lossOpenedD)\<lparr>balance := 2746181473219379 / 274877906944\<rparr>\<rparr>"

section \<open>The query surface over a store of objects\<close>

text \<open>
  The queries return arrays and objects, and whether a caller can reach the
  engine's state through a result depends on which objects are shared. Here the
  trades, quotes and accounts are objects in a store, arrays hold references, and
  the service holds the references of its trade array, its account and its quote
  array. \<open>nextRef\<close> is the next free reference.
\<close>

type_synonym ref = nat

record store =
  tradeObjs :: "ref \<Rightarrow> PaperTrade option"
  quoteObjs :: "ref \<Rightarrow> MarketPrice option"
  accountObjs :: "ref \<Rightarrow> TradingAccount option"
  arrays :: "ref \<Rightarrow> ref list option"
  nextRef :: ref

record service =
  tradesRef :: ref
  accountRef :: ref
  marketPricesRef :: ref

definition readArray :: "ref \<Rightarrow> store \<Rightarrow> ref list" where
  "readArray r h = (case arrays h r of None \<Rightarrow> [] | Some xs \<Rightarrow> xs)"

definition newArray :: "ref list \<Rightarrow> store \<Rightarrow> ref \<times> store" where
  "newArray xs h =
     (nextRef h, h\<lparr>arrays := (arrays h)(nextRef h := Some xs), nextRef := Suc (nextRef h)\<rparr>)"

definition hasStatus :: "trade_status \<Rightarrow> store \<Rightarrow> ref \<Rightarrow> bool" where
  "hasStatus s h a = (case tradeObjs h a of None \<Rightarrow> False | Some t \<Rightarrow> t_status t = s)"

definition getTradesS :: "service \<Rightarrow> store \<Rightarrow> ref \<times> store" where
  "getTradesS svc h = newArray (readArray (tradesRef svc) h) h"

definition getOpenTradesS :: "service \<Rightarrow> store \<Rightarrow> ref \<times> store" where
  "getOpenTradesS svc h =
     newArray (filter (hasStatus TradeOpen h) (readArray (tradesRef svc) h)) h"

definition getClosedTradesS :: "service \<Rightarrow> store \<Rightarrow> ref \<times> store" where
  "getClosedTradesS svc h =
     newArray (filter (hasStatus TradeClosed h) (readArray (tradesRef svc) h)) h"

definition getMarketPricesS :: "service \<Rightarrow> store \<Rightarrow> ref \<times> store" where
  "getMarketPricesS svc h = newArray (readArray (marketPricesRef svc) h) h"

definition getAccountS :: "service \<Rightarrow> store \<Rightarrow> ref \<times> store" where
  "getAccountS svc h =
     (nextRef h,
      h\<lparr>accountObjs := (accountObjs h)(nextRef h := accountObjs h (accountRef svc)),
        nextRef := Suc (nextRef h)\<rparr>)"

text \<open>
  What a caller can do to a result: change the content of an array it holds
  (assignment to an index, \<open>push\<close>, \<open>pop\<close>, \<open>splice\<close>, setting \<open>length\<close>), or assign
  fields of an object it holds.
\<close>

definition setArray :: "ref \<Rightarrow> ref list \<Rightarrow> store \<Rightarrow> store" where
  "setArray r xs h = h\<lparr>arrays := (arrays h)(r := Some xs)\<rparr>"

definition setTrade :: "ref \<Rightarrow> (PaperTrade \<Rightarrow> PaperTrade) \<Rightarrow> store \<Rightarrow> store" where
  "setTrade a f h = h\<lparr>tradeObjs := (tradeObjs h)(a := map_option f (tradeObjs h a))\<rparr>"

definition setQuote :: "ref \<Rightarrow> (MarketPrice \<Rightarrow> MarketPrice) \<Rightarrow> store \<Rightarrow> store" where
  "setQuote a f h = h\<lparr>quoteObjs := (quoteObjs h)(a := map_option f (quoteObjs h a))\<rparr>"

definition setAccount :: "ref \<Rightarrow> (TradingAccount \<Rightarrow> TradingAccount) \<Rightarrow> store \<Rightarrow> store" where
  "setAccount a f h = h\<lparr>accountObjs := (accountObjs h)(a := map_option f (accountObjs h a))\<rparr>"

text \<open>The engine's state as the service reaches it through its three references.\<close>

definition serviceState ::
  "service \<Rightarrow> store \<Rightarrow> PaperTrade option list \<times> TradingAccount option \<times> MarketPrice option list" where
  "serviceState svc h =
     (map (tradeObjs h) (readArray (tradesRef svc) h),
      accountObjs h (accountRef svc),
      map (quoteObjs h) (readArray (marketPricesRef svc) h))"

definition allocated :: "service \<Rightarrow> store \<Rightarrow> bool" where
  "allocated svc h =
     (tradesRef svc < nextRef h \<and> accountRef svc < nextRef h \<and> marketPricesRef svc < nextRef h)"

text \<open>The assignment \<open>trade.pnl = v\<close>.\<close>

definition assignPnl :: "real \<Rightarrow> PaperTrade \<Rightarrow> PaperTrade" where
  "assignPnl v trade = trade\<lparr>t_pnl := v\<rparr>"

definition assignBalance :: "real \<Rightarrow> TradingAccount \<Rightarrow> TradingAccount" where
  "assignBalance v acct = acct\<lparr>balance := v\<rparr>"

text \<open>A store with one open trade, for the examples.\<close>

definition sampleService :: service where
  "sampleService = \<lparr> tradesRef = 0, accountRef = 1, marketPricesRef = 2 \<rparr>"

definition sampleStore :: store where
  "sampleStore =
     \<lparr> tradeObjs = (\<lambda>a. if a = 3 then Some sampleTrade else None),
       quoteObjs = (\<lambda>a. None),
       accountObjs = (\<lambda>a. if a = 1 then Some (account (initialEngine 0)) else None),
       arrays = (\<lambda>r. if r = 0 then Some [3] else if r = 2 then Some [] else None),
       nextRef = 4 \<rparr>"

section \<open>Rounding to double precision\<close>

text \<open>
  \<open>fl_eval\<close> evaluates \<open>fl\<close> on a number. The lemmas of this section bound the
  rounding error: \<open>fl x\<close> is within \<open>maxErr x\<close> of \<open>x\<close>, and within
  \<open>\<bar>x\<bar> / 2 ^ 53\<close> of it in the normal range.
\<close>

lemmas fl_eval = fl_def binade_def rne_def blen.simps pow2_def Let_def

lemma blen_bounds:
  "0 < n \<Longrightarrow> 2 ^ (blen n - 1) \<le> n \<and> n < 2 ^ blen n"
proof (induction n rule: blen.induct)
  case (1 n)
  show ?case
  proof (cases "n div 2 = 0")
    case True
    with "1.prems" have "n = 1" by (simp add: div_eq_0_iff) 
    then show ?thesis by (simp add: blen.simps)
  next
    case False
    then have pos: "0 < n div 2" by simp
    from "1.IH" [OF _ pos] "1.prems"
    have ih: "2 ^ (blen (n div 2) - 1) \<le> n div 2" "n div 2 < 2 ^ blen (n div 2)" by simp_all
    have bl: "blen n = Suc (blen (n div 2))" using "1.prems" by (subst blen.simps) simp
    have gt: "0 < blen (n div 2)" using pos by (subst blen.simps) simp
    then have "(2::nat) ^ blen (n div 2) = 2 * 2 ^ (blen (n div 2) - 1)"
      by (cases "blen (n div 2)") simp_all
    with ih(1) have lo: "2 ^ blen (n div 2) \<le> n" by linarith
    from ih(2) have hi: "n < 2 * 2 ^ blen (n div 2)" by linarith
    show ?thesis using lo hi by (simp add: bl)
  qed
qed

lemma pow2_pos [simp]: "0 < pow2 k"
  by (simp add: pow2_def)

lemma pow2_powr: "pow2 k = 2 powr of_int k"
  by (simp add: pow2_def powr_real_of_int inverse_eq_divide)

lemma pow2_add: "pow2 (j + k) = pow2 j * pow2 k"
  by (simp add: pow2_powr powr_add)

lemma pow2_mono: "j \<le> k \<Longrightarrow> pow2 j \<le> pow2 k"
  by (simp add: pow2_powr)

lemma pow2_nat: "pow2 (int n) = 2 ^ n"
  by (simp add: pow2_def)

lemma pow2_neg: "pow2 (- int n) = 1 / 2 ^ n"
  by (auto simp: pow2_def)

lemma pow2_nz [simp]: "pow2 k \<noteq> 0"
  using pow2_pos [of k] by linarith

lemma pow2_nonneg [simp]: "0 \<le> pow2 k"
  using pow2_pos [of k] by linarith

lemma pow2_abs [simp]: "\<bar>pow2 k\<bar> = pow2 k"
  by simp

lemma binade_bounds:
  assumes "x \<noteq> 0"
  shows "pow2 (binade x) \<le> \<bar>x\<bar>" and "\<bar>x\<bar> < pow2 (binade x + 1)"
proof -
  let ?a = "\<bar>x\<bar>"
  have apos: "0 < ?a" using assms by simp
  have "pow2 (binade x) \<le> ?a \<and> ?a < pow2 (binade x + 1)"
  proof (cases "1 \<le> ?a")
    case True
    let ?m = "nat \<lfloor>?a\<rfloor>"
    have m: "0 < ?m" using True by simp
    have e: "binade x = int (blen ?m) - 1" using True by (simp add: binade_def)
    have bl: "0 < blen ?m" using m by (subst blen.simps) simp
    then have e': "binade x = int (blen ?m - 1)" "binade x + 1 = int (blen ?m)"
      using e by simp_all
    from blen_bounds [OF m] have lo: "2 ^ (blen ?m - 1) \<le> ?m" and hi: "?m < 2 ^ blen ?m"
      by simp_all
    have rm: "real ?m = of_int \<lfloor>?a\<rfloor>" by simp
    have "real ?m \<le> ?a" unfolding rm by (rule of_int_floor_le)
    moreover from lo have "(2::real) ^ (blen ?m - 1) \<le> real ?m"
      by (metis of_nat_le_iff of_nat_numeral of_nat_power)
    ultimately have "(2::real) ^ (blen ?m - 1) \<le> ?a" by linarith
    then have 1: "pow2 (binade x) \<le> ?a" unfolding e'(1) pow2_nat .
    have "real (Suc ?m) \<le> real (2 ^ blen ?m)"
      using hi by (intro of_nat_mono Suc_leI)
    then have "real ?m + 1 \<le> 2 ^ blen ?m" by simp
    moreover have "?a < real ?m + 1" unfolding rm by linarith
    ultimately have "?a < (2::real) ^ blen ?m" by linarith
    then have 2: "?a < pow2 (binade x + 1)" unfolding e'(2) pow2_nat .
    from 1 2 show ?thesis ..
  next
    case False
    let ?m = "nat \<lfloor>1 / ?a\<rfloor>"
    let ?j = "blen ?m - 1"
    from False apos have inv: "1 < 1 / ?a" by simp
    then have m: "0 < ?m" by simp
    have bl: "0 < blen ?m" using m by (subst blen.simps) simp
    from blen_bounds [OF m] have lo: "2 ^ ?j \<le> ?m" and hi: "?m < 2 ^ blen ?m"
      by simp_all
    have rm: "real ?m = of_int \<lfloor>1 / ?a\<rfloor>" using inv by simp
    have mle: "real ?m \<le> 1 / ?a" unfolding rm by (rule of_int_floor_le)
    from lo have "(2::real) ^ ?j \<le> real ?m"
      by (metis of_nat_le_iff of_nat_numeral of_nat_power)
    with mle have "2 ^ ?j \<le> 1 / ?a" by linarith
    then have up: "?a * 2 ^ ?j \<le> 1" using apos by (simp add: field_simps)
    have "real (Suc ?m) \<le> real (2 ^ blen ?m)"
      using hi by (intro of_nat_mono Suc_leI)
    then have "real ?m + 1 \<le> 2 ^ blen ?m" by simp
    moreover have "1 / ?a < real ?m + 1" unfolding rm by linarith
    ultimately have "1 / ?a < 2 ^ blen ?m" by linarith
    then have "1 < ?a * 2 ^ blen ?m" using apos by (simp add: field_simps)
    moreover have "(2::real) ^ blen ?m = 2 * 2 ^ ?j" using bl by (cases "blen ?m") simp_all
    ultimately have low: "1 / (2 * 2 ^ ?j) < ?a" by (simp add: field_simps)
    show ?thesis
    proof (cases "?a * 2 ^ ?j = 1")
      case True
      then have e: "binade x = - int ?j" using False by (simp add: binade_def Let_def)
      from True have a: "?a = 1 / 2 ^ ?j" by (simp add: field_simps)
      have p1: "pow2 (- int ?j) = \<bar>x\<bar>" using a by (simp add: pow2_neg)
      have "pow2 (- int ?j + 1) = pow2 (- int ?j) * pow2 1"
        by (rule pow2_add)
      then have p2: "pow2 (- int ?j + 1) = 2 * \<bar>x\<bar>"
        using p1 by (simp add: pow2_def)
      show ?thesis unfolding e p1 p2 using apos by simp
    next
      case neq: False
      then have e: "binade x = - int ?j - 1" using False by (simp add: binade_def Let_def)
      have e1: "binade x = - int (Suc ?j)" "binade x + 1 = - int ?j" using e by simp_all
      from up neq have "?a * 2 ^ ?j < 1" by linarith
      then have hi': "?a < 1 / 2 ^ ?j" by (simp add: field_simps)
      have q1: "pow2 (binade x) = 1 / (2 * 2 ^ ?j)" unfolding e1(1) pow2_neg by simp
      have q2: "pow2 (binade x + 1) = 1 / 2 ^ ?j" unfolding e1(2) pow2_neg ..
      show ?thesis unfolding q1 q2 using low hi' by linarith
    qed
  qed
  then show "pow2 (binade x) \<le> \<bar>x\<bar>" and "\<bar>x\<bar> < pow2 (binade x + 1)" by simp_all
qed

lemma rne_error: "\<bar>of_int (rne y) - y\<bar> \<le> 1 / 2"
  unfolding rne_def Let_def by (auto split: if_splits)

lemma fl_quantum:
  assumes "x \<noteq> 0"
  shows "\<bar>fl x - x\<bar> \<le> pow2 (max (binade x - 52) (- 1074)) / 2"
proof -
  let ?q = "pow2 (max (binade x - 52) (- 1074))"
  have q: "0 < ?q" by simp
  have "fl x - x = ?q * (of_int (rne (x / ?q)) - x / ?q)"
    using assms q by (simp add: fl_def Let_def algebra_simps)
  then have "\<bar>fl x - x\<bar> = ?q * \<bar>of_int (rne (x / ?q)) - x / ?q\<bar>"
    using q by (simp add: abs_mult)
  also have "\<dots> \<le> ?q * (1 / 2)"
    using rne_error [of "x / ?q"] q by (intro mult_left_mono) simp_all
  finally show ?thesis by simp
qed

lemma pow2_half: "pow2 k / 2 = pow2 (k - 1)"
  using pow2_add [of "k - 1" 1] by (simp add: pow2_def)

lemma fl_quantum_normal:
  assumes "x \<noteq> 0" and "- 1022 \<le> binade x"
  shows "\<bar>fl x - x\<bar> \<le> \<bar>x\<bar> * pow2 (- 53)"
proof -
  from assms(2) have "max (binade x - 52) (- 1074) = binade x - 52" by simp
  then have "pow2 (max (binade x - 52) (- 1074)) / 2 = pow2 (binade x - 53)"
    by (simp add: pow2_half)
  also have "\<dots> = pow2 (binade x) * pow2 (- 53)"
    using pow2_add [of "binade x" "- 53"] by simp
  also have "\<dots> \<le> \<bar>x\<bar> * pow2 (- 53)"
    using binade_bounds(1) [OF assms(1)] by (intro mult_right_mono) simp_all
  finally show ?thesis using fl_quantum [OF assms(1)] by linarith
qed

lemma fl_error: "\<bar>fl x - x\<bar> \<le> maxErr x"
proof (cases "x = 0")
  case True
  then show ?thesis by (simp add: fl_def maxErr_def)
next
  case False
  show ?thesis
  proof (cases "- 1022 \<le> binade x")
    case True
    from fl_quantum_normal [OF False True] show ?thesis
      unfolding maxErr_def using pow2_nonneg [of "- 1075"] by linarith
  next
    case neg: False
    then have "max (binade x - 52) (- 1074) = - 1074" by simp
    then have "pow2 (max (binade x - 52) (- 1074)) / 2 = pow2 (- 1075)"
      by (simp add: pow2_half)
    moreover have "0 \<le> \<bar>x\<bar> * pow2 (- 53)" by simp
    ultimately show ?thesis
      unfolding maxErr_def using fl_quantum [OF False] by linarith
  qed
qed

lemma fl_error_normal:
  assumes "pow2 (- 1022) \<le> \<bar>x\<bar>"
  shows "\<bar>fl x - x\<bar> \<le> \<bar>x\<bar> * pow2 (- 53)"
proof -
  have nz: "x \<noteq> 0"
  proof
    assume "x = 0"
    with assms have "pow2 (- 1022) \<le> 0" by simp
    with pow2_pos [of "- 1022"] show False by linarith
  qed
  have "- 1022 \<le> binade x"
  proof (rule ccontr)
    assume "\<not> - 1022 \<le> binade x"
    then have "binade x + 1 \<le> - 1022" by simp
    then have "pow2 (binade x + 1) \<le> pow2 (- 1022)" by (rule pow2_mono)
    with binade_bounds(2) [OF nz] assms show False by linarith
  qed
  with nz show ?thesis by (rule fl_quantum_normal)
qed

lemma rne_nonneg: "0 \<le> y \<Longrightarrow> 0 \<le> rne y"
  unfolding rne_def Let_def by (auto split: if_splits) 

lemma rne_nonpos: "y \<le> 0 \<Longrightarrow> rne y \<le> 0"
proof -
  assume y: "y \<le> 0"
  show ?thesis
  proof (cases "y = 0")
    case True
    then show ?thesis by (simp add: rne_def)
  next
    case False
    with y have "y < 0" by simp
    then have "\<lfloor>y\<rfloor> \<le> - 1" by (simp add: floor_le_iff)
    then show ?thesis unfolding rne_def Let_def by (auto split: if_splits)
  qed
qed

lemma fl_nonneg: "0 \<le> x \<Longrightarrow> 0 \<le> fl x"
  unfolding fl_def Let_def
  by (auto intro!: mult_nonneg_nonneg rne_nonneg divide_nonneg_nonneg simp: of_int_0_le_iff)

lemma fl_nonpos: "x \<le> 0 \<Longrightarrow> fl x \<le> 0"
proof -
  assume x: "x \<le> 0"
  show ?thesis
  proof (cases "x = 0")
    case True
    then show ?thesis by (simp add: fl_def)
  next
    case False
    let ?q = "pow2 (max (binade x - 52) (- 1074))"
    have "x / ?q \<le> 0" using x by (simp add: divide_le_0_iff)
    then have "rne (x / ?q) \<le> 0" by (rule rne_nonpos)
    then have "?q * of_int (rne (x / ?q)) \<le> 0"
      by (simp add: mult_le_0_iff)
    then show ?thesis using False by (simp add: fl_def Let_def)
  qed
qed

lemma fl_pos_imp: "0 < fl x \<Longrightarrow> 0 < x"
  using fl_nonpos [of x] by linarith

lemma pow2_small: "k \<le> - 2 \<Longrightarrow> pow2 k \<le> 1 / 4"
  using pow2_mono [of k "- 2"] by (simp add: pow2_def)

lemma fl_le_rel:
  assumes "pow2 (- 1022) \<le> x"
  shows "fl x \<le> x * (1 + pow2 (- 53))"
proof -
  have "0 < x" using assms pow2_pos [of "- 1022"] by linarith
  then have "pow2 (- 1022) \<le> \<bar>x\<bar>" using assms by simp
  from fl_error_normal [OF this] \<open>0 < x\<close> show ?thesis
    by (simp add: algebra_simps abs_le_iff)
qed

lemma fl_ge_rel:
  assumes "pow2 (- 1022) \<le> x"
  shows "x * (1 - pow2 (- 53)) \<le> fl x"
proof -
  have "0 < x" using assms pow2_pos [of "- 1022"] by linarith
  then have "pow2 (- 1022) \<le> \<bar>x\<bar>" using assms by simp
  from fl_error_normal [OF this] \<open>0 < x\<close> show ?thesis
    by (simp add: algebra_simps abs_le_iff)
qed

text \<open>A value that rounds to \<open>c\<close> or more, for a \<open>c\<close> of at least \<open>2 ^ -1000\<close>, is at least \<open>c / 2\<close>.\<close>

lemma fl_ge_imp:
  assumes "c \<le> fl x" and "pow2 (- 1000) \<le> c"
  shows "c / 2 \<le> x"
proof (rule ccontr)
  assume "\<not> c / 2 \<le> x"
  then have lt: "x < c / 2" by simp
  have cpos: "0 < c" using assms(2) pow2_pos [of "- 1000"] by linarith
  have xpos: "0 < x" using assms(1) cpos fl_pos_imp [of x] by linarith
  have "fl x \<le> x + maxErr x" using fl_error [of x] by (simp add: abs_le_iff)
  also have "\<dots> = x + x * pow2 (- 53) + pow2 (- 1075)"
    using xpos by (simp add: maxErr_def)
  also have "\<dots> \<le> x + x * (1 / 4) + pow2 (- 1075)"
    using xpos pow2_small [of "- 53"] by (simp add: mult_left_mono)
  also have "\<dots> < c / 2 + (c / 2) * (1 / 4) + pow2 (- 1075)"
    using lt by simp
  also have "pow2 (- 1075) \<le> pow2 (- 1000) * (1 / 4)"
    using pow2_add [of "- 1000" "- 75"] pow2_small [of "- 75"]
    by (simp add: mult_left_mono)
  finally have "fl x < c / 2 + (c / 2) * (1 / 4) + c * (1 / 4)"
    using assms(2) by linarith
  with assms(1) cpos show False by simp
qed

lemma four_roundings: "(1 + pow2 (- 53)) ^ 4 \<le> 1 + 1 / 2 ^ 50"
  by (simp add: pow2_def power4_eq_xxxx)

lemma fl_err: "\<bar>fl x - x\<bar> \<le> \<bar>x\<bar> / 2 ^ 53 + pow2 (- 1075)"
  using fl_error [of x] by (simp add: maxErr_def pow2_def)

lemma fl_abs_le:
  assumes "\<bar>x\<bar> \<le> c" and "c \<le> 2"
  shows "\<bar>fl x\<bar> \<le> c + 1 / 2 ^ 50"
proof -
  have "\<bar>fl x - x\<bar> \<le> \<bar>x\<bar> / 2 ^ 53 + pow2 (- 1075)" by (rule fl_err)
  moreover have "pow2 (- 1075) \<le> 1 / 2 ^ 60"
    using pow2_mono [of "- 1075" "- 60"] by (simp add: pow2_def)
  moreover have "\<bar>x\<bar> / 2 ^ 53 \<le> 2 / 2 ^ 53" using assms by (simp add: divide_right_mono)
  ultimately have "\<bar>fl x - x\<bar> \<le> 1 / 2 ^ 50" by simp
  with assms(1) show ?thesis by linarith
qed

lemma fl_nonzero:
  assumes "pow2 (- 1022) \<le> \<bar>x\<bar>"
  shows "fl x \<noteq> 0"
proof
  assume "fl x = 0"
  with fl_error_normal [OF assms] have "\<bar>x\<bar> \<le> \<bar>x\<bar> * pow2 (- 53)" by simp
  moreover have "pow2 (- 53) \<le> 1 / 4" by (rule pow2_small) simp
  moreover have "0 < \<bar>x\<bar>" using assms pow2_pos [of "- 1022"] by linarith
  ultimately have "\<bar>x\<bar> \<le> \<bar>x\<bar> * (1 / 4)"
    by (meson mult_left_mono order_trans abs_ge_zero)
  with \<open>0 < \<bar>x\<bar>\<close> show False by simp
qed

text \<open>
  The six roundings of an open/close pair: the two notional values, the two
  balance updates, and the difference and the product of the stored profit.
\<close>

lemma six_roundings:
  assumes q: "\<bar>q\<bar> \<le> 2 ^ 500"
  shows "\<bar>(fl (b0 - fl (p * q)) - b0) + (fl (b2 + fl (p' * q)) - b2) - fl (fl (p' - p) * q)\<bar>
           \<le> (\<bar>b0\<bar> + \<bar>b2\<bar> + \<bar>p * q\<bar> + \<bar>p' * q\<bar> + 1) / 2 ^ 50"
proof -
  define \<tau> where "\<tau> = pow2 (- 1075)"
  define v where "v = fl (p * q)"
  define w where "w = fl (p' * q)"
  define d where "d = fl (p' - p)"
  define A where "A = \<bar>p * q\<bar>"
  define B where "B = \<bar>p' * q\<bar>"
  define X0 where "X0 = \<bar>b0\<bar>"
  define X2 where "X2 = \<bar>b2\<bar>"
  define r1 where "r1 = v - p * q"
  define r2 where "r2 = w - p' * q"
  define r3 where "r3 = fl (b0 - v) - (b0 - v)"
  define r4 where "r4 = fl (b2 + w) - (b2 + w)"
  define r5 where "r5 = ((p' - p) - d) * q"
  define r6 where "r6 = d * q - fl (d * q)"
  define R where "R = \<bar>r1\<bar> + \<bar>r2\<bar> + \<bar>r3\<bar> + \<bar>r4\<bar> + \<bar>r5\<bar> + \<bar>r6\<bar>"
  have nn: "0 \<le> A" "0 \<le> B" "0 \<le> X0" "0 \<le> X2" "0 \<le> \<tau>"
    by (simp_all add: A_def B_def X0_def X2_def \<tau>_def)
  have \<tau>s: "\<tau> \<le> 1 / 2 ^ 60"
    unfolding \<tau>_def using pow2_mono [of "- 1075" "- 60"] by (simp add: pow2_def)
  have \<tau>q: "\<tau> * \<bar>q\<bar> \<le> 1 / 2 ^ 60"
  proof -
    have "\<tau> * \<bar>q\<bar> \<le> \<tau> * 2 ^ 500" using q nn(5) by (intro mult_left_mono) simp_all
    also have "\<dots> = pow2 (- 1075) * pow2 500" by (simp add: \<tau>_def pow2_def)
    also have "\<dots> = pow2 (- 575)" using pow2_add [of "- 1075" 500] by simp
    also have "\<dots> \<le> pow2 (- 60)" by (rule pow2_mono) simp
    finally show ?thesis by (simp add: pow2_def)
  qed
  have a1: "\<bar>r1\<bar> \<le> A / 2 ^ 53 + \<tau>"
    unfolding r1_def v_def A_def \<tau>_def by (rule fl_err)
  have a2: "\<bar>r2\<bar> \<le> B / 2 ^ 53 + \<tau>"
    unfolding r2_def w_def B_def \<tau>_def by (rule fl_err)
  have v: "\<bar>v\<bar> \<le> A + \<bar>r1\<bar>" unfolding r1_def A_def by linarith
  have w: "\<bar>w\<bar> \<le> B + \<bar>r2\<bar>" unfolding r2_def B_def by linarith
  have "\<bar>r3\<bar> \<le> \<bar>b0 - v\<bar> / 2 ^ 53 + \<tau>"
    unfolding r3_def \<tau>_def by (rule fl_err)
  moreover have "\<bar>b0 - v\<bar> \<le> X0 + \<bar>v\<bar>" unfolding X0_def by linarith
  ultimately have a3: "\<bar>r3\<bar> \<le> (X0 + \<bar>v\<bar>) / 2 ^ 53 + \<tau>"
    by (simp add: field_simps; linarith?)
  have "\<bar>r4\<bar> \<le> \<bar>b2 + w\<bar> / 2 ^ 53 + \<tau>"
    unfolding r4_def \<tau>_def by (rule fl_err)
  moreover have "\<bar>b2 + w\<bar> \<le> X2 + \<bar>w\<bar>" unfolding X2_def by linarith
  ultimately have a4: "\<bar>r4\<bar> \<le> (X2 + \<bar>w\<bar>) / 2 ^ 53 + \<tau>"
    by (simp add: field_simps; linarith?)
  have pq: "\<bar>(p' - p) * q\<bar> \<le> A + B"
  proof -
    have "(p' - p) * q = p' * q - p * q" by (simp add: algebra_simps)
    then show ?thesis unfolding A_def B_def by linarith
  qed
  have a5: "\<bar>r5\<bar> \<le> (A + B) / 2 ^ 53 + 1 / 2 ^ 60"
  proof -
    have "\<bar>d - (p' - p)\<bar> \<le> \<bar>p' - p\<bar> / 2 ^ 53 + \<tau>"
      unfolding d_def \<tau>_def by (rule fl_err)
    then have "\<bar>d - (p' - p)\<bar> * \<bar>q\<bar> \<le> (\<bar>p' - p\<bar> / 2 ^ 53 + \<tau>) * \<bar>q\<bar>"
      by (intro mult_right_mono) simp_all
    also have "\<dots> = \<bar>(p' - p) * q\<bar> / 2 ^ 53 + \<tau> * \<bar>q\<bar>"
      by (simp only: abs_mult distrib_right times_divide_eq_left)
    finally have "\<bar>d - (p' - p)\<bar> * \<bar>q\<bar> \<le> (A + B) / 2 ^ 53 + 1 / 2 ^ 60"
      using pq \<tau>q by (simp add: field_simps; linarith?)
    moreover have "\<bar>r5\<bar> = \<bar>d - (p' - p)\<bar> * \<bar>q\<bar>"
      unfolding r5_def by (simp add: abs_mult abs_minus_commute)
    ultimately show ?thesis by simp
  qed
  have dq: "\<bar>d * q\<bar> \<le> A + B + \<bar>r5\<bar>"
  proof -
    have "d * q = (p' - p) * q - r5" by (simp add: r5_def algebra_simps)
    then show ?thesis using pq by linarith
  qed
  have "\<bar>r6\<bar> \<le> \<bar>d * q\<bar> / 2 ^ 53 + \<tau>"
    unfolding r6_def \<tau>_def using fl_err [of "d * q"] by (simp add: abs_minus_commute)
  with dq have a6: "\<bar>r6\<bar> \<le> (A + B + \<bar>r5\<bar>) / 2 ^ 53 + \<tau>"
    by (simp add: field_simps; linarith?)
  have split: "(fl (b0 - fl (p * q)) - b0) + (fl (b2 + fl (p' * q)) - b2) - fl (fl (p' - p) * q)
      = r3 + r4 + r2 - r1 + r5 + r6"
    by (simp add: r1_def r2_def r3_def r4_def r5_def r6_def v_def w_def d_def algebra_simps)
  have tri: "\<bar>r3 + r4 + r2 - r1 + r5 + r6\<bar> \<le> R" unfolding R_def by linarith
  define s1 where "s1 = \<bar>r1\<bar>"
  define s2 where "s2 = \<bar>r2\<bar>"
  define s3 where "s3 = \<bar>r3\<bar>"
  define s4 where "s4 = \<bar>r4\<bar>"
  define s5 where "s5 = \<bar>r5\<bar>"
  define s6 where "s6 = \<bar>r6\<bar>"
  define V where "V = \<bar>v\<bar>"
  define W where "W = \<bar>w\<bar>"
  note facts = a1 a2 a3 a4 a5 a6 v w
  have "R \<le> (X0 + X2 + A + B + 1) / 2 ^ 50"
    using facts [folded s1_def s2_def s3_def s4_def s5_def s6_def V_def W_def] nn \<tau>s
    unfolding R_def [folded s1_def s2_def s3_def s4_def s5_def s6_def]
    by (simp add: field_simps; linarith?)
  with tri show ?thesis
    unfolding split X0_def X2_def A_def B_def by linarith
qed

lemma six_roundings_sell:
  assumes q: "\<bar>q\<bar> \<le> 2 ^ 500"
  shows "\<bar>(fl (b0 + fl (p * q)) - b0) + (fl (b2 - fl (p' * q)) - b2) - fl (fl (p - p') * q)\<bar>
           \<le> (\<bar>b0\<bar> + \<bar>b2\<bar> + \<bar>p * q\<bar> + \<bar>p' * q\<bar> + 1) / 2 ^ 50"
  using six_roundings [OF q, of b2 p' b0 p] by (simp add: add.commute add.left_commute)

section \<open>Properties of the risk manager\<close>

lemmas risk_defs = validateSignalExecution_def checkDailyLossLimit_def positionChecks_def
  sizeAndBalanceChecks_def maxPositionValue_def scaledQuantity_def orElse_def dayOf_def
  calculateRiskLevels_def truthy_def

lemma checkDailyLossLimit_balance [simp]:
  "balance (snd (checkDailyLossLimit rs now acct)) = balance acct"
  by (simp add: checkDailyLossLimit_def Let_def)

lemma validate_balance [simp]:
  "balance (snd (validateSignalExecution rs now signal acct openTrades)) = balance acct"
  by (simp add: validateSignalExecution_def Let_def checkDailyLossLimit_def
      split: prod.splits bool.splits)

text \<open>
  The verdict of \<open>validateSignalExecution\<close>: the daily-loss check first, then the
  checks on the open positions, the position size and the balance. The reset of
  the daily-loss check leaves the balance alone, so the later checks see the
  balance they were called with.
\<close>

lemma validate_fst:
  "fst (validateSignalExecution rs now signal acct openTrades) =
     (if enableDailyLossLimit rs \<and> \<not> fst (fst (checkDailyLossLimit rs now acct))
      then \<lparr> canExecute = False, v_reason = snd (fst (checkDailyLossLimit rs now acct)),
             adjustedQuantity = None \<rparr>
      else positionChecks rs signal acct openTrades)"
  by (auto simp: validateSignalExecution_def positionChecks_def sizeAndBalanceChecks_def
      maxPositionValue_def scaledQuantity_def checkDailyLossLimit_def Let_def
      split: prod.splits bool.splits)

lemma validate_rejection_has_reason:
  "\<not> canExecute (fst (validateSignalExecution rs now signal acct openTrades)) \<Longrightarrow>
   \<exists>r. v_reason (fst (validateSignalExecution rs now signal acct openTrades)) = Some r"
  by (auto simp: validate_fst positionChecks_def sizeAndBalanceChecks_def checkDailyLossLimit_def
      Let_def split: if_splits)

section \<open>The position-size cap in double arithmetic\<close>

lemmas riskD_defs = validateSignalExecutionD_def checkDailyLossLimit_def positionChecksD_def
  sizeAndBalanceChecksD_def maxPositionValueD_def scaledQuantityD_def orElse_def dayOf_def
  truthy_def

lemma validateD_fst:
  "fst (validateSignalExecutionD rs now signal acct openTrades) =
     (if enableDailyLossLimit rs \<and> \<not> fst (fst (checkDailyLossLimit rs now acct))
      then \<lparr> canExecute = False, v_reason = snd (fst (checkDailyLossLimit rs now acct)),
             adjustedQuantity = None \<rparr>
      else positionChecksD rs signal acct openTrades)"
  by (auto simp: validateSignalExecutionD_def positionChecksD_def sizeAndBalanceChecksD_def
      maxPositionValueD_def scaledQuantityD_def checkDailyLossLimit_def Let_def
      split: prod.splits bool.splits)

lemma validateD_balance [simp]:
  "balance (snd (validateSignalExecutionD rs now signal acct openTrades)) = balance acct"
  by (simp add: validateSignalExecutionD_def Let_def checkDailyLossLimit_def
      split: prod.splits bool.splits)

text \<open>
  The notional value of a positive scaled quantity, at a positive price of at
  least \<open>2 ^ - 500\<close>: the quotient, the product with 100, the division by 100 and
  the product with the price are each rounded, each by a factor of at most
  \<open>1 + 2 ^ - 53\<close>, and the floor only lowers the value.
\<close>

lemma scaled_notional_bound:
  assumes p: "1 / 2 ^ 500 \<le> p"
    and pos: "0 < scaledQuantityD rs acct p"
  shows "p * scaledQuantityD rs acct p \<le> maxPositionValueD rs acct * (1 + 1 / 2 ^ 50)"
    and "fl (p * scaledQuantityD rs acct p) \<le> maxPositionValueD rs acct * (1 + 1 / 2 ^ 50)"
proof -
  let ?c = "maxPositionValueD rs acct"
  let ?e = "1 + pow2 (- 53)"
  let ?x1 = "?c / p"
  let ?x2 = "fl ?x1 * 100"
  let ?n = "\<lfloor>fl ?x2\<rfloor>"
  let ?x3 = "real_of_int ?n / 100"
  let ?adj = "fl ?x3"
  have adj: "scaledQuantityD rs acct p = ?adj" by (simp add: scaledQuantityD_def)
  have e1: "1 \<le> ?e" by simp
  have ppos: "0 < p" using p by (smt (verit) divide_pos_pos zero_less_numeral zero_less_power)
  have plow: "pow2 (- 500) \<le> p" using p by (simp add: pow2_def)
  from pos have "0 < ?adj" unfolding adj .
  then have x3pos: "0 < ?x3" by (rule fl_pos_imp)
  then have "0 < real_of_int ?n" by (simp only: zero_less_divide_iff) simp
  then have n1: "1 \<le> ?n" by linarith
  then have "1 \<le> real_of_int ?n" by linarith
  then have x3low: "1 / 100 \<le> ?x3" by (simp only: divide_le_cancel) simp
  have small: "pow2 (- 1022) \<le> 1 / 800"
    using pow2_mono [of "- 1022" "- 10"] by (simp add: pow2_def)
  have small2: "pow2 (- 1000) \<le> 1 / 400"
    using pow2_mono [of "- 1000" "- 9"] by (simp add: pow2_def)
  have b3: "?adj \<le> ?x3 * ?e"
    using x3low small by (intro fl_le_rel) linarith
  have adjlow: "1 / 200 \<le> ?adj"
  proof -
    have "?x3 * (1 - pow2 (- 53)) \<le> ?adj"
      using x3low small by (intro fl_ge_rel) linarith
    moreover have "1 / 2 \<le> 1 - pow2 (- 53)" using pow2_small [of "- 53"] by simp
    moreover have "?x3 * (1 / 2) \<le> ?x3 * (1 - pow2 (- 53))"
      using x3pos calculation(2) by (intro mult_left_mono) simp_all
    ultimately show ?thesis using x3low by linarith
  qed
  have "real_of_int ?n \<le> fl ?x2" by (rule of_int_floor_le)
  with n1 have q1: "1 \<le> fl ?x2" by linarith
  have "pow2 (- 1000) \<le> (1::real)" using pow2_mono [of "- 1000" 0] by (simp add: pow2_def)
  from fl_ge_imp [OF q1 this] have x2low: "1 / 2 \<le> ?x2" by simp
  have b2: "fl ?x2 \<le> ?x2 * ?e"
    using x2low small by (intro fl_le_rel) linarith
  from x2low have q0: "1 / 400 \<le> fl ?x1" by simp
  from fl_ge_imp [OF q0 small2] have x1low: "1 / 800 \<le> ?x1" by simp
  have b1: "fl ?x1 \<le> ?x1 * ?e"
    using x1low small by (intro fl_le_rel) linarith
  have x1pos: "0 < ?x1" using x1low by linarith
  then have cpos: "0 < ?c" using ppos by (simp add: zero_less_divide_iff)
  have x4low: "pow2 (- 1022) \<le> p * ?adj"
  proof -
    have "pow2 (- 1022) = pow2 (- 500) * pow2 (- 522)"
      using pow2_add [of "- 500" "- 522"] by simp
    also have "\<dots> \<le> p * pow2 (- 522)" using plow by (intro mult_right_mono) simp_all
    also have "pow2 (- 522) \<le> 1 / 200"
      using pow2_mono [of "- 522" "- 8"] by (simp add: pow2_def)
    finally have "pow2 (- 1022) \<le> p * (1 / 200)"
      using ppos by (simp add: mult_left_mono)
    also have "\<dots> \<le> p * ?adj" using ppos adjlow by (intro mult_left_mono) simp_all
    finally show ?thesis .
  qed
  have "?x3 \<le> fl ?x2 / 100" using of_int_floor_le [of "fl ?x2"] by simp
  also have "fl ?x2 / 100 \<le> (?x2 * ?e) / 100" using b2 by simp
  also have "?x2 * ?e / 100 = fl ?x1 * ?e" by simp
  also have "fl ?x1 * ?e \<le> (?x1 * ?e) * ?e" using b1 by (intro mult_right_mono) simp_all
  finally have x3up: "?x3 \<le> ?x1 * ?e * ?e" .
  have "p * ?adj \<le> p * (?x3 * ?e)"
    using b3 ppos by (intro mult_left_mono) simp_all
  also have "\<dots> \<le> p * ((?x1 * ?e * ?e) * ?e)"
    using x3up ppos by (intro mult_left_mono mult_right_mono) simp_all
  also have "\<dots> = ?c * (?e * ?e * ?e)" using ppos by simp
  finally have exact: "p * ?adj \<le> ?c * (?e * ?e * ?e)" .
  have "?c * (?e * ?e * ?e) * 1 \<le> ?c * (?e * ?e * ?e) * ?e"
    using cpos by (intro mult_left_mono) simp_all
  also have "\<dots> = ?c * ?e ^ 4" by (simp add: power4_eq_xxxx)
  also have "\<dots> \<le> ?c * (1 + 1 / 2 ^ 50)"
    using cpos four_roundings by (intro mult_left_mono) simp_all
  finally have three: "?c * (?e * ?e * ?e) \<le> ?c * (1 + 1 / 2 ^ 50)" by simp
  from exact three show "p * scaledQuantityD rs acct p \<le> ?c * (1 + 1 / 2 ^ 50)"
    unfolding adj by linarith
  have "fl (p * ?adj) \<le> (p * ?adj) * ?e" using x4low by (rule fl_le_rel)
  also have "\<dots> \<le> (?c * (?e * ?e * ?e)) * ?e"
    using exact by (intro mult_right_mono) simp_all
  also have "\<dots> = ?c * ?e ^ 4" by (simp add: power4_eq_xxxx)
  also have "\<dots> \<le> ?c * (1 + 1 / 2 ^ 50)"
    using cpos four_roundings by (intro mult_left_mono) simp_all
  finally show "fl (p * scaledQuantityD rs acct p) \<le> ?c * (1 + 1 / 2 ^ 50)"
    unfolding adj .
qed

text \<open>
  C2, as the code has it. Take a signal whose notional value, the double
  \<open>signal.price * signal.quantity\<close>, exceeds the cap
  \<open>Math.min(maxPositionSize, balance * (riskPerTrade / 100))\<close>, with a price of at
  least \<open>2 ^ - 500\<close> and a cap of at most \<open>2 ^ 500\<close> in magnitude. If the validation
  lets the signal through, it returns the scaled quantity
  \<open>Math.floor(cap / price * 100) / 100\<close>, which is positive. If moreover the price
  is positive, the notional value of the scaled quantity, as an exact product and
  as the double the engine computes, is at most the cap times \<open>1 + 2 ^ - 50\<close>: the
  roundings of the quotient and of the two products can lift it above the cap
  itself. If the daily-loss check passes (or is switched off) and the number of
  open positions is below the maximum, the signal is rejected exactly when the
  scaled quantity is zero or less. The two earlier checks reject on their own
  grounds, whatever the scaled quantity is.
\<close>

theorem validate_over_cap_rounded:
  assumes over: "fl (s_price signal * s_quantity signal) > maxPositionValueD rs acct"
    and price: "1 / 2 ^ 500 \<le> \<bar>s_price signal\<bar>"
    and cap: "\<bar>maxPositionValueD rs acct\<bar> \<le> 2 ^ 500"
  shows "(canExecute (fst (validateSignalExecutionD rs now signal acct openTrades)) \<longrightarrow>
            adjustedQuantity (fst (validateSignalExecutionD rs now signal acct openTrades))
              = Some (scaledQuantityD rs acct (s_price signal))
            \<and> 0 < scaledQuantityD rs acct (s_price signal))
         \<and> (0 < s_price signal \<longrightarrow>
              canExecute (fst (validateSignalExecutionD rs now signal acct openTrades)) \<longrightarrow>
              s_price signal * scaledQuantityD rs acct (s_price signal)
                \<le> maxPositionValueD rs acct * (1 + 1 / 2 ^ 50)
              \<and> fl (s_price signal * scaledQuantityD rs acct (s_price signal))
                \<le> maxPositionValueD rs acct * (1 + 1 / 2 ^ 50))
         \<and> ((enableDailyLossLimit rs \<longrightarrow> fst (fst (checkDailyLossLimit rs now acct))) \<longrightarrow>
              real (length openTrades) < maxOpenPositions rs \<longrightarrow>
              (\<not> canExecute (fst (validateSignalExecutionD rs now signal acct openTrades))
                 \<longleftrightarrow> scaledQuantityD rs acct (s_price signal) \<le> 0))"
proof -
  let ?v = "fst (validateSignalExecutionD rs now signal acct openTrades)"
  have adj: "adjustedQuantity ?v = Some (scaledQuantityD rs acct (s_price signal))
             \<and> 0 < scaledQuantityD rs acct (s_price signal)" if "canExecute ?v"
    using that over
    by (auto simp: validateD_fst positionChecksD_def sizeAndBalanceChecksD_def Let_def
        split: if_splits)
  have bound: "s_price signal * scaledQuantityD rs acct (s_price signal)
                 \<le> maxPositionValueD rs acct * (1 + 1 / 2 ^ 50)
               \<and> fl (s_price signal * scaledQuantityD rs acct (s_price signal))
                 \<le> maxPositionValueD rs acct * (1 + 1 / 2 ^ 50)"
    if "0 < s_price signal" and "canExecute ?v"
  proof -
    from that(1) price have "1 / 2 ^ 500 \<le> s_price signal" by simp
    moreover from adj [OF that(2)] have "0 < scaledQuantityD rs acct (s_price signal)" ..
    ultimately show ?thesis using scaled_notional_bound by blast
  qed
  have rej: "(\<not> canExecute ?v) = (scaledQuantityD rs acct (s_price signal) \<le> 0)"
    if "enableDailyLossLimit rs \<longrightarrow> fst (fst (checkDailyLossLimit rs now acct))"
      and "real (length openTrades) < maxOpenPositions rs"
    using that over
    by (auto simp: validateD_fst positionChecksD_def sizeAndBalanceChecksD_def Let_def)
  from adj bound rej show ?thesis by blast
qed

lemma gold_cap:
  "maxPositionValueD defaultRiskSettings goldAccount = 5751941149082255 / 4398046511104"
  by (simp add: maxPositionValueD_def defaultRiskSettings_def goldAccount_def fl_eval)

lemma gold_scaled:
  "scaledQuantityD defaultRiskSettings goldAccount 1952 = 6034823500676465 / 9007199254740992"
  unfolding scaledQuantityD_def gold_cap by (simp add: fl_eval)

lemma debt_cap:
  "maxPositionValueD defaultRiskSettings debtAccount = - (5753348523965809 / 2251799813685248)"
  by (simp add: maxPositionValueD_def defaultRiskSettings_def debtAccount_def fl_eval)

lemma debt_scaled:
  "scaledQuantityD defaultRiskSettings debtAccount (- 1) = 2871044762448691 / 1125899906842624"
  unfolding scaledQuantityD_def debt_cap by (simp add: fl_eval)

lemma initial_cap:
  "maxPositionValueD defaultRiskSettings (account (initialEngine 0)) = 2500"
  by (simp add: maxPositionValueD_def defaultRiskSettings_def initialEngine_def fl_eval)

lemma initial_scaled:
  "scaledQuantityD defaultRiskSettings (account (initialEngine 0)) 44500
     = 3602879701896397 / 72057594037927936"
  unfolding scaledQuantityD_def initial_cap by (simp add: fl_eval)

text \<open>
  The scenario's signal (notional value 4450, cap 2500) on the initial account
  with no open position: let through with the quantity scaled to the double
  0.05, whose notional value is 2225.
\<close>

theorem validate_over_cap_rounded_witness:
  "fl (s_price roundedSignal * s_quantity roundedSignal)
     > maxPositionValueD defaultRiskSettings (account (initialEngine 0)) \<and>
   1 / 2 ^ 500 \<le> \<bar>s_price roundedSignal\<bar> \<and>
   \<bar>maxPositionValueD defaultRiskSettings (account (initialEngine 0))\<bar> \<le> 2 ^ 500 \<and>
   0 < s_price roundedSignal \<and>
   fst (fst (checkDailyLossLimit defaultRiskSettings 1000 (account (initialEngine 0)))) \<and>
   real (length ([] :: PaperTrade list)) < maxOpenPositions defaultRiskSettings \<and>
   canExecute (fst (validateSignalExecutionD defaultRiskSettings 1000 roundedSignal
                      (account (initialEngine 0)) [])) \<and>
   adjustedQuantity (fst (validateSignalExecutionD defaultRiskSettings 1000 roundedSignal
                      (account (initialEngine 0)) [])) = Some (fl (1 / 20)) \<and>
   s_price roundedSignal * fl (1 / 20)
     \<le> maxPositionValueD defaultRiskSettings (account (initialEngine 0)) * (1 + 1 / 2 ^ 50) \<and>
   fl (s_price roundedSignal * fl (1 / 20))
     \<le> maxPositionValueD defaultRiskSettings (account (initialEngine 0)) * (1 + 1 / 2 ^ 50) \<and>
   fl (s_price roundedSignal * fl (1 / 20)) = 2225 \<and>
   maxPositionValueD defaultRiskSettings (account (initialEngine 0)) = 2500"
proof -
  note cap = initial_cap
  have sc: "scaledQuantityD defaultRiskSettings (account (initialEngine 0)) 44500 = fl (1 / 20)"
    unfolding initial_scaled by (simp add: fl_eval)
  have h1: "fl (s_price roundedSignal * s_quantity roundedSignal)
     > maxPositionValueD defaultRiskSettings (account (initialEngine 0))"
    unfolding cap by (simp add: roundedSignal_def scenarioSignal_def fl_eval)
  have h2: "1 / 2 ^ 500 \<le> \<bar>s_price roundedSignal\<bar>"
    by (simp add: roundedSignal_def scenarioSignal_def)
  have h3: "\<bar>maxPositionValueD defaultRiskSettings (account (initialEngine 0))\<bar> \<le> 2 ^ 500"
    unfolding cap by simp
  have h4: "0 < s_price roundedSignal" by (simp add: roundedSignal_def scenarioSignal_def)
  have h5: "fst (fst (checkDailyLossLimit defaultRiskSettings 1000 (account (initialEngine 0))))"
    by (simp add: checkDailyLossLimit_def defaultRiskSettings_def initialEngine_def orElse_def
        dayOf_def Let_def)
  have h6: "real (length ([] :: PaperTrade list)) < maxOpenPositions defaultRiskSettings"
    by (simp add: defaultRiskSettings_def)
  have pr: "s_price roundedSignal = 44500" by (simp add: roundedSignal_def scenarioSignal_def)
  have pos: "0 < fl (1 / 20)" by (simp add: fl_eval)
  have nt: "fl (s_price roundedSignal * fl (1 / 20)) = 2225"
    unfolding pr by (simp add: fl_eval)
  from validate_over_cap_rounded [OF h1 h2 h3, of 1000 "[]"] h1 h2 h3 h4 h5 h6 pos nt cap
  show ?thesis unfolding pr sc by simp
qed

text \<open>
  The same signal with five positions open is rejected although its scaled
  quantity is the double 0.05, not zero. A BUY of one ounce of gold at 1952
  against a balance of 5231.36 is let through with the quantity scaled to the
  double 0.67, whose notional value 1307.8400000000001 lies above the cap
  1307.84. And a signal with a negative price against a negative cap is let
  through with a scaled quantity whose notional value lies above the cap.
\<close>

theorem validate_over_cap_rounded_counterexample:
  "fl (s_price roundedSignal * s_quantity roundedSignal)
     > maxPositionValueD defaultRiskSettings (account (initialEngine 0)) \<and>
   \<not> canExecute (fst (validateSignalExecutionD defaultRiskSettings 1000 roundedSignal
                      (account (initialEngine 0)) (replicate 5 sampleTrade))) \<and>
   scaledQuantityD defaultRiskSettings (account (initialEngine 0)) (s_price roundedSignal)
     = 3602879701896397 / 72057594037927936 \<and>
   fl (s_price goldSignal * s_quantity goldSignal)
     > maxPositionValueD defaultRiskSettings goldAccount \<and>
   canExecute (fst (validateSignalExecutionD defaultRiskSettings 1000 goldSignal
                      goldAccount [])) \<and>
   adjustedQuantity (fst (validateSignalExecutionD defaultRiskSettings 1000 goldSignal
                      goldAccount [])) = Some (6034823500676465 / 9007199254740992) \<and>
   maxPositionValueD defaultRiskSettings goldAccount = 5751941149082255 / 4398046511104 \<and>
   fl (s_price goldSignal * (6034823500676465 / 9007199254740992))
     = 359496321817641 / 274877906944 \<and>
   fl (s_price goldSignal * (6034823500676465 / 9007199254740992))
     > maxPositionValueD defaultRiskSettings goldAccount \<and>
   fl (s_price shortSignal * s_quantity shortSignal)
     > maxPositionValueD defaultRiskSettings debtAccount \<and>
   canExecute (fst (validateSignalExecutionD defaultRiskSettings 1000 shortSignal
                      debtAccount [])) \<and>
   adjustedQuantity (fst (validateSignalExecutionD defaultRiskSettings 1000 shortSignal
                      debtAccount [])) = Some (2871044762448691 / 1125899906842624) \<and>
   fl (s_price shortSignal * (2871044762448691 / 1125899906842624))
     > maxPositionValueD defaultRiskSettings debtAccount"
proof -
  have pr: "s_price roundedSignal = 44500" "s_price goldSignal = 1952"
    "s_price shortSignal = - 1"
    by (simp_all add: roundedSignal_def goldSignal_def shortSignal_def scenarioSignal_def)
  have prod: "fl (s_price roundedSignal * s_quantity roundedSignal) = 4450"
    "fl (s_price goldSignal * s_quantity goldSignal) = 1952"
    "fl (s_price shortSignal * s_quantity shortSignal) = - 1"
    by (simp_all add: roundedSignal_def goldSignal_def shortSignal_def scenarioSignal_def
        fl_eval)
  have dl: "fst (fst (checkDailyLossLimit defaultRiskSettings 1000 acct))"
    if "acct_maxDailyLoss acct = None" "lastResetDate acct = None" for acct
    using that
    by (simp add: checkDailyLossLimit_def defaultRiskSettings_def orElse_def dayOf_def Let_def)
  have en: "enableDailyLossLimit defaultRiskSettings"
    "maxOpenPositions defaultRiskSettings = 5"
    by (simp_all add: defaultRiskSettings_def)
  have a: "\<not> canExecute (fst (validateSignalExecutionD defaultRiskSettings 1000 roundedSignal
                      (account (initialEngine 0)) (replicate 5 sampleTrade)))"
    using dl [of "account (initialEngine 0)"]
    by (simp add: validateD_fst positionChecksD_def en initialEngine_def)
  have g: "fst (validateSignalExecutionD defaultRiskSettings 1000 goldSignal goldAccount [])
      = \<lparr> canExecute = True,
          v_reason = Some (PositionSizeAdjusted 1 (6034823500676465 / 9007199254740992)),
          adjustedQuantity = Some (6034823500676465 / 9007199254740992) \<rparr>"
  proof -
    have "fst (fst (checkDailyLossLimit defaultRiskSettings 1000 goldAccount))"
      by (rule dl) (simp_all add: goldAccount_def)
    then show ?thesis
      using prod(2)
      by (simp add: validateD_fst positionChecksD_def sizeAndBalanceChecksD_def en gold_cap
          gold_scaled pr(2) Let_def) (simp add: goldSignal_def)
  qed
  have d: "fst (validateSignalExecutionD defaultRiskSettings 1000 shortSignal debtAccount [])
      = \<lparr> canExecute = True,
          v_reason = Some (PositionSizeAdjusted 1 (2871044762448691 / 1125899906842624)),
          adjustedQuantity = Some (2871044762448691 / 1125899906842624) \<rparr>"
  proof -
    have "fst (fst (checkDailyLossLimit defaultRiskSettings 1000 debtAccount))"
      by (rule dl) (simp_all add: debtAccount_def)
    then show ?thesis
      using prod(3)
      by (simp add: validateD_fst positionChecksD_def sizeAndBalanceChecksD_def en debt_cap
          debt_scaled pr(3) Let_def) (simp add: shortSignal_def)
  qed
  have gn: "fl (1952 * (6034823500676465 / 9007199254740992))
      = 359496321817641 / 274877906944"
    by (simp add: fl_eval)
  have dn: "fl (- 1 * (2871044762448691 / 1125899906842624))
      = - (2871044762448691 / 1125899906842624)"
    by (simp add: fl_eval)
  show ?thesis
    apply (simp only: prod)
    apply (simp only: pr g d gold_cap debt_cap initial_cap initial_scaled gn dn)
    using a apply simp
    done
qed

section \<open>Properties of the paper trading engine\<close>

lemmas engine_defs = executeSignal_def closeTrade_def getOpenTrades_def getClosedTrades_def
  updateTradePnL_def getCurrentPrice_def initialEngine_def defaultRiskSettings_def

lemmas tick_defs = updateMarketPrices_def openIndices_def refreshTrade_def
  checkStopLossAndTakeProfit_def btcDraw_def closeTrade_def updateTradePnL_def
  getCurrentPrice_def truthy_def initialEngine_def sampleTrade_def

subsection \<open>Failed operations\<close>

lemma executeSignal_rejected:
  assumes "\<not> canExecute (fst (validateSignalExecution rs now signal (account st) (getOpenTrades st)))"
  shows "executeSignal rs now tid u signal st =
           (Inl (case v_reason (fst (validateSignalExecution rs now signal (account st)
                                       (getOpenTrades st))) of
                   Some r \<Rightarrow> RiskError r | None \<Rightarrow> RiskValidationFailed),
            st\<lparr>account := snd (validateSignalExecution rs now signal (account st)
                                  (getOpenTrades st))\<rparr>)"
proof -
  obtain v a where
    va: "validateSignalExecution rs now signal (account st) (getOpenTrades st) = (v, a)"
    by (cases "validateSignalExecution rs now signal (account st) (getOpenTrades st)")
  with assms show ?thesis by (simp add: executeSignal_def Let_def)
qed

lemma executeSignal_error_frame:
  assumes "executeSignal rs now tid u signal st = (Inl e, st')"
  shows "balance (account st') = balance (account st) \<and> trades st' = trades st
         \<and> marketPrices st' = marketPrices st"
proof -
  obtain v a where
    va: "validateSignalExecution rs now signal (account st) (getOpenTrades st) = (v, a)"
    by (cases "validateSignalExecution rs now signal (account st) (getOpenTrades st)")
  have "balance a = balance (account st)"
    using validate_balance [of rs now signal "account st" "getOpenTrades st"] va by simp
  with assms va show ?thesis
    by (auto simp: executeSignal_def Let_def split: if_splits prod.splits)
qed

lemma findIndex_find:
  "findIndex P xs = Some i \<Longrightarrow> i < length xs \<and> find P xs = Some (xs ! i)"
  by (induction xs arbitrary: i) (auto split: if_splits)

lemma findIndex_None: "(findIndex P xs = None) = (find P xs = None)"
  by (induction xs) auto

lemma closeTrade_error_iff:
  "isl (fst (closeTrade now u tradeId st)) \<longleftrightarrow>
     (case find (\<lambda>t. t_id t = tradeId) (trades st) of
        None \<Rightarrow> True | Some trade \<Rightarrow> t_status trade = TradeClosed)"
proof (cases "findIndex (\<lambda>t. t_id t = tradeId) (trades st)")
  case None
  then have "find (\<lambda>t. t_id t = tradeId) (trades st) = None"
    by (simp add: findIndex_None)
  with None show ?thesis by (simp add: closeTrade_def)
next
  case (Some i)
  then show ?thesis using findIndex_find [OF Some]
    by (simp add: closeTrade_def Let_def)
qed

lemma closeTrade_error_state:
  "isl (fst (closeTrade now u tradeId st)) \<Longrightarrow> snd (closeTrade now u tradeId st) = st"
  by (auto simp: closeTrade_def Let_def split: option.splits if_splits)

text \<open>
  C4. When the risk manager rejects a signal, \<open>executeSignal\<close> throws an error
  that carries the rejection reason, and the balance, the trade list and the
  quote table are as before. \<open>closeTrade\<close> throws exactly when no trade has the
  given id or the trade found under that id is closed already, and then the
  whole state is as before.
\<close>

theorem error_atomicity:
  "(\<not> canExecute (fst (validateSignalExecution rs now signal (account st) (getOpenTrades st))) \<longrightarrow>
      (\<exists>r. v_reason (fst (validateSignalExecution rs now signal (account st) (getOpenTrades st)))
              = Some r
          \<and> fst (executeSignal rs now tid u signal st) = Inl (RiskError r))
      \<and> balance (account (snd (executeSignal rs now tid u signal st))) = balance (account st)
      \<and> trades (snd (executeSignal rs now tid u signal st)) = trades st
      \<and> marketPrices (snd (executeSignal rs now tid u signal st)) = marketPrices st)
   \<and> (isl (fst (closeTrade now' u' tradeId st)) \<longleftrightarrow>
        (case find (\<lambda>t. t_id t = tradeId) (trades st) of
           None \<Rightarrow> True | Some trade \<Rightarrow> t_status trade = TradeClosed))
   \<and> (isl (fst (closeTrade now' u' tradeId st)) \<longrightarrow> snd (closeTrade now' u' tradeId st) = st)"
proof (intro conjI impI)
  assume rej:
    "\<not> canExecute (fst (validateSignalExecution rs now signal (account st) (getOpenTrades st)))"
  from validate_rejection_has_reason [OF rej] obtain r where
    r: "v_reason (fst (validateSignalExecution rs now signal (account st) (getOpenTrades st)))
          = Some r"
    by blast
  show "\<exists>r. v_reason (fst (validateSignalExecution rs now signal (account st) (getOpenTrades st)))
              = Some r
          \<and> fst (executeSignal rs now tid u signal st) = Inl (RiskError r)"
    using r by (simp add: executeSignal_rejected [OF rej])
  show "balance (account (snd (executeSignal rs now tid u signal st))) = balance (account st)"
    by (simp add: executeSignal_rejected [OF rej])
  show "trades (snd (executeSignal rs now tid u signal st)) = trades st"
    by (simp add: executeSignal_rejected [OF rej])
  show "marketPrices (snd (executeSignal rs now tid u signal st)) = marketPrices st"
    by (simp add: executeSignal_rejected [OF rej])
next
  show "isl (fst (closeTrade now' u' tradeId st)) \<longleftrightarrow>
        (case find (\<lambda>t. t_id t = tradeId) (trades st) of
           None \<Rightarrow> True | Some trade \<Rightarrow> t_status trade = TradeClosed)"
    by (rule closeTrade_error_iff)
next
  assume "isl (fst (closeTrade now' u' tradeId st))"
  then show "snd (closeTrade now' u' tradeId st) = st" by (rule closeTrade_error_state)
qed

subsection \<open>The example scenario\<close>

lemma scenario_opened:
  "scenarioOpened =
     \<lparr> trades = [sampleTrade],
       account = \<lparr> balance = 7775, acct_maxDailyLoss = None, dailyLossUsed = Some 0,
                   lastResetDate = Some 1000 \<rparr>,
       marketPrices = marketPrices (initialEngine 0) \<rparr>"
  by (simp add: scenarioOpened_def scenarioSignal_def sampleTrade_def engine_defs risk_defs
      Let_def)

lemma scenario_tick1:
  "scenarioTick1 = scenarioState (135500 / 3) (100 / 3) (1 / 60) (400 / 267) (135500 / 3) 2000"
  unfolding scenarioTick1_def scenario_opened
  by (simp add: tick_defs quoteEntry_def scenarioState_def Let_def)

lemma scenario_tick2:
  "scenarioTick2 = scenarioState (136000 / 3) (125 / 3) (1 / 30) (500 / 267) (136000 / 3) 3000"
  unfolding scenarioTick2_def scenario_tick1
  by (simp add: tick_defs quoteEntry_def scenarioState_def Let_def)

lemma scenario_tick3:
  "scenarioTick3 = scenarioState 45500 50 (1 / 20) (200 / 89) 45500 4000"
  unfolding scenarioTick3_def scenario_tick2
  by (simp add: tick_defs quoteEntry_def scenarioState_def Let_def)

lemma scenario_tick4:
  "scenarioTick4 = scenarioState 46000 75 (1 / 15) (300 / 89) (137000 / 3) 5000"
  unfolding scenarioTick4_def scenario_tick3
  by (simp add: tick_defs quoteEntry_def scenarioState_def Let_def)

lemma scenario_closed:
  "scenarioClosed =
     (scenarioState 46000 75 (1 / 15) (300 / 89) (137000 / 3) 5000)
       \<lparr> trades := [sampleTrade\<lparr>t_currentPrice := Some 46000, t_pnl := 75,
                   t_holdingPeriod := Some (1 / 15), t_returnPercentage := Some (300 / 89),
                   t_status := TradeClosed, t_closedAt := Some 6000\<rparr>],
         account := \<lparr> balance = 10075, acct_maxDailyLoss = None, dailyLossUsed = Some 0,
                      lastResetDate = Some 1000 \<rparr> \<rparr>"
  unfolding scenarioClosed_def scenario_tick4
  by (simp add: tick_defs quoteEntry_def scenarioState_def Let_def)

text \<open>
  A rejected signal and a second close of the scenario's trade, on the state the
  scenario ends in.
\<close>

theorem error_atomicity_witness:
  "\<not> canExecute (fst (validateSignalExecution defaultRiskSettings 7000 hugeSignal
                        (account scenarioClosed) (getOpenTrades scenarioClosed))) \<and>
   fst (executeSignal defaultRiskSettings 7000 ''trade_2'' (1 / 2) hugeSignal scenarioClosed)
     = Inl (RiskError (PositionSizeTooLarge (10075 / 4))) \<and>
   balance (account (snd (executeSignal defaultRiskSettings 7000 ''trade_2'' (1 / 2) hugeSignal
     scenarioClosed))) = balance (account scenarioClosed) \<and>
   trades (snd (executeSignal defaultRiskSettings 7000 ''trade_2'' (1 / 2) hugeSignal
     scenarioClosed)) = trades scenarioClosed \<and>
   marketPrices (snd (executeSignal defaultRiskSettings 7000 ''trade_2'' (1 / 2) hugeSignal
     scenarioClosed)) = marketPrices scenarioClosed \<and>
   isl (fst (closeTrade 8000 (1 / 2) ''trade_1'' scenarioClosed)) \<and>
   snd (closeTrade 8000 (1 / 2) ''trade_1'' scenarioClosed) = scenarioClosed"
  using error_atomicity
    [of defaultRiskSettings 7000 hugeSignal scenarioClosed "''trade_2''" "1 / 2" 8000 "1 / 2"
      "''trade_1''"]
  unfolding scenario_closed
  by (simp add: hugeSignal_def scenarioSignal_def scenarioState_def sampleTrade_def risk_defs
      getOpenTrades_def defaultRiskSettings_def Let_def)

text \<open>
  C1, the first step of the scenario as the specification tells it: with the
  shipped settings the cap is \<open>min(5000, 25% of 10000) = 2500\<close>, the notional
  value 4450 lies above it, and the balance after the execution is 7775, not 5550.
\<close>

theorem scenario_counterexample:
  "balance (account (snd (executeSignal defaultRiskSettings 1000 ''trade_1'' (1 / 2)
       scenarioSignal (initialEngine 0)))) = 7775 \<and>
   balance (account (snd (executeSignal defaultRiskSettings 1000 ''trade_1'' (1 / 2)
       scenarioSignal (initialEngine 0)))) \<noteq> 5550"
  using scenario_opened by (simp add: scenarioOpened_def)

text \<open>
  C1, as the code runs it. From the initial state (balance 10000) and the shipped
  settings, the BUY BTC signal at 44500 with quantity 0.1 (notional value 4450,
  cap 2500) is executed with the quantity scaled to 0.05: the trade is open and
  the balance is 7775. After four refreshes the trade is quoted at 46000 and its
  profit is \<open>(46000 - 44500) * 0.05 = 75\<close>. Closing at 46000 brings the balance to
  \<open>7775 + 46000 * 0.05 = 10075\<close>; the total profit over all trades is 75 and the
  win rate over the closed trades is 100.
\<close>

theorem scenario_amended:
  "s_price scenarioSignal * s_quantity scenarioSignal = 4450 \<and>
   maxPositionValue defaultRiskSettings (account (initialEngine 0)) = 2500 \<and>
   map t_status (trades scenarioOpened) = [TradeOpen] \<and>
   map t_quantity (trades scenarioOpened) = [1 / 20] \<and>
   balance (account scenarioOpened) = 7775 \<and>
   map t_currentPrice (trades scenarioTick4) = [Some 46000] \<and>
   map t_pnl (trades scenarioTick4) = [75] \<and>
   map t_status (trades scenarioTick4) = [TradeOpen] \<and>
   map t_status (trades scenarioClosed) = [TradeClosed] \<and>
   map t_currentPrice (trades scenarioClosed) = [Some 46000] \<and>
   balance (account scenarioClosed) = 10075 \<and>
   getTotalPnL scenarioClosed = 75 \<and>
   getWinRate scenarioClosed = 100"
  unfolding scenario_opened scenario_tick4 scenario_closed
  by (simp add: scenarioState_def sampleTrade_def scenarioSignal_def maxPositionValue_def
      defaultRiskSettings_def initialEngine_def getTotalPnL_def getWinRate_def
      getClosedTrades_def)

section \<open>Runs: what every operation keeps\<close>

lemma updateTradePnL_openingData [simp]:
  "openingData (updateTradePnL trade) = openingData trade"
  by (simp add: updateTradePnL_def openingData_def)

lemma updateTradePnL_status [simp]: "t_status (updateTradePnL trade) = t_status trade"
  by (simp add: updateTradePnL_def)

lemma map_update_same:
  assumes "f y = f (xs ! i)"
  shows "map f (xs[i := y]) = map f xs"
proof (cases "i < length xs")
  case True
  with assms show ?thesis by (simp add: map_update list_update_same_conv)
next
  case False
  then show ?thesis by (simp add: list_update_beyond)
qed

lemma closeTrade_marketPrices [simp]:
  "marketPrices (snd (closeTrade now u tradeId st)) = marketPrices st"
  by (auto simp: closeTrade_def Let_def split: option.splits)

lemma refreshTrade_marketPrices [simp]:
  "marketPrices (refreshTrade now us i st) = marketPrices st"
  by (simp add: refreshTrade_def Let_def)

lemma refreshTrades_marketPrices [simp]:
  "marketPrices (refreshTrades now td k is st) = marketPrices st"
  by (induction "is" arbitrary: k st) simp_all

lemma executeSignal_marketPrices [simp]:
  "marketPrices (snd (executeSignal rs now tid u signal st)) = marketPrices st"
  by (auto simp: executeSignal_def Let_def split: prod.splits)

lemma executeSignal_success:
  assumes "executeSignal rs now tid u signal st = (Inr t, st')"
  shows "trades st' = trades st @ [t]"
    and "t_id t = tid" and "t_signalId t = s_id signal"
    and "t_symbol t = s_symbol signal" and "t_action t = s_action signal"
    and "t_entryPrice t = s_price signal" and "t_status t = TradeOpen"
    and "balance (account st') = balance (account st)
           + (if s_action signal = BUY then - (s_price signal * t_quantity t)
              else s_price signal * t_quantity t)"
proof -
  obtain v a where
    va: "validateSignalExecution rs now signal (account st) (getOpenTrades st) = (v, a)"
    by (cases "validateSignalExecution rs now signal (account st) (getOpenTrades st)")
  have bal: "balance a = balance (account st)"
    using validate_balance [of rs now signal "account st" "getOpenTrades st"] va by simp
  from assms va bal show "trades st' = trades st @ [t]"
    and "t_id t = tid" and "t_signalId t = s_id signal"
    and "t_symbol t = s_symbol signal" and "t_action t = s_action signal"
    and "t_entryPrice t = s_price signal" and "t_status t = TradeOpen"
    and "balance (account st') = balance (account st)
           + (if s_action signal = BUY then - (s_price signal * t_quantity t)
              else s_price signal * t_quantity t)"
    by (auto simp: executeSignal_def Let_def updateTradePnL_def calculateRiskLevels_def
        split: if_splits prod.splits)
qed

lemma findIndex_append:
  "findIndex P xs = Some i \<Longrightarrow> findIndex P (xs @ ys) = Some i"
  by (induction xs arbitrary: i) (auto split: if_splits)

lemma findIndex_fresh:
  "\<forall>x\<in>set xs. \<not> P x \<Longrightarrow> P y \<Longrightarrow> findIndex P (xs @ [y]) = Some (length xs)"
  by (induction xs) auto

lemma findIndex_map: "findIndex P (map f xs) = findIndex (\<lambda>x. P (f x)) xs"
  by (induction xs) auto

section \<open>Runs of the engine in double arithmetic\<close>

text \<open>
  No step changes the opening data of a trade, and the trade list only grows at
  its end. So a trade opened under a fresh id stays the first trade with that id,
  at the position it was pushed to.
\<close>

lemma updateTradePnLD_openingData [simp]:
  "openingData (updateTradePnLD trade) = openingData trade"
  by (simp add: updateTradePnLD_def openingData_def)

lemma updateTradePnLD_status [simp]: "t_status (updateTradePnLD trade) = t_status trade"
  by (simp add: updateTradePnLD_def)

lemma closeTradeD_openingData:
  "map openingData (trades (snd (closeTradeD now u tradeId st))) = map openingData (trades st)"
  by (auto simp: closeTradeD_def Let_def map_update_same openingData_def updateTradePnLD_def
      split: option.splits)

lemma refreshTradeD_openingData:
  "map openingData (trades (refreshTradeD now us i st)) = map openingData (trades st)"
  by (simp add: refreshTradeD_def Let_def closeTradeD_openingData map_update_same
      openingData_def updateTradePnLD_def)

lemma executeSignalD_openingData:
  "\<exists>ys. map openingData (trades (snd (executeSignalD rs now tid u signal st)))
          = map openingData (trades st) @ ys"
  by (auto simp: executeSignalD_def Let_def split: prod.splits)

lemma stepD_openingData:
  "stepD st st' \<Longrightarrow> \<exists>ys. map openingData (trades st') = map openingData (trades st) @ ys"
  by (induction rule: stepD.induct)
     (simp_all add: executeSignalD_openingData closeTradeD_openingData refreshTradeD_openingData)

lemma stepsD_openingData:
  "stepD\<^sup>*\<^sup>* st st' \<Longrightarrow> \<exists>ys. map openingData (trades st') = map openingData (trades st) @ ys"
proof (induction rule: rtranclp_induct)
  case base
  show ?case by simp
next
  case (step y z)
  from step.IH obtain ys where "map openingData (trades y) = map openingData (trades st) @ ys"
    by blast
  moreover from stepD_openingData [OF step.hyps(2)] obtain zs where
    "map openingData (trades z) = map openingData (trades y) @ zs" by blast
  ultimately show ?case by simp
qed

lemma executeSignalD_success:
  assumes "executeSignalD rs now tid u signal st = (Inr t, st')"
  shows "trades st' = trades st @ [t]"
    and "t_id t = tid" and "t_signalId t = s_id signal"
    and "t_symbol t = s_symbol signal" and "t_action t = s_action signal"
    and "t_entryPrice t = s_price signal" and "t_status t = TradeOpen"
    and "balance (account st') =
           (if s_action signal = BUY
            then fl (balance (account st) - fl (s_price signal * t_quantity t))
            else fl (balance (account st) + fl (s_price signal * t_quantity t)))"
proof -
  obtain v a where
    va: "validateSignalExecutionD rs now signal (account st) (getOpenTrades st) = (v, a)"
    by (cases "validateSignalExecutionD rs now signal (account st) (getOpenTrades st)")
  have bal: "balance a = balance (account st)"
    using validateD_balance [of rs now signal "account st" "getOpenTrades st"] va
    by simp
  from assms va bal show "trades st' = trades st @ [t]"
    and "t_id t = tid" and "t_signalId t = s_id signal"
    and "t_symbol t = s_symbol signal" and "t_action t = s_action signal"
    and "t_entryPrice t = s_price signal" and "t_status t = TradeOpen"
    and "balance (account st') =
           (if s_action signal = BUY
            then fl (balance (account st) - fl (s_price signal * t_quantity t))
            else fl (balance (account st) + fl (s_price signal * t_quantity t)))"
    by (auto simp: executeSignalD_def Let_def updateTradePnLD_def calculateRiskLevelsD_def
        split: if_splits prod.splits)
qed

lemma opened_trade_foundD:
  assumes ex: "executeSignalD rs now tid u signal st0 = (Inr t, st1)"
    and fresh: "tid \<notin> t_id ` set (trades st0)"
    and later: "stepD\<^sup>*\<^sup>* st1 st2"
  shows "findIndex (\<lambda>x. t_id x = tid) (trades st2) = Some (length (trades st0))"
    and "openingData (trades st2 ! length (trades st0)) = openingData t"
    and "length (trades st0) < length (trades st2)"
proof -
  let ?n = "length (trades st0)"
  from stepsD_openingData [OF later] obtain ys where
    ys: "map openingData (trades st2) = map openingData (trades st1) @ ys" by blast
  have st1: "trades st1 = trades st0 @ [t]" and tid: "t_id t = tid"
    using executeSignalD_success [OF ex] by simp_all
  have "findIndex (\<lambda>x. t_id x = tid) (trades st1) = Some ?n"
    unfolding st1 using fresh tid by (intro findIndex_fresh) (auto simp: image_iff)
  then have "findIndex (\<lambda>d. fst d = tid) (map openingData (trades st1)) = Some ?n"
    by (simp add: findIndex_map openingData_def)
  then have "findIndex (\<lambda>d. fst d = tid) (map openingData (trades st2)) = Some ?n"
    unfolding ys by (rule findIndex_append)
  then show "findIndex (\<lambda>x. t_id x = tid) (trades st2) = Some ?n"
    by (simp add: findIndex_map openingData_def)
  have "map openingData (trades st2) ! ?n = openingData t"
    unfolding ys st1 by (simp add: nth_append)
  moreover show "?n < length (trades st2)"
    using arg_cong [OF ys, of length] st1 by simp
  ultimately show "openingData (trades st2 ! ?n) = openingData t" by simp
qed

text \<open>A whole refresh pass is a sequence of steps.\<close>

lemma refreshTradeD_length [simp]:
  "length (trades (refreshTradeD now us i st)) = length (trades st)"
  using arg_cong [OF refreshTradeD_openingData, of length now us i st] by simp

lemma refreshTradesD_steps:
  "\<forall>i\<in>set is. i < length (trades st) \<Longrightarrow> stepD\<^sup>*\<^sup>* st (refreshTradesD now td k is st)"
proof (induction "is" arbitrary: k st)
  case Nil
  show ?case by simp
next
  case (Cons i "is")
  have "stepD st (refreshTradeD now (td k) i st)"
    using Cons.prems by (intro stepD_trade) simp
  moreover have "stepD\<^sup>*\<^sup>* (refreshTradeD now (td k) i st)
      (refreshTradesD now td (Suc k) is (refreshTradeD now (td k) i st))"
    using Cons.prems by (intro Cons.IH) simp
  ultimately show ?case by simp
qed

lemma updateMarketPricesD_steps: "stepD\<^sup>*\<^sup>* st (updateMarketPricesD now pd td st)"
proof -
  let ?st1 = "st\<lparr>marketPrices := perturbPricesD now pd 0 (marketPrices st)\<rparr>"
  have "stepD st ?st1" by (rule stepD_prices)
  moreover have "stepD\<^sup>*\<^sup>* ?st1 (refreshTradesD now td 0 (openIndices (trades ?st1)) ?st1)"
    by (rule refreshTradesD_steps) (simp add: openIndices_def)
  ultimately show ?thesis by (simp add: updateMarketPricesD_def Let_def)
qed

text \<open>
  The iterations of a pass: the \<open>j\<close>-th of them is \<open>refreshTradeD\<close> on a state of the
  run, for the \<open>j\<close>-th trade of the open-trade snapshot.
\<close>

lemma refreshTradesD_append:
  "refreshTradesD now td k (xs @ ys) st
     = refreshTradesD now td (k + length xs) ys (refreshTradesD now td k xs st)"
  by (induction xs arbitrary: k st) simp_all

lemma refreshTradesD_length [simp]:
  "length (trades (refreshTradesD now td k is st)) = length (trades st)"
  by (induction "is" arbitrary: k st) simp_all

lemma openIndices_bound: "i \<in> set (openIndices ts) \<Longrightarrow> i < length ts"
  by (simp add: openIndices_def)

lemma updateMarketPricesD_iteration:
  assumes j: "j < length (openIndices (trades st))"
  shows "stepD\<^sup>*\<^sup>* st
           (refreshTradesD now td 0 (take j (openIndices (trades st)))
              (st\<lparr>marketPrices := perturbPricesD now pd 0 (marketPrices st)\<rparr>))"
    and "openIndices (trades st) ! j
           < length (trades (refreshTradesD now td 0 (take j (openIndices (trades st)))
                       (st\<lparr>marketPrices := perturbPricesD now pd 0 (marketPrices st)\<rparr>)))"
    and "updateMarketPricesD now pd td st
           = refreshTradesD now td (Suc j) (drop (Suc j) (openIndices (trades st)))
               (refreshTradeD now (td j) (openIndices (trades st) ! j)
                  (refreshTradesD now td 0 (take j (openIndices (trades st)))
                     (st\<lparr>marketPrices := perturbPricesD now pd 0 (marketPrices st)\<rparr>)))"
proof -
  let ?is = "openIndices (trades st)"
  let ?st1 = "st\<lparr>marketPrices := perturbPricesD now pd 0 (marketPrices st)\<rparr>"
  have "stepD st ?st1" by (rule stepD_prices)
  moreover have "stepD\<^sup>*\<^sup>* ?st1 (refreshTradesD now td 0 (take j ?is) ?st1)"
    by (rule refreshTradesD_steps) (auto dest!: in_set_takeD openIndices_bound)
  ultimately show "stepD\<^sup>*\<^sup>* st (refreshTradesD now td 0 (take j ?is) ?st1)" by simp
  show "?is ! j < length (trades (refreshTradesD now td 0 (take j ?is) ?st1))"
    using j openIndices_bound [of "?is ! j" "trades st"] by simp
  have "?is = take j ?is @ (?is ! j) # drop (Suc j) ?is"
    using j by (simp add: id_take_nth_drop)
  then have "refreshTradesD now td 0 ?is ?st1
      = refreshTradesD now td 0 (take j ?is @ (?is ! j) # drop (Suc j) ?is) ?st1" by simp
  also have "\<dots> = refreshTradesD now td (Suc j) (drop (Suc j) ?is)
               (refreshTradeD now (td j) (?is ! j) (refreshTradesD now td 0 (take j ?is) ?st1))"
    using j by (simp add: refreshTradesD_append min_def)
  finally show "updateMarketPricesD now pd td st
           = refreshTradesD now td (Suc j) (drop (Suc j) ?is)
               (refreshTradeD now (td j) (?is ! j) (refreshTradesD now td 0 (take j ?is) ?st1))"
    by (simp add: updateMarketPricesD_def Let_def)
qed

section \<open>The ledger over an open/close pair\<close>

lemma check_depends:
  assumes "t_action a = t_action b" and "t_stopLoss a = t_stopLoss b"
    and "t_takeProfit a = t_takeProfit b"
  shows "checkStopLossAndTakeProfit a x = checkStopLossAndTakeProfit b x"
  using assms by (simp add: checkStopLossAndTakeProfit_def)

lemma findIndex_openingData:
  assumes "map openingData xs = map openingData ys"
  shows "findIndex (\<lambda>x. t_id x = tid) xs = findIndex (\<lambda>x. t_id x = tid) ys"
proof -
  have "findIndex (\<lambda>x. t_id x = tid) zs = findIndex (\<lambda>d. fst d = tid) (map openingData zs)"
    for zs by (simp add: findIndex_map openingData_def)
  with assms show ?thesis by simp
qed

text \<open>
  What a successful \<open>closeTrade\<close> does to the first trade with the given id, when the
  quote it draws is not zero.
\<close>

lemma closeTradeD_ledger:
  assumes found: "findIndex (\<lambda>x. t_id x = tid) (trades s) = Some n"
    and n: "n < length (trades s)"
    and isopen: "t_status (trades s ! n) = TradeOpen"
    and quote: "getCurrentPriceD (marketPrices s) (t_symbol (trades s ! n)) u' = c" "c \<noteq> 0"
    and res: "closeTradeD now' u' tid s = (r, s')"
  shows "r = Inr (trades s' ! n)"
    and "openingData (trades s' ! n) = openingData (trades s ! n)"
    and "t_status (trades s' ! n) = TradeClosed"
    and "t_currentPrice (trades s' ! n) = Some c"
    and "balance (account s') =
           (if t_action (trades s ! n) = BUY
            then fl (balance (account s) + fl (c * t_quantity (trades s ! n)))
            else fl (balance (account s) - fl (c * t_quantity (trades s ! n))))"
    and "t_pnl (trades s' ! n) =
           (if t_action (trades s ! n) = BUY
            then fl (fl (c - t_entryPrice (trades s ! n)) * t_quantity (trades s ! n))
            else fl (fl (t_entryPrice (trades s ! n) - c) * t_quantity (trades s ! n)))"
proof -
  let ?T = "updateTradePnLD ((trades s ! n)\<lparr>t_status := TradeClosed, t_closedAt := Some now',
                                          t_currentPrice := Some c\<rparr>)"
  from res found isopen quote(1) have r: "r = Inr ?T"
    and s': "s' = s\<lparr>account :=
                     (if t_action (trades s ! n) = BUY
                      then (account s)\<lparr>balance :=
                             fl (balance (account s) + fl (c * t_quantity (trades s ! n)))\<rparr>
                      else (account s)\<lparr>balance :=
                             fl (balance (account s) - fl (c * t_quantity (trades s ! n)))\<rparr>),
                   trades := (trades s)[n := ?T]\<rparr>"
    by (auto simp: closeTradeD_def Let_def)
  from s' n have nth: "trades s' ! n = ?T" by simp
  show "r = Inr (trades s' ! n)" unfolding nth by (rule r)
  show "openingData (trades s' ! n) = openingData (trades s ! n)"
    unfolding nth by (simp add: openingData_def updateTradePnLD_def)
  show "t_status (trades s' ! n) = TradeClosed" unfolding nth by simp
  show "t_currentPrice (trades s' ! n) = Some c"
    unfolding nth by (simp add: updateTradePnLD_def)
  show "balance (account s') =
           (if t_action (trades s ! n) = BUY
            then fl (balance (account s) + fl (c * t_quantity (trades s ! n)))
            else fl (balance (account s) - fl (c * t_quantity (trades s ! n))))"
    unfolding s' by simp
  show "t_pnl (trades s' ! n) =
           (if t_action (trades s ! n) = BUY
            then fl (fl (c - t_entryPrice (trades s ! n)) * t_quantity (trades s ! n))
            else fl (fl (t_entryPrice (trades s ! n) - c) * t_quantity (trades s ! n)))"
    unfolding nth using quote(2) by (simp add: updateTradePnLD_def truthy_def)
qed

text \<open>
  One iteration of the refresh loop whose exit check passes is the re-quote of its
  trade followed by \<open>closeTrade\<close> on the trade's id.
\<close>

lemma refreshTradeD_closing:
  assumes "fst (checkStopLossAndTakeProfit (trades st ! i)
                  (getCurrentPriceD (marketPrices st) (t_symbol (trades st ! i)) (fst us)))"
  shows "\<exists>T. openingData T = openingData (trades st ! i) \<and>
             t_status T = t_status (trades st ! i) \<and>
             refreshTradeD now us i st
               = snd (closeTradeD now (snd us) (t_id (trades st ! i))
                        (st\<lparr>trades := (trades st)[i := T]\<rparr>))"
proof -
  let ?new = "getCurrentPriceD (marketPrices st) (t_symbol (trades st ! i)) (fst us)"
  let ?t1 = "updateTradePnLD ((trades st ! i)\<lparr>t_currentPrice := Some ?new\<rparr>)"
  let ?t2 = "?t1\<lparr>t_holdingPeriod :=
                    Some (fl ((real now - real (t_executedAt ?t1)) / (1000 * 60)))\<rparr>"
  let ?t3 = "?t2\<lparr>t_returnPercentage :=
                    Some (fl (fl (t_pnl ?t2 / fl (t_entryPrice ?t2 * t_quantity ?t2)) * 100))\<rparr>"
  have same: "checkStopLossAndTakeProfit ?t3 ?new
      = checkStopLossAndTakeProfit (trades st ! i) ?new"
    by (rule check_depends) (simp_all add: updateTradePnLD_def)
  have id: "t_id ?t3 = t_id (trades st ! i)" by (simp add: updateTradePnLD_def)
  have "refreshTradeD now us i st
      = snd (closeTradeD now (snd us) (t_id (trades st ! i)) (st\<lparr>trades := (trades st)[i := ?t3]\<rparr>))"
    using assms same id by (simp add: refreshTradeD_def Let_def)
  moreover have "openingData ?t3 = openingData (trades st ! i)"
    by (simp add: openingData_def updateTradePnLD_def)
  moreover have "t_status ?t3 = t_status (trades st ! i)" by simp
  ultimately show ?thesis by blast
qed

lemma quote_factor_bound:
  assumes "0 \<le> u" and "u < 1"
  shows "1 / 2 \<le> fl (1 + fl (fl (u - 1 / 2) * fl (2 / 100)))"
proof -
  let ?a = "fl (u - 1 / 2)"
  let ?c = "fl (2 / 100)"
  let ?f = "fl (?a * ?c)"
  have "\<bar>u - 1 / 2\<bar> \<le> 1 / 2" using assms by linarith
  from fl_abs_le [OF this] have a: "\<bar>?a\<bar> \<le> 1" by simp
  have c: "0 \<le> ?c" "?c \<le> 1 / 32" by (simp_all add: fl_eval)
  have "\<bar>?a * ?c\<bar> = \<bar>?a\<bar> * ?c" using c(1) by (simp add: abs_mult)
  also have "\<dots> \<le> 1 * (1 / 32)" using a c by (intro mult_mono) simp_all
  finally have "\<bar>?a * ?c\<bar> \<le> 1 / 32" by simp
  from fl_abs_le [OF this] have f: "\<bar>?f\<bar> \<le> 1 / 16" by simp
  then have low: "15 / 16 \<le> 1 + ?f" and "\<bar>1 + ?f\<bar> \<le> 2" by (simp_all add: abs_le_iff)
  have "\<bar>fl (1 + ?f) - (1 + ?f)\<bar> \<le> \<bar>1 + ?f\<bar> / 2 ^ 53 + pow2 (- 1075)" by (rule fl_err)
  moreover have "pow2 (- 1075) \<le> 1 / 2 ^ 60"
    using pow2_mono [of "- 1075" "- 60"] by (simp add: pow2_def)
  moreover have "\<bar>1 + ?f\<bar> / 2 ^ 53 \<le> 2 / 2 ^ 53"
    using \<open>\<bar>1 + ?f\<bar> \<le> 2\<close> by (simp add: divide_right_mono)
  ultimately have "\<bar>fl (1 + ?f) - (1 + ?f)\<bar> \<le> 1 / 16" by simp
  with low show ?thesis by linarith
qed

text \<open>
  A quote is not zero when the symbol is in the quote table at a price of at least
  \<open>2 ^ - 500\<close> in magnitude and the random number is one of \<open>Math.random()\<close>.
\<close>

lemma getCurrentPriceD_nonzero:
  assumes found: "find (\<lambda>p. m_symbol p = symb) prices = Some marketPrice"
    and price: "1 / 2 ^ 500 \<le> \<bar>m_price marketPrice\<bar>"
    and u: "0 \<le> u" "u < 1"
  shows "getCurrentPriceD prices symb u \<noteq> 0"
proof -
  let ?F = "fl (1 + fl (fl (u - 1 / 2) * fl (2 / 100)))"
  have F: "1 / 2 \<le> ?F" using u by (rule quote_factor_bound)
  have "pow2 (- 1022) \<le> pow2 (- 500) * pow2 (- 1)"
    using pow2_add [of "- 500" "- 1"] pow2_mono [of "- 1022" "- 501"] by simp
  also have "\<dots> = 1 / 2 ^ 500 * (1 / 2)" by (simp add: pow2_def)
  also have "\<dots> \<le> \<bar>m_price marketPrice\<bar> * ?F"
    using price F by (intro mult_mono) simp_all
  also have "\<dots> = \<bar>m_price marketPrice * ?F\<bar>" using F by (simp add: abs_mult)
  finally have "fl (m_price marketPrice * ?F) \<noteq> 0" by (rule fl_nonzero)
  then show ?thesis using found by (simp add: getCurrentPriceD_def Let_def)
qed

text \<open>
  C3, as the code has it. Take any state of the engine, a signal executed there
  under a fresh trade id, any later state of the run, and the close of that trade
  there: by a successful call of \<open>closeTrade\<close>, or inside \<open>updateMarketPrices\<close>, by
  the iteration for a trade with that id whose re-quote meets an exit condition
  while the trade is open (the exit check reads the action and the two levels of
  its trade, which the re-quote leaves as they are). Let \<open>p\<close> be the entry price, \<open>q\<close> the (possibly adjusted)
  quantity and \<open>p'\<close> the close quote, not zero, and let the two balances before
  the moves, \<open>p\<close>, \<open>q\<close> and \<open>p'\<close> be at most \<open>2 ^ 500\<close> in magnitude. Opening set the
  balance to the double nearest to the balance minus the double \<open>p * q\<close> for a BUY
  (plus, for a SELL); closing sets it to the double nearest to the balance plus
  the double \<open>p' * q\<close> for a BUY (minus, for a SELL); the closed trade stores the
  double \<open>(p' - p) * q\<close> of the double \<open>p' - p\<close> as its profit (\<open>p - p'\<close> for a
  SELL); and the two moves of the balance add up to the stored profit up to the
  six roundings: the difference is at most the sum of the magnitudes of the two
  balances and the two notional values plus one, divided by \<open>2 ^ 50\<close>. A close
  quote of zero is left out: \<open>updateTradePnL\<close> returns early on it and the stored
  profit is the one of the last refresh; no quote is zero while the table prices
  are at least \<open>2 ^ - 500\<close> in magnitude (\<open>getCurrentPriceD_nonzero\<close>). The close
  inside \<open>updateMarketPrices\<close> is the second case of \<open>close\<close>, at the state \<open>st2\<close> of
  the pass before the iteration (\<open>updateMarketPricesD_iteration\<close>).
\<close>

theorem ledger_rounded:
  fixes t t' :: PaperTrade and st0 st1 st2 st3 :: engine and u' p q p' b0 b1 b2 b3 :: real
  defines "p \<equiv> t_entryPrice t" and "q \<equiv> t_quantity t"
    and "p' \<equiv> getCurrentPriceD (marketPrices st2) (t_symbol t) u'"
    and "b0 \<equiv> balance (account st0)" and "b1 \<equiv> balance (account st1)"
    and "b2 \<equiv> balance (account st2)" and "b3 \<equiv> balance (account st3)"
  assumes ex: "executeSignalD rs now tid u signal st0 = (Inr t, st1)"
    and fresh: "tid \<notin> t_id ` set (trades st0)"
    and later: "stepD\<^sup>*\<^sup>* st1 st2"
    and close:
      "closeTradeD now' u' tid st2 = (Inr t', st3) \<or>
       (i < length (trades st2) \<and> t_id (trades st2 ! i) = tid \<and>
        t_status (trades st2 ! length (trades st0)) = TradeOpen \<and>
        fst (checkStopLossAndTakeProfit (trades st2 ! i)
               (getCurrentPriceD (marketPrices st2) (t_symbol (trades st2 ! i)) u'')) \<and>
        st3 = refreshTradeD now' (u'', u') i st2 \<and> t' = trades st3 ! length (trades st0))"
    and quote: "p' \<noteq> 0"
    and range: "moderate b0" "moderate b2" "moderate p" "moderate q" "moderate p'"
  shows "p = s_price signal \<and> t_action t = s_action signal \<and>
         b1 = (if t_action t = BUY then fl (b0 - fl (p * q)) else fl (b0 + fl (p * q))) \<and>
         t_entryPrice t' = p \<and> t_quantity t' = q \<and> t_action t' = t_action t \<and>
         t_status t' = TradeClosed \<and> t_currentPrice t' = Some p' \<and>
         b3 = (if t_action t = BUY then fl (b2 + fl (p' * q)) else fl (b2 - fl (p' * q))) \<and>
         t_pnl t' = (if t_action t = BUY then fl (fl (p' - p) * q) else fl (fl (p - p') * q)) \<and>
         \<bar>(b1 - b0) + (b3 - b2) - t_pnl t'\<bar>
           \<le> (\<bar>b0\<bar> + \<bar>b2\<bar> + \<bar>p * q\<bar> + \<bar>p' * q\<bar> + 1) / 2 ^ 50"
proof -
  let ?n = "length (trades st0)"
  note opened = executeSignalD_success [OF ex]
  have found: "findIndex (\<lambda>x. t_id x = tid) (trades st2) = Some ?n"
    and data: "openingData (trades st2 ! ?n) = openingData t"
    and n: "?n < length (trades st2)"
    using opened_trade_foundD [OF ex fresh later] by simp_all
  have closed: "\<exists>s. closeTradeD now' u' tid s = (Inr t', st3) \<and> t' = trades st3 ! ?n \<and>
      findIndex (\<lambda>x. t_id x = tid) (trades s) = Some ?n \<and> ?n < length (trades s) \<and>
      t_status (trades s ! ?n) = TradeOpen \<and> openingData (trades s ! ?n) = openingData t \<and>
      marketPrices s = marketPrices st2 \<and> account s = account st2"
    using close
  proof
    assume cl: "closeTradeD now' u' tid st2 = (Inr t', st3)"
    from cl found have isopen: "t_status (trades st2 ! ?n) = TradeOpen"
      by (cases "t_status (trades st2 ! ?n)") (auto simp: closeTradeD_def Let_def)
    have sym: "t_symbol (trades st2 ! ?n) = t_symbol t"
      using data by (simp add: openingData_def)
    have "Inr t' = Inr (trades st3 ! ?n)"
      using closeTradeD_ledger(1) [OF found n isopen _ _ cl, of p'] quote
      by (simp add: p'_def sym)
    then have "t' = trades st3 ! ?n" by simp
    with cl found n isopen data show ?thesis by blast
  next
    assume auto: "i < length (trades st2) \<and> t_id (trades st2 ! i) = tid \<and>
        t_status (trades st2 ! ?n) = TradeOpen \<and>
        fst (checkStopLossAndTakeProfit (trades st2 ! i)
               (getCurrentPriceD (marketPrices st2) (t_symbol (trades st2 ! i)) u'')) \<and>
        st3 = refreshTradeD now' (u'', u') i st2 \<and> t' = trades st3 ! ?n"
    then have i: "i < length (trades st2)" and id: "t_id (trades st2 ! i) = tid"
      and isopen: "t_status (trades st2 ! ?n) = TradeOpen"
      and st3: "st3 = refreshTradeD now' (u'', u') i st2" and t': "t' = trades st3 ! ?n"
      by simp_all
    from auto have "fst (checkStopLossAndTakeProfit (trades st2 ! i)
        (getCurrentPriceD (marketPrices st2) (t_symbol (trades st2 ! i)) (fst (u'', u'))))"
      by simp
    from refreshTradeD_closing [OF this, of now'] obtain T where
      T: "openingData T = openingData (trades st2 ! i)" "t_status T = t_status (trades st2 ! i)"
      and ref: "refreshTradeD now' (u'', u') i st2
        = snd (closeTradeD now' u' tid (st2\<lparr>trades := (trades st2)[i := T]\<rparr>))"
      using id by auto
    let ?s = "st2\<lparr>trades := (trades st2)[i := T]\<rparr>"
    have maps: "map openingData (trades ?s) = map openingData (trades st2)"
      using T(1) by (simp add: map_update_same)
    have found': "findIndex (\<lambda>x. t_id x = tid) (trades ?s) = Some ?n"
      using findIndex_openingData [OF maps] found by simp
    have n': "?n < length (trades ?s)" using n by simp
    have nth: "openingData (trades ?s ! ?n) = openingData t"
      and isopen': "t_status (trades ?s ! ?n) = TradeOpen"
      using T i n data isopen by (cases "i = ?n"; simp)+
    have sym: "t_symbol (trades ?s ! ?n) = t_symbol t"
      using nth by (simp add: openingData_def)
    obtain r s' where res: "closeTradeD now' u' tid ?s = (r, s')"
      by (cases "closeTradeD now' u' tid ?s")
    have "getCurrentPriceD (marketPrices ?s) (t_symbol (trades ?s ! ?n)) u' = p'"
      unfolding sym by (simp add: p'_def)
    from closeTradeD_ledger(1) [OF found' n' isopen' this quote res]
    have r: "r = Inr (trades s' ! ?n)" .
    have "st3 = s'" using st3 ref res by simp
    with res r t' have "closeTradeD now' u' tid ?s = (Inr t', st3)" by simp
    moreover have "marketPrices ?s = marketPrices st2" "account ?s = account st2" by simp_all
    ultimately show ?thesis using t' found' n' isopen' nth by blast
  qed
  then obtain s where cl: "closeTradeD now' u' tid s = (Inr t', st3)"
    and t': "t' = trades st3 ! ?n"
    and found': "findIndex (\<lambda>x. t_id x = tid) (trades s) = Some ?n"
    and n': "?n < length (trades s)"
    and isopen': "t_status (trades s ! ?n) = TradeOpen"
    and data': "openingData (trades s ! ?n) = openingData t"
    and prices: "marketPrices s = marketPrices st2" and acct: "account s = account st2"
    by blast
  from data' have same: "t_symbol (trades s ! ?n) = t_symbol t"
    "t_action (trades s ! ?n) = t_action t" "t_entryPrice (trades s ! ?n) = p"
    "t_quantity (trades s ! ?n) = q"
    by (simp_all add: openingData_def p_def q_def)
  have pq: "getCurrentPriceD (marketPrices s) (t_symbol (trades s ! ?n)) u' = p'"
    by (simp add: same prices p'_def)
  note led = closeTradeD_ledger [OF found' n' isopen' pq quote cl]
  from led(2) have fields: "t_entryPrice t' = p" "t_quantity t' = q" "t_action t' = t_action t"
    unfolding t' using same by (simp_all add: openingData_def)
  have status: "t_status t' = TradeClosed" and cur: "t_currentPrice t' = Some p'"
    unfolding t' using led(3,4) by simp_all
  have bal3: "b3 = (if t_action t = BUY then fl (b2 + fl (p' * q)) else fl (b2 - fl (p' * q)))"
    using led(5) by (simp add: same acct b2_def b3_def)
  have pnl: "t_pnl t' = (if t_action t = BUY then fl (fl (p' - p) * q) else fl (fl (p - p') * q))"
    unfolding t' using led(6) by (simp add: same)
  have entry: "p = s_price signal" "t_action t = s_action signal"
    using opened(5,6) by (simp_all add: p_def)
  have bal1: "b1 = (if t_action t = BUY then fl (b0 - fl (p * q)) else fl (b0 + fl (p * q)))"
    using opened(8) entry by (simp add: b0_def b1_def q_def)
  from range(4) have q: "\<bar>q\<bar> \<le> 2 ^ 500" by (simp add: moderate_def)
  have net: "\<bar>(b1 - b0) + (b3 - b2) - t_pnl t'\<bar>
      \<le> (\<bar>b0\<bar> + \<bar>b2\<bar> + \<bar>p * q\<bar> + \<bar>p' * q\<bar> + 1) / 2 ^ 50"
  proof (cases "t_action t = BUY")
    case True
    then show ?thesis unfolding bal1 bal3 pnl using six_roundings [OF q, of b0 p b2 p'] by simp
  next
    case False
    then show ?thesis
      unfolding bal1 bal3 pnl using six_roundings_sell [OF q, of b0 p b2 p'] by simp
  qed
  from entry bal1 fields status cur bal3 pnl net show ?thesis by blast
qed

subsection \<open>The example in double arithmetic\<close>

lemma fl_hundredth: "fl (1 / 100) = 5764607523034235 / 576460752303423488"
  by (simp add: fl_eval)

lemma fl_fiftieth: "fl (2 / 100) = 5764607523034235 / 288230376151711744"
  by (simp add: fl_eval)

lemma fl_draw: "fl (9 / 20) = 8106479329266893 / 18014398509481984"
  by (simp add: fl_eval)

lemma quote_half: "getCurrentPriceD (marketPrices (initialEngine 0)) BTC (1 / 2) = 45000"
  by (simp add: getCurrentPriceD_def initialEngine_def Let_def fl_eval)

lemma quote_low:
  "getCurrentPriceD (marketPrices (initialEngine 0)) BTC (8106479329266893 / 18014398509481984)
     = 44955"
  unfolding getCurrentPriceD_def fl_fiftieth
  by (simp add: initialEngine_def Let_def fl_eval)

lemma loss_openedD:
  "executeSignalD defaultRiskSettings 1000 ''trade_1'' (1 / 2) lossSignalD (initialEngine 0)
     = (Inr lossTradeD, lossOpenedD)"
proof -
  have pv: "fl (s_price lossSignalD * s_quantity lossSignalD) = 459"
    unfolding lossSignalD_def fl_hundredth
    by (simp add: lossSignal_def scenarioSignal_def fl_eval)
  have v: "validateSignalExecutionD defaultRiskSettings 1000 lossSignalD
             (account (initialEngine 0)) (getOpenTrades (initialEngine 0))
      = (\<lparr> canExecute = True, v_reason = None, adjustedQuantity = None \<rparr>,
         (account (initialEngine 0))\<lparr>dailyLossUsed := Some 0, lastResetDate := Some 1000\<rparr>)"
  proof -
    have c: "checkDailyLossLimit defaultRiskSettings 1000 (account (initialEngine 0))
        = ((True, None),
           (account (initialEngine 0))\<lparr>dailyLossUsed := Some 0, lastResetDate := Some 1000\<rparr>)"
      by (simp add: checkDailyLossLimit_def defaultRiskSettings_def initialEngine_def
          orElse_def dayOf_def Let_def)
    have cap: "maxPositionValueD defaultRiskSettings
        ((account (initialEngine 0))\<lparr>dailyLossUsed := Some 0, lastResetDate := Some 1000\<rparr>) = 2500"
      using initial_cap by (simp add: maxPositionValueD_def)
    have sig: "s_action lossSignalD = BUY"
      by (simp add: lossSignalD_def lossSignal_def scenarioSignal_def)
    have en: "enableDailyLossLimit defaultRiskSettings" "maxOpenPositions defaultRiskSettings = 5"
      by (simp_all add: defaultRiskSettings_def)
    show ?thesis
      unfolding validateSignalExecutionD_def c
      by (simp add: en positionChecksD_def sizeAndBalanceChecksD_def cap sig pv Let_def
          getOpenTrades_def) (simp add: initialEngine_def)
  qed
  have r: "calculateRiskLevelsD defaultRiskSettings lossSignalD = (44982, 47736)"
    by (simp add: calculateRiskLevelsD_def defaultRiskSettings_def lossSignalD_def
        lossSignal_def scenarioSignal_def Let_def fl_eval)
  have m: "marketPrices ((initialEngine 0)\<lparr>account := a\<rparr>) = marketPrices (initialEngine 0)"
    for a by simp
  show ?thesis
    unfolding executeSignalD_def Let_def v
    apply (simp only: prod.case m r)
    apply (simp add: lossSignalD_def lossSignal_def scenarioSignal_def quote_half
        fl_hundredth orElse_def)
    apply (simp add: lossOpenedD_def lossTradeD_def lossTrade_def fl_hundredth
        updateTradePnLD_def truthy_def initialEngine_def fl_eval)
    done
qed

lemma loss_quotedD:
  "lossQuotedD = lossOpenedD\<lparr>marketPrices :=
     [\<lparr> m_symbol = BTC, m_price = 45000, m_change24h = 5 / 2, m_lastUpdated = 2000,
        m_rsi = Some 50, m_volume24h = Some 3500000,
        m_volatility = Some (1261007895663739 / 36028797018963968) \<rparr>,
      \<lparr> m_symbol = GOLD, m_price = 2000, m_change24h = - (4 / 5), m_lastUpdated = 2000,
        m_rsi = Some 50, m_volume24h = Some 3500000,
        m_volatility = Some (1261007895663739 / 36028797018963968) \<rparr>]\<rparr>"
  unfolding lossQuotedD_def
  apply (simp add: lossOpenedD_def initialEngine_def btcDraw_def Let_def)
  apply (simp add: fl_eval)
  done

lemma quote_low_opened:
  "getCurrentPriceD (marketPrices lossOpenedD) BTC (fl (9 / 20)) = 44955"
  using quote_low by (simp add: lossOpenedD_def fl_draw)

lemma quote_low_quoted:
  "getCurrentPriceD (marketPrices lossQuotedD) BTC (fl (9 / 20)) = 44955"
proof -
  have "getCurrentPriceD (marketPrices lossQuotedD) BTC u
      = getCurrentPriceD (marketPrices (initialEngine 0)) BTC u" for u
    unfolding loss_quotedD by (simp add: getCurrentPriceD_def initialEngine_def)
  then show ?thesis using quote_low by (simp add: fl_draw)
qed

lemma loss_roundingsD:
  "fl (44955 * fl (1 / 100)) = 7908567236267213 / 17592186044416"
  "fl (9541 + 7908567236267213 / 17592186044416) = 2746181473219379 / 274877906944"
  "fl (44955 - 45900) = - 945"
  "fl (- 945 * fl (1 / 100)) = - (5319877059831399 / 562949953421312)"
  unfolding fl_hundredth by (simp_all add: fl_eval)

lemma loss_trade_fieldsD:
  "t_id lossTradeD = ''trade_1''" "t_symbol lossTradeD = BTC" "t_action lossTradeD = BUY"
  "t_entryPrice lossTradeD = 45900" "t_quantity lossTradeD = fl (1 / 100)"
  "t_status lossTradeD = TradeOpen" "t_stopLoss lossTradeD = Some 44982"
  "t_takeProfit lossTradeD = Some 47736" "t_executedAt lossTradeD = 1000"
  by (simp_all add: lossTradeD_def lossTrade_def)

lemma loss_closedD:
  "closeTradeD 2000 (fl (9 / 20)) ''trade_1'' lossOpenedD = (Inr lossClosedD, lossSettledD)"
proof -
  have tr: "trades lossOpenedD = [lossTradeD]" "balance (account lossOpenedD) = 9541"
    by (simp_all add: lossOpenedD_def)
  show ?thesis
    unfolding closeTradeD_def Let_def
    apply (simp add: tr loss_trade_fieldsD quote_low_opened loss_roundingsD)
    apply (simp add: updateTradePnLD_def truthy_def loss_trade_fieldsD loss_roundingsD
        lossClosedD_def lossSettledD_def tr)
    apply (simp add: fl_eval)
    done
qed

lemma loss_refreshedD:
  "refreshTradeD 2000 exitDraws 0 lossQuotedD = lossRefreshedD"
proof -
  have tr: "trades lossQuotedD = [lossTradeD]" "balance (account lossQuotedD) = 9541"
    "account lossQuotedD = account lossOpenedD"
    by (simp_all add: lossQuotedD_def lossOpenedD_def)
  have f: "fl ((real 2000 - real 1000) / (1000 * 60)) = 4803839602528529 / 288230376151711744"
    "fl (45900 * fl (1 / 100)) = 459"
    "fl (fl (- (5319877059831399 / 562949953421312) / 459) * 100)
       = - (4636058439940217 / 2251799813685248)"
    unfolding fl_hundredth by (simp_all add: fl_eval)
  show ?thesis
    unfolding refreshTradeD_def closeTradeD_def Let_def exitDraws_def
    apply (simp add: tr(1,2) loss_trade_fieldsD quote_low_quoted loss_roundingsD
        updateTradePnLD_def truthy_def checkStopLossAndTakeProfit_def f)
    apply (simp add: lossRefreshedD_def lossClosedD_def tr(3))
    apply (simp add: fl_eval)
    done
qed

lemma loss_passD:
  "updateMarketPricesD 2000 (btcDraw (1 / 2)) (\<lambda>k. exitDraws) lossOpenedD
     = refreshTradeD 2000 exitDraws 0 lossQuotedD"
proof -
  have "openIndices (trades lossQuotedD) = [0]"
    by (simp add: openIndices_def lossQuotedD_def lossOpenedD_def loss_trade_fieldsD)
  then show ?thesis
    by (simp add: updateMarketPricesD_def Let_def lossQuotedD_def [symmetric])
qed

text \<open>
  The BUY of 0.01 BTC at 45900, closed at 44955 by a call of \<open>closeTrade\<close>, and
  closed at 44955 by the refresh pass on its stop-loss.
\<close>

theorem ledger_rounded_witness:
  "executeSignalD defaultRiskSettings 1000 ''trade_1'' (1 / 2) lossSignalD (initialEngine 0)
     = (Inr lossTradeD, lossOpenedD) \<and>
   ''trade_1'' \<notin> t_id ` set (trades (initialEngine 0)) \<and>
   stepD\<^sup>*\<^sup>* lossOpenedD lossOpenedD \<and>
   closeTradeD 2000 (fl (9 / 20)) ''trade_1'' lossOpenedD = (Inr lossClosedD, lossSettledD) \<and>
   getCurrentPriceD (marketPrices lossOpenedD) (t_symbol lossTradeD) (fl (9 / 20)) = 44955 \<and>
   moderate (balance (account (initialEngine 0))) \<and> moderate (balance (account lossOpenedD)) \<and>
   moderate (t_entryPrice lossTradeD) \<and> moderate (t_quantity lossTradeD) \<and> moderate 44955 \<and>
   t_action lossTradeD = BUY \<and> t_entryPrice lossTradeD = 45900 \<and>
   t_quantity lossTradeD = fl (1 / 100) \<and>
   balance (account (initialEngine 0)) = 10000 \<and>
   balance (account lossOpenedD) = fl (10000 - fl (45900 * fl (1 / 100))) \<and>
   balance (account lossOpenedD) = 9541 \<and>
   t_status lossClosedD = TradeClosed \<and> t_currentPrice lossClosedD = Some 44955 \<and>
   balance (account lossSettledD) = fl (9541 + fl (44955 * fl (1 / 100))) \<and>
   t_pnl lossClosedD = fl (fl (44955 - 45900) * fl (1 / 100)) \<and>
   \<bar>(9541 - 10000) + (balance (account lossSettledD) - 9541) - t_pnl lossClosedD\<bar>
     \<le> (\<bar>10000\<bar> + \<bar>9541\<bar> + \<bar>45900 * fl (1 / 100)\<bar> + \<bar>44955 * fl (1 / 100)\<bar> + 1) / 2 ^ 50 \<and>
   stepD\<^sup>*\<^sup>* lossOpenedD lossQuotedD \<and>
   0 < length (trades lossQuotedD) \<and> t_id (trades lossQuotedD ! 0) = ''trade_1'' \<and>
   t_status (trades lossQuotedD ! length (trades (initialEngine 0))) = TradeOpen \<and>
   fst (checkStopLossAndTakeProfit (trades lossQuotedD ! 0)
          (getCurrentPriceD (marketPrices lossQuotedD) (t_symbol (trades lossQuotedD ! 0))
             (fl (9 / 20)))) \<and>
   updateMarketPricesD 2000 (btcDraw (1 / 2)) (\<lambda>k. (fl (9 / 20), fl (9 / 20))) lossOpenedD
     = refreshTradeD 2000 (fl (9 / 20), fl (9 / 20)) 0 lossQuotedD \<and>
   refreshTradeD 2000 (fl (9 / 20), fl (9 / 20)) 0 lossQuotedD = lossRefreshedD \<and>
   getCurrentPriceD (marketPrices lossQuotedD) (t_symbol lossTradeD) (fl (9 / 20)) = 44955 \<and>
   moderate (balance (account lossQuotedD)) \<and>
   balance (account lossQuotedD) = 9541 \<and>
   t_status (trades lossRefreshedD ! 0) = TradeClosed \<and>
   t_currentPrice (trades lossRefreshedD ! 0) = Some 44955 \<and>
   balance (account lossRefreshedD) = fl (9541 + fl (44955 * fl (1 / 100))) \<and>
   t_pnl (trades lossRefreshedD ! 0) = fl (fl (44955 - 45900) * fl (1 / 100)) \<and>
   \<bar>(9541 - 10000) + (balance (account lossRefreshedD) - 9541) - t_pnl (trades lossRefreshedD ! 0)\<bar>
     \<le> (\<bar>10000\<bar> + \<bar>9541\<bar> + \<bar>45900 * fl (1 / 100)\<bar> + \<bar>44955 * fl (1 / 100)\<bar> + 1) / 2 ^ 50"
proof -
  note f = loss_trade_fieldsD
  have h2: "''trade_1'' \<notin> t_id ` set (trades (initialEngine 0))"
    by (simp add: initialEngine_def)
  have n0: "length (trades (initialEngine 0)) = 0" by (simp add: initialEngine_def)
  have h3: "stepD\<^sup>*\<^sup>* lossOpenedD lossOpenedD" by simp
  have b: "balance (account (initialEngine 0)) = 10000" "balance (account lossOpenedD) = 9541"
    "balance (account lossQuotedD) = 9541"
    by (simp_all add: initialEngine_def lossOpenedD_def lossQuotedD_def)
  have q1: "getCurrentPriceD (marketPrices lossOpenedD) (t_symbol lossTradeD) (fl (9 / 20)) = 44955"
    unfolding f by (rule quote_low_opened)
  have q2: "getCurrentPriceD (marketPrices lossQuotedD) (t_symbol lossTradeD) (fl (9 / 20)) = 44955"
    unfolding f by (rule quote_low_quoted)
  have qm: "\<bar>fl (1 / 100)\<bar> \<le> 1" unfolding fl_hundredth by simp
  have m: "moderate (balance (account (initialEngine 0)))" "moderate (balance (account lossOpenedD))"
    "moderate (balance (account lossQuotedD))"
    "moderate (t_entryPrice lossTradeD)" "moderate (t_quantity lossTradeD)" "moderate 44955"
    unfolding b f moderate_def using qm by simp_all
  have h4: "closeTradeD 2000 (fl (9 / 20)) ''trade_1'' lossOpenedD = (Inr lossClosedD, lossSettledD) \<or>
       (0 < length (trades lossOpenedD) \<and> t_id (trades lossOpenedD ! 0) = ''trade_1'' \<and>
        t_status (trades lossOpenedD ! length (trades (initialEngine 0))) = TradeOpen \<and>
        fst (checkStopLossAndTakeProfit (trades lossOpenedD ! 0)
               (getCurrentPriceD (marketPrices lossOpenedD) (t_symbol (trades lossOpenedD ! 0)) 0)) \<and>
        lossSettledD = refreshTradeD 2000 (0, fl (9 / 20)) 0 lossOpenedD \<and>
        lossClosedD = trades lossSettledD ! length (trades (initialEngine 0)))"
    using loss_closedD by simp
  have q1': "getCurrentPriceD (marketPrices lossOpenedD) (t_symbol lossTradeD) (fl (9 / 20)) \<noteq> 0"
    and m1: "moderate (getCurrentPriceD (marketPrices lossOpenedD) (t_symbol lossTradeD) (fl (9 / 20)))"
    unfolding q1 using m(6) by simp_all
  note manual = ledger_rounded [OF loss_openedD h2 h3 h4 q1' m(1,2,4,5) m1]
  have tq: "trades lossQuotedD = [lossTradeD]" by (simp add: lossQuotedD_def lossOpenedD_def)
  have s1: "stepD\<^sup>*\<^sup>* lossOpenedD lossQuotedD"
    unfolding lossQuotedD_def by (rule r_into_rtranclp) (rule stepD_prices)
  have chk: "fst (checkStopLossAndTakeProfit (trades lossQuotedD ! 0)
          (getCurrentPriceD (marketPrices lossQuotedD) (t_symbol (trades lossQuotedD ! 0))
             (fl (9 / 20))))"
    unfolding tq by (simp add: f quote_low_quoted checkStopLossAndTakeProfit_def truthy_def)
  have ref: "refreshTradeD 2000 (fl (9 / 20), fl (9 / 20)) 0 lossQuotedD = lossRefreshedD"
    using loss_refreshedD by (simp add: exitDraws_def)
  have pass: "updateMarketPricesD 2000 (btcDraw (1 / 2)) (\<lambda>k. (fl (9 / 20), fl (9 / 20))) lossOpenedD
     = refreshTradeD 2000 (fl (9 / 20), fl (9 / 20)) 0 lossQuotedD"
    using loss_passD by (simp add: exitDraws_def)
  have a: "0 < length (trades lossQuotedD)" "t_id (trades lossQuotedD ! 0) = ''trade_1''"
    "t_status (trades lossQuotedD ! length (trades (initialEngine 0))) = TradeOpen"
    unfolding tq n0 by (simp_all add: f)
  have h4': "closeTradeD 2000 (fl (9 / 20)) ''trade_1'' lossQuotedD
         = (Inr (trades lossRefreshedD ! length (trades (initialEngine 0))), lossRefreshedD) \<or>
       (0 < length (trades lossQuotedD) \<and> t_id (trades lossQuotedD ! 0) = ''trade_1'' \<and>
        t_status (trades lossQuotedD ! length (trades (initialEngine 0))) = TradeOpen \<and>
        fst (checkStopLossAndTakeProfit (trades lossQuotedD ! 0)
               (getCurrentPriceD (marketPrices lossQuotedD) (t_symbol (trades lossQuotedD ! 0))
                  (fl (9 / 20)))) \<and>
        lossRefreshedD = refreshTradeD 2000 (fl (9 / 20), fl (9 / 20)) 0 lossQuotedD \<and>
        trades lossRefreshedD ! length (trades (initialEngine 0))
          = trades lossRefreshedD ! length (trades (initialEngine 0)))"
    using a chk ref by simp
  have q2': "getCurrentPriceD (marketPrices lossQuotedD) (t_symbol lossTradeD) (fl (9 / 20)) \<noteq> 0"
    and m2: "moderate (getCurrentPriceD (marketPrices lossQuotedD) (t_symbol lossTradeD) (fl (9 / 20)))"
    unfolding q2 using m(6) by simp_all
  note auto = ledger_rounded [OF loss_openedD h2 s1 h4' q2' m(1,3,4,5) m2]
  have eM: "balance (account lossSettledD) = fl (9541 + fl (44955 * fl (1 / 100)))"
    "t_pnl lossClosedD = fl (fl (44955 - 45900) * fl (1 / 100))"
    using manual by (simp_all add: f b quote_low_opened)
  have eA: "balance (account lossRefreshedD) = fl (9541 + fl (44955 * fl (1 / 100)))"
    "t_pnl (trades lossRefreshedD ! 0) = fl (fl (44955 - 45900) * fl (1 / 100))"
    using auto by (simp_all add: f b quote_low_quoted n0)
  have sM: "t_status lossClosedD = TradeClosed" "t_currentPrice lossClosedD = Some 44955"
    "balance (account lossOpenedD) = fl (10000 - fl (45900 * fl (1 / 100)))"
    using manual by (simp_all add: f b quote_low_opened)
  have sA: "t_status (trades lossRefreshedD ! 0) = TradeClosed"
    "t_currentPrice (trades lossRefreshedD ! 0) = Some 44955"
    using auto by (simp_all add: f b quote_low_quoted n0)
  have nM: "\<bar>(9541 - 10000) + (balance (account lossSettledD) - 9541) - t_pnl lossClosedD\<bar>
     \<le> (\<bar>10000\<bar> + \<bar>9541\<bar> + \<bar>45900 * fl (1 / 100)\<bar> + \<bar>44955 * fl (1 / 100)\<bar> + 1) / 2 ^ 50"
    using manual [THEN conjunct2, THEN conjunct2, THEN conjunct2, THEN conjunct2, THEN conjunct2, THEN conjunct2, THEN conjunct2, THEN conjunct2, THEN conjunct2, THEN conjunct2]
    by (simp add: f b quote_low_opened)
  have nA: "\<bar>(9541 - 10000) + (balance (account lossRefreshedD) - 9541)
       - t_pnl (trades lossRefreshedD ! 0)\<bar>
     \<le> (\<bar>10000\<bar> + \<bar>9541\<bar> + \<bar>45900 * fl (1 / 100)\<bar> + \<bar>44955 * fl (1 / 100)\<bar> + 1) / 2 ^ 50"
    using auto [THEN conjunct2, THEN conjunct2, THEN conjunct2, THEN conjunct2, THEN conjunct2, THEN conjunct2, THEN conjunct2, THEN conjunct2, THEN conjunct2, THEN conjunct2]
    by (simp add: f b quote_low_quoted n0)
  show ?thesis
    apply (intro conjI)
    using eM eA sM sA nM nA loss_openedD h2 h3 loss_closedD m s1 a chk pass ref q1 q2 b f
    apply (assumption | simp)+
    done
qed

text \<open>
  In that example the balance goes from 10000 to 9541 and, at the close, to the
  double 9990.55: the close does not move it by \<open>p' * q\<close>, exact or rounded, and
  the net change \<open>-9.450000000000728\<close> is not the stored profit
  \<open>-9.450000000000001\<close>, whether the trade is closed by a call of \<open>closeTrade\<close> or
  by the refresh pass.
\<close>

theorem ledger_symmetry_counterexample:
  "executeSignalD defaultRiskSettings 1000 ''trade_1'' (1 / 2) lossSignalD (initialEngine 0)
     = (Inr lossTradeD, lossOpenedD) \<and>
   closeTradeD 2000 (fl (9 / 20)) ''trade_1'' lossOpenedD = (Inr lossClosedD, lossSettledD) \<and>
   t_action lossTradeD = BUY \<and> t_entryPrice lossTradeD = 45900 \<and>
   t_quantity lossTradeD = fl (1 / 100) \<and>
   t_status lossClosedD = TradeClosed \<and> t_currentPrice lossClosedD = Some 44955 \<and>
   balance (account (initialEngine 0)) = 10000 \<and>
   balance (account lossOpenedD) = 9541 \<and>
   balance (account lossSettledD) = 2746181473219379 / 274877906944 \<and>
   t_pnl lossClosedD = - (5319877059831399 / 562949953421312) \<and>
   balance (account lossSettledD) - balance (account lossOpenedD) \<noteq> 44955 * fl (1 / 100) \<and>
   balance (account lossSettledD) - balance (account lossOpenedD) \<noteq> fl (44955 * fl (1 / 100)) \<and>
   (balance (account lossOpenedD) - balance (account (initialEngine 0)))
     + (balance (account lossSettledD) - balance (account lossOpenedD)) \<noteq> t_pnl lossClosedD \<and>
   updateMarketPricesD 2000 (btcDraw (1 / 2)) (\<lambda>k. exitDraws) lossOpenedD = lossRefreshedD \<and>
   t_status (trades lossRefreshedD ! 0) = TradeClosed \<and>
   (balance (account lossOpenedD) - balance (account (initialEngine 0)))
     + (balance (account lossRefreshedD) - balance (account lossOpenedD))
     \<noteq> t_pnl (trades lossRefreshedD ! 0)"
  unfolding loss_openedD loss_closedD loss_passD loss_refreshedD loss_roundingsD(1)
  unfolding fl_hundredth
  by (simp add: loss_trade_fieldsD lossClosedD_def lossSettledD_def lossRefreshedD_def
      lossOpenedD_def lossQuotedD_def initialEngine_def fl_hundredth)

section \<open>The refresh pass\<close>

lemma findIndex_distinct:
  "distinct (map f xs) \<Longrightarrow> i < length xs \<Longrightarrow> findIndex (\<lambda>x. f x = f (xs ! i)) xs = Some i"
proof (induction xs arbitrary: i)
  case Nil
  then show ?case by simp
next
  case (Cons x xs)
  show ?case
  proof (cases i)
    case 0
    then show ?thesis by simp
  next
    case (Suc j)
    with Cons.prems have "j < length xs" and "f x \<noteq> f (xs ! j)" by auto
    with Cons Suc show ?thesis by simp
  qed
qed

lemma findIndex_None_iff: "findIndex P xs = None \<longleftrightarrow> (\<forall>x\<in>set xs. \<not> P x)"
  by (induction xs) auto

lemma findIndex_Some_mem: "findIndex P xs = Some k \<Longrightarrow> k < length xs \<and> P (xs ! k)"
  by (induction xs arbitrary: k) (auto split: if_splits)

lemma requoted_fields [simp]:
  "t_id (requoted now u prices trade) = t_id trade"
  "t_symbol (requoted now u prices trade) = t_symbol trade"
  "t_action (requoted now u prices trade) = t_action trade"
  "t_status (requoted now u prices trade) = t_status trade"
  "t_stopLoss (requoted now u prices trade) = t_stopLoss trade"
  "t_takeProfit (requoted now u prices trade) = t_takeProfit trade"
  by (simp_all add: requoted_def Let_def updateTradePnL_def)

lemma closedTrade_fields [simp]:
  "t_id (closedTrade now u prices trade) = t_id trade"
  "t_status (closedTrade now u prices trade) = TradeClosed"
  by (simp_all add: closedTrade_def updateTradePnL_def)

lemma check_requoted [simp]:
  "checkStopLossAndTakeProfit (requoted now u prices trade) p
     = checkStopLossAndTakeProfit trade p"
  by (simp add: checkStopLossAndTakeProfit_def)

lemma refreshed_id [simp]: "t_id (refreshed now us prices trade) = t_id trade"
  by (simp add: refreshed_def Let_def)

lemma refreshed_status:
  "t_status trade = TradeOpen \<Longrightarrow>
   (t_status (refreshed now us prices trade) = TradeClosed) =
     fst (checkStopLossAndTakeProfit trade (getCurrentPrice prices (t_symbol trade) (fst us)))"
  by (simp add: refreshed_def Let_def)

lemma refreshTrade_alt:
  "refreshTrade now us i st =
     (let trade3 = requoted now (fst us) (marketPrices st) (trades st ! i);
          st1 = st\<lparr>trades := (trades st)[i := trade3]\<rparr>
      in if fst (checkStopLossAndTakeProfit trade3
                   (getCurrentPrice (marketPrices st) (t_symbol (trades st ! i)) (fst us)))
         then snd (closeTrade now (snd us) (t_id trade3) st1)
         else st1)"
  by (simp add: refreshTrade_def requoted_def Let_def)

lemma refreshTrade_distinct:
  assumes ids: "distinct (map t_id (trades st))"
    and i: "i < length (trades st)"
    and opn: "t_status (trades st ! i) = TradeOpen"
  shows "trades (refreshTrade now us i st)
           = (trades st)[i := refreshed now us (marketPrices st) (trades st ! i)]"
proof -
  let ?xs = "trades st"
  let ?t3 = "requoted now (fst us) (marketPrices st) (?xs ! i)"
  let ?st1 = "st\<lparr>trades := ?xs[i := ?t3]\<rparr>"
  have same: "map t_id (?xs[i := ?t3]) = map t_id ?xs"
    by (rule map_update_same) simp
  have "findIndex (\<lambda>x. t_id x = t_id ((?xs[i := ?t3]) ! i)) (?xs[i := ?t3]) = Some i"
    using ids i by (intro findIndex_distinct) (simp_all add: same)
  then have found: "findIndex (\<lambda>x. t_id x = t_id (?xs ! i)) (?xs[i := ?t3]) = Some i"
    using i by simp
  have cl: "trades (snd (closeTrade now (snd us) (t_id (?xs ! i)) ?st1))
              = ?xs[i := closedTrade now (snd us) (marketPrices st) ?t3]"
    using found i opn by (simp add: closeTrade_def Let_def closedTrade_def)
  show ?thesis
    unfolding refreshTrade_alt refreshed_def
    using cl by (simp add: Let_def)
qed

lemma refreshTrades_nth:
  assumes "distinct (map t_id (trades st))" and "distinct is"
    and "\<forall>i\<in>set is. i < length (trades st) \<and> t_status (trades st ! i) = TradeOpen"
    and "j < length (trades st)"
  shows "trades (refreshTrades now td k is st) ! j =
           (case findIndex (\<lambda>i. i = j) is of
              None \<Rightarrow> trades st ! j
            | Some m \<Rightarrow> refreshed now (td (k + m)) (marketPrices st) (trades st ! j))"
  using assms
proof (induction "is" arbitrary: k st)
  case Nil
  show ?case by simp
next
  case (Cons i rest)
  let ?st' = "refreshTrade now (td k) i st"
  let ?r = "refreshed now (td k) (marketPrices st) (trades st ! i)"
  have i: "i < length (trades st)" and opn: "t_status (trades st ! i) = TradeOpen"
    using Cons.prems(3) by simp_all
  have tr: "trades ?st' = (trades st)[i := ?r]"
    by (rule refreshTrade_distinct [OF Cons.prems(1) i opn])
  have ids: "distinct (map t_id (trades ?st'))"
    unfolding tr using Cons.prems(1) by (simp add: map_update_same)
  have rest: "\<forall>i'\<in>set rest. i' < length (trades ?st') \<and> t_status (trades ?st' ! i') = TradeOpen"
  proof
    fix i' assume mem: "i' \<in> set rest"
    with Cons.prems(2) have "i' \<noteq> i" by auto
    with mem Cons.prems(3) show
      "i' < length (trades ?st') \<and> t_status (trades ?st' ! i') = TradeOpen"
      unfolding tr by simp
  qed
  have j: "j < length (trades ?st')" unfolding tr using Cons.prems(4) by simp
  have IH: "trades (refreshTrades now td (Suc k) rest ?st') ! j =
           (case findIndex (\<lambda>i. i = j) rest of
              None \<Rightarrow> trades ?st' ! j
            | Some m \<Rightarrow> refreshed now (td (Suc k + m)) (marketPrices ?st') (trades ?st' ! j))"
    using Cons.prems(2) by (intro Cons.IH [OF ids _ rest j]) simp
  show ?case
  proof (cases "i = j")
    case True
    with Cons.prems(2) have "findIndex (\<lambda>i. i = j) rest = None"
      by (auto simp: findIndex_None_iff)
    with True IH tr i show ?thesis by simp
  next
    case False
    with IH tr show ?thesis by (simp split: option.splits)
  qed
qed

lemma openIndices_props:
  "distinct (openIndices ts)"
  "\<forall>i\<in>set (openIndices ts). i < length ts \<and> t_status (ts ! i) = TradeOpen"
  by (simp_all add: openIndices_def)

lemma refresh_closes_iff:
  assumes ids: "distinct (map t_id (trades st))"
    and slot: "findIndex (\<lambda>j. j = i) (openIndices (trades st)) = Some k"
  shows "(t_status (trades (updateMarketPrices now pd td st) ! i) = TradeClosed) =
           fst (checkStopLossAndTakeProfit (trades st ! i)
                  (getCurrentPrice (perturbPrices now pd 0 (marketPrices st))
                     (t_symbol (trades st ! i)) (fst (td k))))"
proof -
  let ?st1 = "st\<lparr>marketPrices := perturbPrices now pd 0 (marketPrices st)\<rparr>"
  from findIndex_Some_mem [OF slot] have "i \<in> set (openIndices (trades st))"
    by (metis nth_mem)
  then have i: "i < length (trades st)" and opn: "t_status (trades st ! i) = TradeOpen"
    using openIndices_props(2) by auto
  have "trades (refreshTrades now td 0 (openIndices (trades ?st1)) ?st1) ! i =
          refreshed now (td (0 + k)) (marketPrices ?st1) (trades ?st1 ! i)"
    using refreshTrades_nth [of ?st1 "openIndices (trades ?st1)" i now td 0]
      ids openIndices_props [of "trades st"] i slot by simp
  then show ?thesis
    using opn by (simp add: updateMarketPrices_def Let_def refreshed_status)
qed

lemma loss_opened:
  "lossOpened =
     \<lparr> trades = [lossTrade],
       account = \<lparr> balance = 9541, acct_maxDailyLoss = None, dailyLossUsed = Some 0,
                   lastResetDate = Some 1000 \<rparr>,
       marketPrices = marketPrices (initialEngine 0) \<rparr>"
  by (simp add: lossOpened_def lossSignal_def scenarioSignal_def lossTrade_def engine_defs
      risk_defs Let_def)

lemma loss_refreshed:
  "lossRefreshed =
     \<lparr> trades = [lossTrade\<lparr>t_currentPrice := Some 44955, t_pnl := - (189 / 20),
                   t_holdingPeriod := Some (1 / 60), t_returnPercentage := Some (- (35 / 17)),
                   t_status := TradeClosed, t_closedAt := Some 2000\<rparr>],
       account = \<lparr> balance = 199811 / 20, acct_maxDailyLoss = None, dailyLossUsed = Some 0,
                   lastResetDate = Some 1000 \<rparr>,
       marketPrices = [quoteEntry BTC 45000 (5 / 2) 2000, quoteEntry GOLD 2000 (- (4 / 5)) 2000] \<rparr>"
  unfolding lossRefreshed_def loss_opened
  by (simp add: tick_defs lossTrade_def quoteEntry_def Let_def)

lemma closeTrade_dailyLoss [simp]:
  "dailyLossUsed (account (snd (closeTrade now u tradeId st))) = dailyLossUsed (account st)"
  by (auto simp: closeTrade_def Let_def split: option.splits)

lemma refreshTrade_dailyLoss [simp]:
  "dailyLossUsed (account (refreshTrade now us i st)) = dailyLossUsed (account st)"
  by (simp add: refreshTrade_def Let_def)

lemma refreshTrades_dailyLoss [simp]:
  "dailyLossUsed (account (refreshTrades now td k is st)) = dailyLossUsed (account st)"
  by (induction "is" arbitrary: k st) simp_all

text \<open>No refresh pass changes the daily-loss counter.\<close>

lemma refresh_keeps_daily_loss:
  "dailyLossUsed (account (updateMarketPrices now pd td st)) = dailyLossUsed (account st)"
  by (simp add: updateMarketPrices_def Let_def)

text \<open>
  C6. A level counts as carried when the field is set and not zero, which is the
  test the source applies to it. \<open>checkStopLossAndTakeProfit\<close> asks to close a BUY
  exactly when the trade carries a stop-loss and the price is at or below it, or
  carries a take-profit and the price is at or above it; for a SELL the
  comparisons are mirrored; with neither level it never asks to close. In a
  refresh pass over trades with distinct ids, the \<open>k\<close>-th trade of the open-trade
  snapshot is closed after the pass exactly when its re-quote meets the condition:
  a trade stays open through every pass whose quote misses its levels and is
  closed by the first pass whose quote reaches one.
\<close>

theorem exit_conditions:
  "(fst (checkStopLossAndTakeProfit trade p) \<longleftrightarrow>
      (if t_action trade = BUY
       then truthy (t_stopLoss trade) \<and> p \<le> the (t_stopLoss trade)
            \<or> truthy (t_takeProfit trade) \<and> the (t_takeProfit trade) \<le> p
       else truthy (t_stopLoss trade) \<and> the (t_stopLoss trade) \<le> p
            \<or> truthy (t_takeProfit trade) \<and> p \<le> the (t_takeProfit trade)))
   \<and> (t_stopLoss trade = None \<and> t_takeProfit trade = None \<longrightarrow>
        \<not> fst (checkStopLossAndTakeProfit trade p))
   \<and> (distinct (map t_id (trades st)) \<longrightarrow>
        findIndex (\<lambda>j. j = i) (openIndices (trades st)) = Some k \<longrightarrow>
        (t_status (trades (updateMarketPrices now pd td st) ! i) = TradeClosed \<longleftrightarrow>
           fst (checkStopLossAndTakeProfit (trades st ! i)
                  (getCurrentPrice (perturbPrices now pd 0 (marketPrices st))
                     (t_symbol (trades st ! i)) (fst (td k))))))"
proof (intro conjI impI)
  show "fst (checkStopLossAndTakeProfit trade p) \<longleftrightarrow>
      (if t_action trade = BUY
       then truthy (t_stopLoss trade) \<and> p \<le> the (t_stopLoss trade)
            \<or> truthy (t_takeProfit trade) \<and> the (t_takeProfit trade) \<le> p
       else truthy (t_stopLoss trade) \<and> the (t_stopLoss trade) \<le> p
            \<or> truthy (t_takeProfit trade) \<and> p \<le> the (t_takeProfit trade))"
    by (auto simp: checkStopLossAndTakeProfit_def)
next
  assume "t_stopLoss trade = None \<and> t_takeProfit trade = None"
  then show "\<not> fst (checkStopLossAndTakeProfit trade p)"
    by (simp add: checkStopLossAndTakeProfit_def truthy_def)
next
  assume "distinct (map t_id (trades st))"
    and "findIndex (\<lambda>j. j = i) (openIndices (trades st)) = Some k"
  then show "t_status (trades (updateMarketPrices now pd td st) ! i) = TradeClosed \<longleftrightarrow>
           fst (checkStopLossAndTakeProfit (trades st ! i)
                  (getCurrentPrice (perturbPrices now pd 0 (marketPrices st))
                     (t_symbol (trades st ! i)) (fst (td k))))"
    by (rule refresh_closes_iff)
qed

text \<open>The losing trade: its re-quote 44955 is below the stop-loss 44982.\<close>

theorem exit_conditions_witness:
  "fst (checkStopLossAndTakeProfit lossTrade 44955) \<and>
   44955 \<le> the (t_stopLoss lossTrade) \<and>
   t_stopLoss (lossTrade\<lparr>t_stopLoss := None, t_takeProfit := None\<rparr>) = None \<and>
   t_takeProfit (lossTrade\<lparr>t_stopLoss := None, t_takeProfit := None\<rparr>) = None \<and>
   \<not> fst (checkStopLossAndTakeProfit (lossTrade\<lparr>t_stopLoss := None, t_takeProfit := None\<rparr>) 44955) \<and>
   distinct (map t_id (trades lossOpened)) \<and>
   findIndex (\<lambda>j. j = 0) (openIndices (trades lossOpened)) = Some 0 \<and>
   getCurrentPrice (perturbPrices 2000 (btcDraw (1 / 2)) 0 (marketPrices lossOpened)) BTC (9 / 20)
     = 44955 \<and>
   t_status (trades (updateMarketPrices 2000 (btcDraw (1 / 2)) (\<lambda>k. (9 / 20, 9 / 20))
               lossOpened) ! 0) = TradeClosed"
  using exit_conditions [of lossTrade 44955 lossOpened 0 0 2000 "btcDraw (1 / 2)"
      "\<lambda>k. (9 / 20, 9 / 20)"]
    exit_conditions [of "lossTrade\<lparr>t_stopLoss := None, t_takeProfit := None\<rparr>" 44955
      lossOpened 0 0 2000 "btcDraw (1 / 2)" "\<lambda>k. (9 / 20, 9 / 20)"]
  unfolding loss_opened
  by (simp add: lossTrade_def truthy_def openIndices_def initialEngine_def btcDraw_def
      getCurrentPrice_def Let_def)

text \<open>
  C5, at a refresh that closes a trade at a loss. The pass closes the trade with
  a profit of \<open>-9.45\<close> and the daily-loss counter is what it was, 0;
  \<open>updateDailyLoss\<close>, which no operation of the engine calls, would have made it
  9.45.
\<close>

theorem refresh_does_not_record_loss:
  "map t_status (trades lossOpened) = [TradeOpen] \<and>
   map t_status (trades lossRefreshed) = [TradeClosed] \<and>
   map t_pnl (trades lossRefreshed) = [- (189 / 20)] \<and>
   dailyLossUsed (account lossOpened) = Some 0 \<and>
   dailyLossUsed (account lossRefreshed) = Some 0 \<and>
   dailyLossUsed (updateDailyLoss 2000 (account lossOpened) (- (189 / 20))) = Some (189 / 20)"
  unfolding loss_opened loss_refreshed
  by (simp add: lossTrade_def updateDailyLoss_def dayOf_def orElse_def Let_def)

section \<open>Repeated execution of a signal\<close>

lemma small_opened:
  "executeSignal defaultRiskSettings 1000 ''trade_1'' (1 / 2) smallSignal (initialEngine 0)
     = (Inr (sampleTrade\<lparr>t_quantity := 1 / 100, t_pnl := 5\<rparr>),
        \<lparr> trades = [sampleTrade\<lparr>t_quantity := 1 / 100, t_pnl := 5\<rparr>],
          account = \<lparr> balance = 9555, acct_maxDailyLoss = None, dailyLossUsed = Some 0,
                      lastResetDate = Some 1000 \<rparr>,
          marketPrices = marketPrices (initialEngine 0) \<rparr>)"
  by (simp add: smallSignal_def scenarioSignal_def sampleTrade_def engine_defs risk_defs Let_def)

text \<open>
  C9, as the code has it. \<open>executeSignal\<close> looks at no signal id: whenever the
  risk validation lets the signal through and, for a BUY, the balance covers the
  trade value, the call creates a trade for the signal and moves the balance,
  whether or not the trade list holds a trade of the same signal already.
\<close>

theorem executeSignal_no_signal_guard:
  assumes "canExecute (fst (validateSignalExecution rs now signal (account st) (getOpenTrades st)))"
    and "\<not> (s_action signal = BUY \<and>
             balance (account st) < s_price signal *
               orElse (adjustedQuantity (fst (validateSignalExecution rs now signal (account st)
                                                 (getOpenTrades st))))
                      (s_quantity signal))"
  shows "\<exists>t. fst (executeSignal rs now tid u signal st) = Inr t \<and>
             t_signalId t = s_id signal \<and> t_status t = TradeOpen \<and>
             trades (snd (executeSignal rs now tid u signal st)) = trades st @ [t] \<and>
             balance (account (snd (executeSignal rs now tid u signal st)))
               = balance (account st)
                 + (if s_action signal = BUY then - (s_price signal * t_quantity t)
                    else s_price signal * t_quantity t)"
proof -
  obtain v a where
    va: "validateSignalExecution rs now signal (account st) (getOpenTrades st) = (v, a)"
    by (cases "validateSignalExecution rs now signal (account st) (getOpenTrades st)")
  have bal: "balance a = balance (account st)"
    using validate_balance [of rs now signal "account st" "getOpenTrades st"] va by simp
  obtain sl tp where lv: "calculateRiskLevels rs signal = (sl, tp)"
    by (cases "calculateRiskLevels rs signal")
  from assms va bal lv have "\<exists>t st'. executeSignal rs now tid u signal st = (Inr t, st')"
    by (simp add: executeSignal_def Let_def)
  then obtain t st' where
    ex: "executeSignal rs now tid u signal st = (Inr t, st')" by blast
  from executeSignal_success [OF ex] ex show ?thesis by simp
qed


lemma small_opened_state:
  "smallOpened =
     \<lparr> trades = [sampleTrade\<lparr>t_quantity := 1 / 100, t_pnl := 5\<rparr>],
       account = \<lparr> balance = 9555, acct_maxDailyLoss = None, dailyLossUsed = Some 0,
                   lastResetDate = Some 1000 \<rparr>,
       marketPrices = marketPrices (initialEngine 0) \<rparr>"
  by (simp add: smallOpened_def small_opened)

text \<open>The second execution of a signal, on the state the first one left.\<close>

theorem executeSignal_no_signal_guard_witness:
  "canExecute (fst (validateSignalExecution defaultRiskSettings 2000 smallSignal
                      (account smallOpened) (getOpenTrades smallOpened))) \<and>
   balance (account smallOpened) \<ge> s_price smallSignal * s_quantity smallSignal \<and>
   map t_signalId (trades smallOpened) = [s_id smallSignal] \<and>
   (\<exists>t. fst (executeSignal defaultRiskSettings 2000 ''trade_2'' (1 / 2) smallSignal smallOpened)
          = Inr t \<and>
        t_signalId t = s_id smallSignal \<and>
        trades (snd (executeSignal defaultRiskSettings 2000 ''trade_2'' (1 / 2) smallSignal
                       smallOpened)) = trades smallOpened @ [t])"
proof -
  have h1: "canExecute (fst (validateSignalExecution defaultRiskSettings 2000 smallSignal
                      (account smallOpened) (getOpenTrades smallOpened)))"
    unfolding small_opened_state
    by (simp add: smallSignal_def scenarioSignal_def sampleTrade_def risk_defs
        getOpenTrades_def defaultRiskSettings_def Let_def)
  have h2: "\<not> (s_action smallSignal = BUY \<and>
             balance (account smallOpened) < s_price smallSignal *
               orElse (adjustedQuantity (fst (validateSignalExecution defaultRiskSettings 2000
                         smallSignal (account smallOpened) (getOpenTrades smallOpened))))
                      (s_quantity smallSignal))"
    unfolding small_opened_state
    by (simp add: smallSignal_def scenarioSignal_def sampleTrade_def risk_defs
        getOpenTrades_def defaultRiskSettings_def Let_def)
  have h3: "balance (account smallOpened) \<ge> s_price smallSignal * s_quantity smallSignal"
    and h4: "map t_signalId (trades smallOpened) = [s_id smallSignal]"
    unfolding small_opened_state
    by (simp_all add: smallSignal_def scenarioSignal_def sampleTrade_def)
  from executeSignal_no_signal_guard [OF h1 h2, of "''trade_2''" "1 / 2"] h1 h3 h4
  show ?thesis by blast
qed

text \<open>
  C9, as stated: the same signal executed twice gives two trades with its id and
  moves the balance twice, from 10000 to 9555 and on to 9110.
\<close>

theorem executeSignal_twice_counterexample:
  "fst (executeSignal defaultRiskSettings 1000 ''trade_1'' (1 / 2) smallSignal (initialEngine 0))
     = Inr (sampleTrade\<lparr>t_quantity := 1 / 100, t_pnl := 5\<rparr>) \<and>
   smallOpened
     = snd (executeSignal defaultRiskSettings 1000 ''trade_1'' (1 / 2) smallSignal
              (initialEngine 0)) \<and>
   balance (account smallOpened) = 9555 \<and>
   fst (executeSignal defaultRiskSettings 2000 ''trade_2'' (1 / 2) smallSignal smallOpened)
     = Inr (sampleTrade\<lparr>t_id := ''trade_2'', t_quantity := 1 / 100, t_pnl := 5,
                         t_executedAt := 2000\<rparr>) \<and>
   map t_signalId (trades (snd (executeSignal defaultRiskSettings 2000 ''trade_2'' (1 / 2)
                                  smallSignal smallOpened)))
     = [''signal_1'', ''signal_1''] \<and>
   balance (account (snd (executeSignal defaultRiskSettings 2000 ''trade_2'' (1 / 2) smallSignal
                            smallOpened))) = 9110"
  unfolding small_opened_state small_opened
  by (simp add: smallOpened_def small_opened smallSignal_def scenarioSignal_def sampleTrade_def
      engine_defs risk_defs Let_def)

section \<open>Properties of the signal parser\<close>

lemmas parser_defs = parseSignal_def signalPatterns_def pattern1_def pattern2_def pattern3_def
  seqs_def lit_def ascii_def numberRx_def rocketLiteral_def chartUpLiteral_def
  chartDownLiteral_def redTriangleLiteral_def upperUnit_def lowerUnit_def isSpace_def
  isDigit_def isLineTerminator_def determineAction_def buyKeywords_def sellKeywords_def
  toLowerCase_def toUpperCase_def parseFloat_def orElseStr_def digitsValue_def
  calculateQuantity_def truthy_def

text \<open>
  Four of the five documented invalid examples (missing symbol, missing action,
  missing price, unsupported symbol) give no signal.
\<close>

lemma parseSignal_rejects_documented:
  "parseSignal now sid (ascii ''BUY @ $45000'') channelId = None"
  "parseSignal now sid (ascii ''BTC $45000'') channelId = None"
  "parseSignal now sid (ascii ''BUY BTC'') channelId = None"
  "parseSignal now sid (ascii ''BUY ETH $3000'') channelId = None"
  by (simp_all add: parser_defs)

text \<open>
  C7, at the documented malformed price. The first pattern matches the prefix
  \<open>BUY BTC $45\<close> of \<open>BUY BTC $45,000.00.50\<close>, and \<open>parseSignal\<close> returns a BUY BTC
  signal at price 45 where the documentation says the text will not parse.
\<close>

theorem parseSignal_malformed_price:
  "parseSignal now sid (ascii ''BUY BTC $45,000.00.50'') channelId =
     Some \<lparr> s_id = sid, s_channelId = channelId, s_symbol = ascii ''BTC'', s_action = BUY,
            s_price = 45, s_quantity = 1 / 100,
            s_signalText = ascii ''BUY BTC $45,000.00.50'', s_parsedAt = now,
            s_status = Pending \<rparr>"
  by (simp add: parser_defs)

text \<open>
  C10, at a message with a rocket emoji (\<open>U+1F680\<close>, the code units \<open>D83D DE80\<close>)
  and the word SELL. The emoji literals of the source file are mis-encoded, so the
  rocket is not recognised as a bullish keyword and the signal is a SELL.
\<close>

theorem parseSignal_rocket_with_sell:
  "parseSignal now sid (ascii ''SELL BTC @ $45000 '' @ [0xD83D, 0xDE80]) channelId =
     Some \<lparr> s_id = sid, s_channelId = channelId, s_symbol = ascii ''BTC'', s_action = SELL,
            s_price = 45000, s_quantity = 1 / 100,
            s_signalText = ascii ''SELL BTC @ $45000 '' @ [0xD83D, 0xDE80], s_parsedAt = now,
            s_status = Pending \<rparr>"
  by (simp add: parser_defs)

lemma tryPatterns_action:
  "tryPatterns now sid t channelId ps = Some sg \<Longrightarrow>
   determineAction t = Some (s_action sg) \<and> s_signalText sg = t"
proof (induction ps)
  case Nil
  then show ?case by simp
next
  case (Cons p ps)
  then show ?case
    by (auto simp: Let_def split: option.splits if_splits)
qed

lemma startsWith_set: "startsWith s k \<Longrightarrow> set k \<subseteq> set s"
  by (induction s k rule: startsWith.induct) auto

lemma includesStr_set: "includesStr s k \<Longrightarrow> set k \<subseteq> set s"
proof (induction s)
  case Nil
  then show ?case by simp
next
  case (Cons a s)
  from Cons.prems have "startsWith (a # s) k \<or> includesStr s k" by simp
  then show ?case
  proof
    assume "startsWith (a # s) k"
    then show ?thesis by (rule startsWith_set)
  next
    assume "includesStr s k"
    then have "set k \<subseteq> set s" by (rule Cons.IH)
    then show ?thesis by auto
  qed
qed

lemma lowerUnit_not_376: "lowerUnit c \<noteq> 0x178"
  by (simp add: lowerUnit_def)

lemma toLowerCase_no_376: "0x178 \<notin> set (toLowerCase t)"
  using lowerUnit_not_376 by (auto simp: toLowerCase_def)

text \<open>
  The four emoji literals of the source contain \<open>U+0178\<close>, which no lower-cased
  text contains: they never match, whatever the message is.
\<close>

lemma emoji_literals_never_match:
  "\<not> includesStr (toLowerCase t) rocketLiteral"
  "\<not> includesStr (toLowerCase t) chartUpLiteral"
  "\<not> includesStr (toLowerCase t) chartDownLiteral"
  "\<not> includesStr (toLowerCase t) redTriangleLiteral"
  using toLowerCase_no_376 [of t]
  by (auto dest!: includesStr_set
      simp: rocketLiteral_def chartUpLiteral_def chartDownLiteral_def redTriangleLiteral_def)

text \<open>
  The direction of an accepted message: BUY when the lower-cased text contains
  one of the words buy, long, bullish, whatever else it contains; SELL otherwise,
  and then it contains one of sell, short, bearish.
\<close>

lemma parseSignal_direction:
  assumes "parseSignal now sid t channelId = Some sg"
  shows "s_action sg =
           (if includesStr (toLowerCase t) (ascii ''buy'') \<or>
               includesStr (toLowerCase t) (ascii ''long'') \<or>
               includesStr (toLowerCase t) (ascii ''bullish'')
            then BUY else SELL)"
    and "s_action sg = SELL \<Longrightarrow>
           includesStr (toLowerCase t) (ascii ''sell'') \<or>
           includesStr (toLowerCase t) (ascii ''short'') \<or>
           includesStr (toLowerCase t) (ascii ''bearish'')"
proof -
  from assms have act: "determineAction t = Some (s_action sg)"
    unfolding parseSignal_def by (rule tryPatterns_action [THEN conjunct1])
  then show "s_action sg =
           (if includesStr (toLowerCase t) (ascii ''buy'') \<or>
               includesStr (toLowerCase t) (ascii ''long'') \<or>
               includesStr (toLowerCase t) (ascii ''bullish'')
            then BUY else SELL)"
    using emoji_literals_never_match [of t]
    by (auto simp: determineAction_def buyKeywords_def sellKeywords_def Let_def
        split: if_splits)
  from act show "s_action sg = SELL \<Longrightarrow>
           includesStr (toLowerCase t) (ascii ''sell'') \<or>
           includesStr (toLowerCase t) (ascii ''short'') \<or>
           includesStr (toLowerCase t) (ascii ''bearish'')"
    using emoji_literals_never_match [of t]
    by (auto simp: determineAction_def buyKeywords_def sellKeywords_def Let_def
        split: if_splits)
qed

section \<open>Properties of the query surface\<close>

lemma newArray_state:
  assumes "allocated svc h"
  shows "serviceState svc (snd (newArray ys h)) = serviceState svc h"
    and "readArray (fst (newArray ys h)) (snd (newArray ys h)) = ys"
    and "serviceState svc (setArray (fst (newArray ys h)) xs (snd (newArray ys h)))
           = serviceState svc h"
  using assms
  by (simp_all add: newArray_def serviceState_def readArray_def setArray_def allocated_def)

text \<open>
  C8, as the code has it. Every query leaves the engine's state as it is and
  returns a new container: a new array with the references of the engine's trade
  or quote objects, or a new account object with the fields of the engine's
  account. Whatever a caller then writes into the returned array, or assigns to
  the fields of the returned account, the engine's trade list, account and quote
  table are as before.
\<close>

theorem queries_return_fresh_containers:
  assumes "allocated svc h"
  shows "serviceState svc (snd (getTradesS svc h)) = serviceState svc h \<and>
         serviceState svc (snd (getOpenTradesS svc h)) = serviceState svc h \<and>
         serviceState svc (snd (getClosedTradesS svc h)) = serviceState svc h \<and>
         serviceState svc (snd (getMarketPricesS svc h)) = serviceState svc h \<and>
         serviceState svc (snd (getAccountS svc h)) = serviceState svc h \<and>
         readArray (fst (getTradesS svc h)) (snd (getTradesS svc h))
           = readArray (tradesRef svc) h \<and>
         readArray (fst (getMarketPricesS svc h)) (snd (getMarketPricesS svc h))
           = readArray (marketPricesRef svc) h \<and>
         accountObjs (snd (getAccountS svc h)) (fst (getAccountS svc h))
           = accountObjs h (accountRef svc) \<and>
         serviceState svc (setArray (fst (getTradesS svc h)) xs (snd (getTradesS svc h)))
           = serviceState svc h \<and>
         serviceState svc (setArray (fst (getOpenTradesS svc h)) xs (snd (getOpenTradesS svc h)))
           = serviceState svc h \<and>
         serviceState svc (setArray (fst (getClosedTradesS svc h)) xs
                             (snd (getClosedTradesS svc h)))
           = serviceState svc h \<and>
         serviceState svc (setArray (fst (getMarketPricesS svc h)) xs
                             (snd (getMarketPricesS svc h)))
           = serviceState svc h \<and>
         serviceState svc (setAccount (fst (getAccountS svc h)) f (snd (getAccountS svc h)))
           = serviceState svc h"
proof -
  have acc: "serviceState svc (snd (getAccountS svc h)) = serviceState svc h"
    "accountObjs (snd (getAccountS svc h)) (fst (getAccountS svc h))
           = accountObjs h (accountRef svc)"
    "serviceState svc (setAccount (fst (getAccountS svc h)) f (snd (getAccountS svc h)))
           = serviceState svc h"
    using assms
    by (simp_all add: getAccountS_def serviceState_def readArray_def setAccount_def
        allocated_def)
  show ?thesis
    unfolding getTradesS_def getOpenTradesS_def getClosedTradesS_def getMarketPricesS_def
    using newArray_state [OF assms] acc by simp
qed

text \<open>A caller empties the array \<open>getTrades\<close> returned and zeroes the balance of the account \<open>getAccount\<close> returned.\<close>

theorem queries_return_fresh_containers_witness:
  "allocated sampleService sampleStore \<and>
   readArray (fst (getTradesS sampleService sampleStore))
     (snd (getTradesS sampleService sampleStore)) = [3] \<and>
   serviceState sampleService
     (setArray (fst (getTradesS sampleService sampleStore)) []
        (snd (getTradesS sampleService sampleStore)))
     = serviceState sampleService sampleStore \<and>
   serviceState sampleService
     (setAccount (fst (getAccountS sampleService sampleStore)) (assignBalance 0)
        (snd (getAccountS sampleService sampleStore)))
     = serviceState sampleService sampleStore \<and>
   fst (serviceState sampleService sampleStore) = [Some sampleTrade]"
proof -
  have a: "allocated sampleService sampleStore"
    by (simp add: allocated_def sampleService_def sampleStore_def)
  have r: "readArray (tradesRef sampleService) sampleStore = [3]"
    and s: "fst (serviceState sampleService sampleStore) = [Some sampleTrade]"
    by (simp_all add: readArray_def serviceState_def sampleService_def sampleStore_def)
  from queries_return_fresh_containers [OF a, of "[]" "assignBalance 0"] a r s
  show ?thesis by simp
qed

text \<open>
  C8, as stated: the array \<open>getTrades\<close> returns holds the engine's own trade object,
  and the caller's assignment \<open>getTrades()[0].pnl = 999\<close> changes the trade in the
  engine's list.
\<close>

theorem shared_trade_objects_counterexample:
  "readArray (fst (getTradesS sampleService sampleStore))
     (snd (getTradesS sampleService sampleStore)) = [3] \<and>
   fst (serviceState sampleService sampleStore) = [Some sampleTrade] \<and>
   fst (serviceState sampleService
          (setTrade 3 (assignPnl 999) (snd (getTradesS sampleService sampleStore))))
     = [Some (assignPnl 999 sampleTrade)] \<and>
   assignPnl 999 sampleTrade \<noteq> sampleTrade"
  by (simp add: getTradesS_def newArray_def readArray_def serviceState_def setTrade_def
      sampleService_def sampleStore_def assignPnl_def sampleTrade_def)

end
